theory Spec2Isabelle
  imports Main "HOL-Library.Word" "HOL-Library.Signed_Division"
begin

unbundle bit_operations_syntax

chapter \<open>MKVSource: the read buffer and the EBML/Matroska parser of Parse.cpp\<close>

text \<open>
  The development embeds the parts of \<^verbatim>\<open>Parse.cpp\<close>, \<^verbatim>\<open>Parse.h\<close> and
  \<^verbatim>\<open>MKVSource.cpp\<close> that read the Matroska container: the growable read buffer, the
  variable-length integer codec, the element reader, the model builder and the
  SimpleBlock framer.  \<^verbatim>\<open>DWORD\<close> is \<open>32 word\<close>, \<^verbatim>\<open>BYTE\<close> is \<open>8 word\<close>,
  \<^verbatim>\<open>UINT64\<close>/\<^verbatim>\<open>LONG64\<close> are \<open>64 word\<close> (read with \<open>uint\<close> or \<open>sint\<close>), and \<^verbatim>\<open>int\<close> is
  \<open>32 word\<close> read with \<open>sint\<close>.  C++ exceptions are values of the type \<open>fault\<close>, and so
  is undefined behaviour, except where the text before a definition names the result
  that the model takes.
\<close>

type_synonym BYTE = "8 word"
type_synonym DWORD = "32 word"
type_synonym QWORD = "64 word"

datatype fault =
    InvalidArgumentException
  | ContradictoryArguments
  | XiphLacingNotSupported
  | LacedFrameSizeTooBig
  | CircularBufferTooSmall
  | ReadOutOfBounds
  | NullDereference
  | UninitializedPointer
  | MapEndDereference
  | DivisionByZero
  | StackBufferOverrun
  | HeapBufferOverrun
  | VectorIndexOutOfRange
  | ConversionOutOfRange
  | UninitializedRead
  | InvalidDelete

section \<open>Buffer\<close>

text \<open>
  \<^verbatim>\<open>ref class Buffer\<close>: the managed array, its nominal count, its allocation size and
  the begin and end offsets of the data.  The field \<open>allocations\<close> is not in the source:
  it counts the executions of \<^verbatim>\<open>ref new Array<BYTE>(alloc)\<close> in \<^verbatim>\<open>Allocate\<close>, so that
  statements about the number of allocations can be written.  The \<^verbatim>\<open>assert\<close>s of the
  source are not executed in the model; the invariant they state is proved below.
\<close>

record Buffer =
  m_array :: "BYTE list"
  m_count :: DWORD
  m_allocated :: DWORD
  m_begin :: DWORD
  m_end :: DWORD
  allocations :: nat

definition MAXDWORD :: DWORD where
  "MAXDWORD = 0xFFFFFFFF"

definition DataSize :: "Buffer \<Rightarrow> DWORD" where
  "DataSize b = m_end b - m_begin b"

definition CurrentFreeSize :: "Buffer \<Rightarrow> DWORD" where
  "CurrentFreeSize b = m_count b - DataSize b"

definition Allocate :: "DWORD \<Rightarrow> Buffer \<Rightarrow> Buffer" where
  "Allocate alloc b =
     (if alloc > m_allocated b
      then b\<lparr> m_array := take (unat (m_count b)) (m_array b)
                   @ replicate (unat alloc - unat (m_count b)) 0,
               m_allocated := alloc,
               allocations := Suc (allocations b) \<rparr>
      else b)"

definition SetSize :: "DWORD \<Rightarrow> Buffer \<Rightarrow> Buffer" where
  "SetSize count b =
     (let b1 = (if count > m_allocated b then Allocate count b else b)
      in b1\<lparr> m_count := count \<rparr>)"

text \<open>The constructor \<^verbatim>\<open>Buffer::Buffer(cbSize)\<close>; the array is zero-filled.\<close>

definition Buffer_new :: "DWORD \<Rightarrow> Buffer" where
  "Buffer_new cbSize =
     (let b = SetSize cbSize
                \<lparr> m_array = [], m_count = 0, m_allocated = 0, m_begin = 0, m_end = 0,
                  allocations = 0 \<rparr>
      in b\<lparr> m_array := replicate (unat cbSize) 0 @ drop (unat cbSize) (m_array b) \<rparr>)"

text \<open>\<^verbatim>\<open>MoveMemory(Ptr, DataPtr, DataSize)\<close>: the data bytes are copied to the front.\<close>

definition MoveMemory_front :: "Buffer \<Rightarrow> BYTE list" where
  "MoveMemory_front b =
     take (unat (DataSize b)) (drop (unat (m_begin b)) (m_array b))
       @ drop (unat (DataSize b)) (m_array b)"

definition Reserve :: "DWORD \<Rightarrow> Buffer \<Rightarrow> fault + Buffer" where
  "Reserve cb b =
     (if cb > MAXDWORD - DataSize b then Inl InvalidArgumentException
      else if cb > m_count b - m_end b
      then (let b1 = (if cb > CurrentFreeSize b then SetSize (DataSize b + cb) b else b);
                b2 = b1\<lparr> m_array := MoveMemory_front b1 \<rparr>;
                b3 = b2\<lparr> m_end := DataSize b2 \<rparr>
            in Inr (b3\<lparr> m_begin := 0 \<rparr>))
      else Inr b)"

definition MoveStart :: "DWORD \<Rightarrow> Buffer \<Rightarrow> fault + Buffer" where
  "MoveStart cb b =
     (if cb > DataSize b then Inl InvalidArgumentException
      else Inr (b\<lparr> m_begin := m_begin b + cb \<rparr>))"

definition MoveEnd :: "DWORD \<Rightarrow> Buffer \<Rightarrow> fault + Buffer" where
  "MoveEnd cb b =
     (case Reserve cb b of
        Inl e \<Rightarrow> Inl e
      | Inr b1 \<Rightarrow> Inr (b1\<lparr> m_end := m_end b1 + cb \<rparr>))"

text \<open>
  The buffer states a client can reach: the constructor, then any sequence of the three
  public operations that return without throwing.
\<close>

inductive reachable :: "Buffer \<Rightarrow> bool" where
  reach_new: "reachable (Buffer_new cbSize)"
| reach_Reserve: "reachable b \<Longrightarrow> Reserve cb b = Inr b' \<Longrightarrow> reachable b'"
| reach_MoveStart: "reachable b \<Longrightarrow> MoveStart cb b = Inr b' \<Longrightarrow> reachable b'"
| reach_MoveEnd: "reachable b \<Longrightarrow> MoveEnd cb b = Inr b' \<Longrightarrow> reachable b'"

text \<open>The invariant the source asserts: \<open>begin \<le> end \<le> count \<le> allocated\<close>.\<close>

definition buffer_inv :: "Buffer \<Rightarrow> bool" where
  "buffer_inv b \<longleftrightarrow>
     m_begin b \<le> m_end b \<and> m_end b \<le> m_count b \<and> m_count b \<le> m_allocated b"

section \<open>Results of fallible code\<close>

text \<open>
  A computation either does not return (\<open>None\<close>: a loop that runs forever, or a fuel
  bound that was too small), or it stops with a fault (\<open>Some (Inl e)\<close>: a thrown exception
  or undefined behaviour), or it returns a value (\<open>Some (Inr x)\<close>).
\<close>

type_synonym 'a result = "(fault + 'a) option"

definition ok :: "'a \<Rightarrow> 'a result" where
  "ok x = Some (Inr x)"

definition throw :: "fault \<Rightarrow> 'a result" where
  "throw e = Some (Inl e)"

definition bindR :: "'a result \<Rightarrow> ('a \<Rightarrow> 'b result) \<Rightarrow> 'b result" where
  "bindR m f = (case m of None \<Rightarrow> None | Some (Inl e) \<Rightarrow> Some (Inl e) | Some (Inr x) \<Rightarrow> f x)"

section \<open>Element types and the schema table\<close>

text \<open>
  \<^verbatim>\<open>enum EET\<close> of Parse.h.  The source gives \<^verbatim>\<open>_UNSIGNED\<close> and \<^verbatim>\<open>_SIGNED\<close> the same
  value 3, so they are one constructor here.
\<close>

datatype EET =
    EET_VOID | EET_MASTER | EET_UNSIGNED | EET_TEXTA | EET_TEXTU | EET_BINARY
  | EET_FLOAT | EET_DATE | EET_JUST_GO_ON

abbreviation EET_SIGNED :: EET where
  "EET_SIGNED \<equiv> EET_UNSIGNED"

text \<open>\<^verbatim>\<open>struct type_name\<close>; a null \<^verbatim>\<open>const char*\<close> is \<open>None\<close>.\<close>

datatype type_name = type_name (tn_type: EET) (tn_name: "string option")

text \<open>The entries of the table, in the order of the source.\<close>

definition element_types_names_table :: "(DWORD \<times> type_name) list" where
  "element_types_names_table = [
    (0x1A45DFA3, type_name EET_MASTER (Some ''EBML'')),
    (0x4286, type_name EET_UNSIGNED (Some ''EBMLVersion'')),
    (0x42F7, type_name EET_UNSIGNED (Some ''EBMLReadVersion'')),
    (0x42F2, type_name EET_UNSIGNED (Some ''EBMLMaxIDLength'')),
    (0x42F3, type_name EET_UNSIGNED (Some ''EBMLMaxSizeLength'')),
    (0x4282, type_name EET_TEXTA (Some ''DocType'')),
    (0x4287, type_name EET_UNSIGNED (Some ''DocTypeVersion'')),
    (0x4285, type_name EET_UNSIGNED (Some ''DocTypeReadVersion'')),
    (0xEC, type_name EET_BINARY (Some ''Void'')),
    (0xBF, type_name EET_BINARY (Some ''CRC-32'')),
    (0x1B538667, type_name EET_MASTER (Some ''SignatureSlot'')),
    (0x7E8A, type_name EET_UNSIGNED (Some ''SignatureAlgo'')),
    (0x7E9A, type_name EET_UNSIGNED (Some ''SignatureHash'')),
    (0x7EA5, type_name EET_BINARY (Some ''SignaturePublicKey'')),
    (0x7EB5, type_name EET_BINARY (Some ''Signature'')),
    (0x7E5B, type_name EET_MASTER (Some ''SignatureElements'')),
    (0x7E7B, type_name EET_MASTER (Some ''SignatureElementList'')),
    (0x6532, type_name EET_BINARY (Some ''SignedElement'')),
    (0x18538067, type_name EET_JUST_GO_ON (Some ''Segment'')),
    (0x114D9B74, type_name EET_MASTER (Some ''SeekHead'')),
    (0x4DBB, type_name EET_MASTER (Some ''Seek'')),
    (0x53AB, type_name EET_BINARY (Some ''SeekID'')),
    (0x53AC, type_name EET_UNSIGNED (Some ''SeekPosition'')),
    (0x1549A966, type_name EET_MASTER (Some ''Info'')),
    (0x73A4, type_name EET_BINARY (Some ''SegmentUID'')),
    (0x7384, type_name EET_TEXTU (Some ''SegmentFilename'')),
    (0x3CB923, type_name EET_BINARY (Some ''PrevUID'')),
    (0x3C83AB, type_name EET_TEXTU (Some ''PrevFilename'')),
    (0x3EB923, type_name EET_BINARY (Some ''NextUID'')),
    (0x3E83BB, type_name EET_TEXTU (Some ''NextFilename'')),
    (0x4444, type_name EET_BINARY (Some ''SegmentFamily'')),
    (0x6924, type_name EET_MASTER (Some ''ChapterTranslate'')),
    (0x69FC, type_name EET_UNSIGNED (Some ''ChapterTranslateEditionUID'')),
    (0x69BF, type_name EET_UNSIGNED (Some ''ChapterTranslateCodec'')),
    (0x69A5, type_name EET_BINARY (Some ''ChapterTranslateID'')),
    (0x2AD7B1, type_name EET_UNSIGNED (Some ''TimecodeScale'')),
    (0x4489, type_name EET_FLOAT (Some ''Duration'')),
    (0x4461, type_name EET_DATE (Some ''DateUTC'')),
    (0x7BA9, type_name EET_TEXTU (Some ''Title'')),
    (0x4D80, type_name EET_TEXTU (Some ''MuxingApp'')),
    (0x5741, type_name EET_TEXTU (Some ''WritingApp'')),
    (0x1F43B675, type_name EET_JUST_GO_ON (Some ''Cluster'')),
    (0xE7, type_name EET_UNSIGNED (Some ''Timecode'')),
    (0x5854, type_name EET_MASTER (Some ''SilentTracks'')),
    (0x58D7, type_name EET_UNSIGNED (Some ''SilentTrackNumber'')),
    (0xA7, type_name EET_UNSIGNED (Some ''Position'')),
    (0xAB, type_name EET_UNSIGNED (Some ''PrevSize'')),
    (0xA3, type_name EET_BINARY (Some ''SimpleBlock'')),
    (0xA0, type_name EET_MASTER (Some ''BlockGroup'')),
    (0xA1, type_name EET_BINARY (Some ''Block'')),
    (0xA2, type_name EET_BINARY (Some ''BlockVirtual'')),
    (0x75A1, type_name EET_MASTER (Some ''BlockAdditions'')),
    (0xA6, type_name EET_MASTER (Some ''BlockMore'')),
    (0xEE, type_name EET_UNSIGNED (Some ''BlockAddID'')),
    (0xA5, type_name EET_BINARY (Some ''BlockAdditional'')),
    (0x9B, type_name EET_UNSIGNED (Some ''BlockDuration'')),
    (0xFA, type_name EET_UNSIGNED (Some ''ReferencePriority'')),
    (0xFB, type_name EET_SIGNED (Some ''ReferenceBlock'')),
    (0xFD, type_name EET_SIGNED (Some ''ReferenceVirtual'')),
    (0xA4, type_name EET_BINARY (Some ''CodecState'')),
    (0x8E, type_name EET_MASTER (Some ''Slices'')),
    (0xE8, type_name EET_MASTER (Some ''TimeSlice'')),
    (0xCC, type_name EET_UNSIGNED (Some ''LaceNumber'')),
    (0xCD, type_name EET_UNSIGNED (Some ''FrameNumber'')),
    (0xCB, type_name EET_UNSIGNED (Some ''BlockAdditionID'')),
    (0xCE, type_name EET_UNSIGNED (Some ''Delay'')),
    (0xCF, type_name EET_UNSIGNED (Some ''SliceDuration'')),
    (0xC8, type_name EET_MASTER (Some ''ReferenceFrame'')),
    (0xC9, type_name EET_UNSIGNED (Some ''ReferenceOffset'')),
    (0xCA, type_name EET_UNSIGNED (Some ''ReferenceTimeCode'')),
    (0xAF, type_name EET_BINARY (Some ''EncryptedBlock'')),
    (0x1654AE6B, type_name EET_MASTER (Some ''Tracks'')),
    (0xAE, type_name EET_MASTER (Some ''TrackEntry'')),
    (0xD7, type_name EET_UNSIGNED (Some ''TrackNumber'')),
    (0x73C5, type_name EET_UNSIGNED (Some ''TrackUID'')),
    (0x83, type_name EET_UNSIGNED (Some ''TrackType'')),
    (0xB9, type_name EET_UNSIGNED (Some ''FlagEnabled'')),
    (0x88, type_name EET_UNSIGNED (Some ''FlagDefault'')),
    (0x55AA, type_name EET_UNSIGNED (Some ''FlagForced'')),
    (0x9C, type_name EET_UNSIGNED (Some ''FlagLacing'')),
    (0x6DE7, type_name EET_UNSIGNED (Some ''MinCache'')),
    (0x6DF8, type_name EET_UNSIGNED (Some ''MaxCache'')),
    (0x23E383, type_name EET_UNSIGNED (Some ''DefaultDuration'')),
    (0x23314F, type_name EET_FLOAT (Some ''TrackTimecodeScale'')),
    (0x537F, type_name EET_SIGNED (Some ''TrackOffset'')),
    (0x55EE, type_name EET_UNSIGNED (Some ''MaxBlockAdditionID'')),
    (0x536E, type_name EET_TEXTU (Some ''Name'')),
    (0x22B59C, type_name EET_TEXTA (Some ''Language'')),
    (0x86, type_name EET_TEXTA (Some ''CodecID'')),
    (0x63A2, type_name EET_BINARY (Some ''CodecPrivate'')),
    (0x258688, type_name EET_TEXTU (Some ''CodecName'')),
    (0x7446, type_name EET_UNSIGNED (Some ''AttachmentLink'')),
    (0x3A9697, type_name EET_TEXTU (Some ''CodecSettings'')),
    (0x3B4040, type_name EET_TEXTA (Some ''CodecInfoURL'')),
    (0x26B240, type_name EET_TEXTA (Some ''CodecDownloadURL'')),
    (0xAA, type_name EET_UNSIGNED (Some ''CodecDecodeAll'')),
    (0x6FAB, type_name EET_UNSIGNED (Some ''TrackOverlay'')),
    (0x6624, type_name EET_MASTER (Some ''TrackTranslate'')),
    (0x66FC, type_name EET_UNSIGNED (Some ''TrackTranslateEditionUID'')),
    (0x66BF, type_name EET_UNSIGNED (Some ''TrackTranslateCodec'')),
    (0x66A5, type_name EET_BINARY (Some ''TrackTranslateTrackID'')),
    (0xE0, type_name EET_MASTER (Some ''Video'')),
    (0x9A, type_name EET_UNSIGNED (Some ''FlagInterlaced'')),
    (0x53B8, type_name EET_UNSIGNED (Some ''StereoMode'')),
    (0x53B9, type_name EET_UNSIGNED (Some ''OldStereoMode'')),
    (0xB0, type_name EET_UNSIGNED (Some ''PixelWidth'')),
    (0xBA, type_name EET_UNSIGNED (Some ''PixelHeight'')),
    (0x54AA, type_name EET_UNSIGNED (Some ''PixelCropBottom'')),
    (0x54BB, type_name EET_UNSIGNED (Some ''PixelCropTop'')),
    (0x54CC, type_name EET_UNSIGNED (Some ''PixelCropLeft'')),
    (0x54DD, type_name EET_UNSIGNED (Some ''PixelCropRight'')),
    (0x54B0, type_name EET_UNSIGNED (Some ''DisplayWidth'')),
    (0x54BA, type_name EET_UNSIGNED (Some ''DisplayHeight'')),
    (0x54B2, type_name EET_UNSIGNED (Some ''DisplayUnit'')),
    (0x54B3, type_name EET_UNSIGNED (Some ''AspectRatioType'')),
    (0x2EB524, type_name EET_BINARY (Some ''ColourSpace'')),
    (0x2FB523, type_name EET_FLOAT (Some ''GammaValue'')),
    (0x2383E3, type_name EET_FLOAT (Some ''FrameRate'')),
    (0xE1, type_name EET_MASTER (Some ''Audio'')),
    (0xB5, type_name EET_FLOAT (Some ''SamplingFrequency'')),
    (0x78B5, type_name EET_FLOAT (Some ''OutputSamplingFrequency'')),
    (0x9F, type_name EET_UNSIGNED (Some ''Channels'')),
    (0x7D7B, type_name EET_BINARY (Some ''ChannelPositions'')),
    (0x6264, type_name EET_UNSIGNED (Some ''BitDepth'')),
    (0xE2, type_name EET_MASTER (Some ''TrackOperation'')),
    (0xE3, type_name EET_MASTER (Some ''TrackCombinePlanes'')),
    (0xE4, type_name EET_MASTER (Some ''TrackPlane'')),
    (0xE5, type_name EET_UNSIGNED (Some ''TrackPlaneUID'')),
    (0xE6, type_name EET_UNSIGNED (Some ''TrackPlaneType'')),
    (0xE9, type_name EET_MASTER (Some ''TrackJoinBlocks'')),
    (0xED, type_name EET_UNSIGNED (Some ''TrackJoinUID'')),
    (0xC0, type_name EET_UNSIGNED (Some ''TrickTrackUID'')),
    (0xC1, type_name EET_BINARY (Some ''TrickTrackSegmentUID'')),
    (0xC6, type_name EET_UNSIGNED (Some ''TrickTrackFlag'')),
    (0xC7, type_name EET_UNSIGNED (Some ''TrickMasterTrackUID'')),
    (0xC4, type_name EET_BINARY (Some ''TrickMasterTrackSegmentUID'')),
    (0x6D80, type_name EET_MASTER (Some ''ContentEncodings'')),
    (0x6240, type_name EET_MASTER (Some ''ContentEncoding'')),
    (0x5031, type_name EET_UNSIGNED (Some ''ContentEncodingOrder'')),
    (0x5032, type_name EET_UNSIGNED (Some ''ContentEncodingScope'')),
    (0x5033, type_name EET_UNSIGNED (Some ''ContentEncodingType'')),
    (0x5034, type_name EET_MASTER (Some ''ContentCompression'')),
    (0x4254, type_name EET_UNSIGNED (Some ''ContentCompAlgo'')),
    (0x4255, type_name EET_BINARY (Some ''ContentCompSettings'')),
    (0x5035, type_name EET_MASTER (Some ''ContentEncryption'')),
    (0x47E1, type_name EET_UNSIGNED (Some ''ContentEncAlgo'')),
    (0x47E2, type_name EET_BINARY (Some ''ContentEncKeyID'')),
    (0x47E3, type_name EET_BINARY (Some ''ContentSignature'')),
    (0x47E4, type_name EET_BINARY (Some ''ContentSigKeyID'')),
    (0x47E5, type_name EET_UNSIGNED (Some ''ContentSigAlgo'')),
    (0x47E6, type_name EET_UNSIGNED (Some ''ContentSigHashAlgo'')),
    (0x1C53BB6B, type_name EET_MASTER (Some ''Cues'')),
    (0xBB, type_name EET_MASTER (Some ''CuePoint'')),
    (0xB3, type_name EET_UNSIGNED (Some ''CueTime'')),
    (0xB7, type_name EET_MASTER (Some ''CueTrackPositions'')),
    (0xF7, type_name EET_UNSIGNED (Some ''CueTrack'')),
    (0xF1, type_name EET_UNSIGNED (Some ''CueClusterPosition'')),
    (0x5378, type_name EET_UNSIGNED (Some ''CueBlockNumber'')),
    (0xEA, type_name EET_UNSIGNED (Some ''CueCodecState'')),
    (0xDB, type_name EET_MASTER (Some ''CueReference'')),
    (0x96, type_name EET_UNSIGNED (Some ''CueRefTime'')),
    (0x97, type_name EET_UNSIGNED (Some ''CueRefCluster'')),
    (0x535F, type_name EET_UNSIGNED (Some ''CueRefNumber'')),
    (0xEB, type_name EET_UNSIGNED (Some ''CueRefCodecState'')),
    (0x1941A469, type_name EET_MASTER (Some ''Attachments'')),
    (0x61A7, type_name EET_MASTER (Some ''AttachedFile'')),
    (0x467E, type_name EET_TEXTU (Some ''FileDescription'')),
    (0x466E, type_name EET_TEXTU (Some ''FileName'')),
    (0x4660, type_name EET_TEXTA (Some ''FileMimeType'')),
    (0x465C, type_name EET_BINARY (Some ''FileData'')),
    (0x46AE, type_name EET_UNSIGNED (Some ''FileUID'')),
    (0x4675, type_name EET_BINARY (Some ''FileReferral'')),
    (0x4661, type_name EET_UNSIGNED (Some ''FileUsedStartTime'')),
    (0x4662, type_name EET_UNSIGNED (Some ''FileUsedEndTime'')),
    (0x1043A770, type_name EET_MASTER (Some ''Chapters'')),
    (0x45B9, type_name EET_MASTER (Some ''EditionEntry'')),
    (0x45BC, type_name EET_UNSIGNED (Some ''EditionUID'')),
    (0x45BD, type_name EET_UNSIGNED (Some ''EditionFlagHidden'')),
    (0x45DB, type_name EET_UNSIGNED (Some ''EditionFlagDefault'')),
    (0x45DD, type_name EET_UNSIGNED (Some ''EditionFlagOrdered'')),
    (0xB6, type_name EET_MASTER (Some ''ChapterAtom'')),
    (0x73C4, type_name EET_UNSIGNED (Some ''ChapterUID'')),
    (0x91, type_name EET_UNSIGNED (Some ''ChapterTimeStart'')),
    (0x92, type_name EET_UNSIGNED (Some ''ChapterTimeEnd'')),
    (0x98, type_name EET_UNSIGNED (Some ''ChapterFlagHidden'')),
    (0x4598, type_name EET_UNSIGNED (Some ''ChapterFlagEnabled'')),
    (0x6E67, type_name EET_BINARY (Some ''ChapterSegmentUID'')),
    (0x6EBC, type_name EET_UNSIGNED (Some ''ChapterSegmentEditionUID'')),
    (0x63C3, type_name EET_UNSIGNED (Some ''ChapterPhysicalEquiv'')),
    (0x8F, type_name EET_MASTER (Some ''ChapterTrack'')),
    (0x89, type_name EET_UNSIGNED (Some ''ChapterTrackNumber'')),
    (0x80, type_name EET_MASTER (Some ''ChapterDisplay'')),
    (0x85, type_name EET_TEXTU (Some ''ChapString'')),
    (0x437C, type_name EET_TEXTA (Some ''ChapLanguage'')),
    (0x437E, type_name EET_TEXTA (Some ''ChapCountry'')),
    (0x6944, type_name EET_MASTER (Some ''ChapProcess'')),
    (0x6955, type_name EET_UNSIGNED (Some ''ChapProcessCodecID'')),
    (0x450D, type_name EET_BINARY (Some ''ChapProcessPrivate'')),
    (0x6911, type_name EET_MASTER (Some ''ChapProcessCommand'')),
    (0x6922, type_name EET_UNSIGNED (Some ''ChapProcessTime'')),
    (0x6933, type_name EET_BINARY (Some ''ChapProcessData'')),
    (0x1254C367, type_name EET_MASTER (Some ''Tags'')),
    (0x7373, type_name EET_MASTER (Some ''Tag'')),
    (0x63C0, type_name EET_MASTER (Some ''Targets'')),
    (0x68CA, type_name EET_UNSIGNED (Some ''TargetTypeValue'')),
    (0x63CA, type_name EET_TEXTA (Some ''TargetType'')),
    (0x63C5, type_name EET_UNSIGNED (Some ''TagTrackUID'')),
    (0x63C9, type_name EET_UNSIGNED (Some ''TagEditionUID'')),
    (0x63C4, type_name EET_UNSIGNED (Some ''TagChapterUID'')),
    (0x63C6, type_name EET_UNSIGNED (Some ''TagAttachmentUID'')),
    (0x67C8, type_name EET_MASTER (Some ''SimpleTag'')),
    (0x45A3, type_name EET_TEXTU (Some ''TagName'')),
    (0x447A, type_name EET_TEXTA (Some ''TagLanguage'')),
    (0x4484, type_name EET_UNSIGNED (Some ''TagDefault'')),
    (0x4487, type_name EET_TEXTU (Some ''TagString'')),
    (0x4485, type_name EET_BINARY (Some ''TagBinary''))]"

text \<open>\<^verbatim>\<open>std::map<DWORD, type_name> element_types_names\<close>; \<open>None\<close> is \<^verbatim>\<open>end()\<close>.\<close>

definition element_types_names :: "DWORD \<Rightarrow> type_name option" where
  "element_types_names = map_of element_types_names_table"

section \<open>The read cursor\<close>

text \<open>
  The three in-out parameters \<^verbatim>\<open>pData\<close>, \<^verbatim>\<open>cbLen\<close> and \<^verbatim>\<open>pAte\<close> that every read
  function of the parser threads.  \<open>mem\<close> is the memory readable from the pointer the
  caller passed in (the backing array of the read buffer from its data pointer on),
  \<open>pData\<close> the offset of the read pointer in it.  \<open>cbLen\<close> is only a counter in the
  source: no read function compares it before dereferencing, so a read is a fault only
  where it leaves \<open>mem\<close>.
\<close>

record reader =
  mem :: "BYTE list"
  pData :: nat
  cbLen :: DWORD
  pAte :: DWORD

definition advance :: "nat \<Rightarrow> reader \<Rightarrow> reader" where
  "advance n r = r\<lparr> pData := pData r + n, cbLen := cbLen r - of_nat n, pAte := pAte r + of_nat n \<rparr>"

text \<open>\<^verbatim>\<open>x = **pData; (*pData)++; (*cbLen)--; (*pAte)++;\<close>\<close>

definition read_byte :: "reader \<Rightarrow> (BYTE \<times> reader) result" where
  "read_byte r =
     (if pData r < length (mem r) then ok (mem r ! pData r, advance 1 r)
      else throw ReadOutOfBounds)"

text \<open>A loop that reads \<open>n\<close> bytes one by one into a fresh array.\<close>

definition read_bytes :: "nat \<Rightarrow> reader \<Rightarrow> (BYTE list \<times> reader) result" where
  "read_bytes n r =
     (if pData r + n \<le> length (mem r) then ok (take n (drop (pData r) (mem r)), advance n r)
      else throw ReadOutOfBounds)"

section \<open>The variable-length integer codec\<close>

record bit_number_result =
  bitNum :: BYTE
  clearedNum :: BYTE

text \<open>
  The loop of \<^verbatim>\<open>GetMajorBitNumber\<close>: \<^verbatim>\<open>while (!(n&i)) { r += 1; i >>= 1; }\<close> with
  \<^verbatim>\<open>int\<close> \<open>i\<close> and \<open>r\<close>.  It has no bound of its own; \<open>None\<close> is "does not return".
\<close>

partial_function (option) GetMajorBitNumber_loop :: "BYTE \<Rightarrow> int \<Rightarrow> int \<Rightarrow> (int \<times> int) option" where
  "GetMajorBitNumber_loop n i r =
     (if uint n AND i = 0 then GetMajorBitNumber_loop n (drop_bit 1 i) (r + 1)
      else Some (r, i))"

declare GetMajorBitNumber_loop.simps [code]

definition GetMajorBitNumber :: "BYTE \<Rightarrow> bit_number_result option" where
  "GetMajorBitNumber n =
     (case GetMajorBitNumber_loop n 0x80 0 of
        None \<Rightarrow> None
      | Some (r, i) \<Rightarrow> Some \<lparr> bitNum = word_of_int r, clearedNum = word_of_int (uint n AND NOT i) \<rparr>)"

text \<open>\<^verbatim>\<open>struct matroska_number_result { DWORD id; DWORD length; }\<close>\<close>

record matroska_number_result =
  id_m :: DWORD
  length_m :: DWORD

text \<open>\<^verbatim>\<open>while (i) { code = code * 0x100 + **pData; ...; i -= 1; }\<close> on the \<^verbatim>\<open>DWORD\<close> \<open>code\<close>.\<close>

fun read_more :: "nat \<Rightarrow> DWORD \<Rightarrow> reader \<Rightarrow> (DWORD \<times> reader) result" where
  "read_more 0 code r = ok (code, r)"
| "read_more (Suc i) code r =
     bindR (read_byte r) (\<lambda>(b, r'). read_more i (code * 0x100 + ucast b) r')"

text \<open>
  \<^verbatim>\<open>code -= (pow(2, 7 * bitNum + 7) - 1)\<close> computes in \<^verbatim>\<open>double\<close> (exactly, on these
  magnitudes) and converts the difference back to \<^verbatim>\<open>DWORD\<close>; C++ leaves the conversion
  undefined when the difference is negative or does not fit, and the targets of the
  project do not agree on its result (x86 reduces modulo \<open>2 ^ 32\<close>, ARM saturates),
  which is the fault \<open>ConversionOutOfRange\<close> here.
\<close>

definition double_to_DWORD :: "int \<Rightarrow> DWORD result" where
  "double_to_DWORD v = (if 0 \<le> v \<and> v < 2 ^ 32 then ok (word_of_int v) else throw ConversionOutOfRange)"

definition ReadMatroskaNumber :: "reader \<Rightarrow> bool \<Rightarrow> bool \<Rightarrow> (matroska_number_result \<times> reader) result" where
  "ReadMatroskaNumber r unmodified is_signed =
     (if unmodified \<and> is_signed then throw ContradictoryArguments
      else bindR (read_byte r) (\<lambda>(b, r1).
        case GetMajorBitNumber b of
          None \<Rightarrow> None
        | Some numResult \<Rightarrow>
            bindR (read_more (unat (bitNum numResult))
                     (if \<not> unmodified then ucast (clearedNum numResult) else ucast b) r1)
              (\<lambda>(code, r2).
                 if is_signed
                 then bindR (double_to_DWORD (uint code - (2 ^ (7 * unat (bitNum numResult) + 7) - 1)))
                        (\<lambda>code'. ok (\<lparr> id_m = code', length_m = ucast (bitNum numResult) + 1 \<rparr>, r2))
                 else if uint code = 2 ^ (7 * unat (bitNum numResult) + 7) - 1
                 then ok (\<lparr> id_m = - 1, length_m = ucast (bitNum numResult) + 1 \<rparr>, r2)
                 else ok (\<lparr> id_m = code, length_m = ucast (bitNum numResult) + 1 \<rparr>, r2))))"

record element_header_result =
  id_h :: DWORD
  elemsize :: DWORD
  headsize :: DWORD

definition ReadEbmlElementHeader :: "reader \<Rightarrow> (element_header_result \<times> reader) result" where
  "ReadEbmlElementHeader r =
     bindR (ReadMatroskaNumber r True False) (\<lambda>(mresult1, r1).
     bindR (ReadMatroskaNumber r1 False False) (\<lambda>(mresult2, r2).
       ok (\<lparr> id_h = id_m mresult1, elemsize = id_m mresult2,
              headsize = length_m mresult1 + length_m mresult2 \<rparr>, r2)))"


section \<open>EBML elements\<close>

text \<open>
  \<^verbatim>\<open>struct base_element\<close> and the structs derived from it.  Every element carries its
  \<^verbatim>\<open>name\<close> (a pointer into the schema table, null for an unknown id) and its
  \<^verbatim>\<open>type\<close>.  A \<^verbatim>\<open>float_element\<close> keeps the bytes that \<^verbatim>\<open>Float\<close>/\<^verbatim>\<open>Double\<close> reinterpret
  (the element's bytes in reverse order, which is the little-endian image of the
  IEEE-754 value); the floating-point value itself is not interpreted.  No
  \<^verbatim>\<open>sint_element\<close> is ever built, because \<^verbatim>\<open>_SIGNED\<close> equals \<^verbatim>\<open>_UNSIGNED\<close>.
\<close>

datatype base_element =
    master_element "string option" EET "base_element list"
  | binary_element "string option" EET DWORD "BYTE list"
  | string_element "string option" EET "BYTE list"
  | uint_element "string option" EET QWORD
  | float_element "string option" EET "BYTE list"
  | plain_element "string option" EET

fun elem_name :: "base_element \<Rightarrow> string option" where
  "elem_name (master_element n t cs) = n"
| "elem_name (binary_element n t l d) = n"
| "elem_name (string_element n t d) = n"
| "elem_name (uint_element n t d) = n"
| "elem_name (float_element n t d) = n"
| "elem_name (plain_element n t) = n"

fun elem_type :: "base_element \<Rightarrow> EET" where
  "elem_type (master_element n t cs) = t"
| "elem_type (binary_element n t l d) = t"
| "elem_type (string_element n t d) = t"
| "elem_type (uint_element n t d) = t"
| "elem_type (float_element n t d) = t"
| "elem_type (plain_element n t) = t"

text \<open>\<^verbatim>\<open>element->name = ...\<close> and \<^verbatim>\<open>element->type = ...\<close>\<close>

fun set_name :: "string option \<Rightarrow> base_element \<Rightarrow> base_element" where
  "set_name n (master_element _ t cs) = master_element n t cs"
| "set_name n (binary_element _ t l d) = binary_element n t l d"
| "set_name n (string_element _ t d) = string_element n t d"
| "set_name n (uint_element _ t d) = uint_element n t d"
| "set_name n (float_element _ t d) = float_element n t d"
| "set_name n (plain_element _ t) = plain_element n t"

fun set_type :: "EET \<Rightarrow> base_element \<Rightarrow> base_element" where
  "set_type t (master_element n _ cs) = master_element n t cs"
| "set_type t (binary_element n _ l d) = binary_element n t l d"
| "set_type t (string_element n _ d) = string_element n t d"
| "set_type t (uint_element n _ d) = uint_element n t d"
| "set_type t (float_element n _ d) = float_element n t d"
| "set_type t (plain_element n _) = plain_element n t"

section \<open>Fixed-length numbers and simple elements\<close>

text \<open>
  The conversion of an \<^verbatim>\<open>__int64\<close> to \<^verbatim>\<open>double\<close>, and the rounding of the result of
  a \<^verbatim>\<open>double\<close> operation whose exact value is an integer: the nearest number with 53
  significant bits, ties to the even one.  \<open>bit_length\<close> is the number of binary digits
  of a positive integer.
\<close>

function bit_length :: "int \<Rightarrow> nat" where
  "bit_length a = (if a \<le> 0 then 0 else Suc (bit_length (a div 2)))"
  by pat_completeness auto

termination
  by (relation "measure nat") auto

definition to_double :: "int \<Rightarrow> int" where
  "to_double x =
     (let a = abs x; n = bit_length a in
      if n \<le> 53 then x
      else
        let e = n - 53; q = a div 2 ^ e; rm = a mod 2 ^ e; h = 2 ^ (e - 1);
            q' = (if rm > h \<or> (rm = h \<and> odd q) then q + 1 else q)
        in sgn x * (q' * 2 ^ e))"

text \<open>
  \<^verbatim>\<open>ParseFixedLengthNumber\<close> on the bytes \<^verbatim>\<open>data[pos .. pos + length)\<close>: the big-endian
  accumulation in \<^verbatim>\<open>__int64\<close>, and for a signed number with the top bit set
  \<^verbatim>\<open>*r -= pow(2, 8 * length)\<close>.  That assignment is computed in \<^verbatim>\<open>double\<close>: \<^verbatim>\<open>*r\<close> is
  converted, the power is subtracted, and the difference, which is never positive, is
  converted back to \<^verbatim>\<open>__int64\<close>.  With eight bytes the difference is below the range
  of \<^verbatim>\<open>__int64\<close>; C++ leaves that conversion undefined, and the conversion
  instructions of the x86 and ARM targets of the project give the most negative value
  \<^verbatim>\<open>0x8000000000000000\<close>, as the model does.  With no byte at all the test
  \<^verbatim>\<open>data[pos] & 0x80\<close> reads a byte that was never written.
\<close>

definition ParseFixedLengthNumber :: "BYTE list \<Rightarrow> bool \<Rightarrow> QWORD result" where
  "ParseFixedLengthNumber bytes is_signed =
     (let r = foldl (\<lambda>a b. a * 0x100 + ucast b) (0::QWORD) bytes
      in if is_signed then
           (case bytes of
              [] \<Rightarrow> throw UninitializedRead
            | b # _ \<Rightarrow>
                if b AND 0x80 \<noteq> 0 then
                  (let d = to_double (to_double (sint r) - 2 ^ (8 * length bytes))
                   in if d < - (2 ^ 63) then ok 0x8000000000000000 else ok (word_of_int d))
                else ok r)
         else ok r)"

text \<open>
  \<^verbatim>\<open>ReadFixedLengthNumber\<close> copies \<open>length\<close> bytes into \<^verbatim>\<open>byte buf[8]\<close> first; more
  than 8 bytes overrun that array.
\<close>

definition ReadFixedLengthNumber :: "reader \<Rightarrow> DWORD \<Rightarrow> bool \<Rightarrow> (QWORD \<times> reader) result" where
  "ReadFixedLengthNumber r len is_signed =
     (if unat len > 8 then throw StackBufferOverrun
      else bindR (read_bytes (unat len) r) (\<lambda>(buf, r').
           bindR (ParseFixedLengthNumber buf is_signed) (\<lambda>d. ok (d, r'))))"

text \<open>
  \<^verbatim>\<open>ReadSimpleElement2\<close> and \<^verbatim>\<open>ReadEbmlElementTree2\<close> call each other.  The first
  argument bounds the number of nested calls and loop iterations; \<open>None\<close> is returned
  when it is used up.  \<^verbatim>\<open>ReadSimpleElement2\<close> returns a null pointer (\<open>None\<close> in the
  first component) for an element of size 0 and for a float whose size is neither 4
  nor 8.  \<open>tree_loop\<close> is the \<^verbatim>\<open>while (total_size > 0)\<close> loop of
  \<^verbatim>\<open>ReadEbmlElementTree2\<close>, with the children read so far.
\<close>

fun ReadSimpleElement2 :: "nat \<Rightarrow> reader \<Rightarrow> EET \<Rightarrow> DWORD \<Rightarrow> (base_element option \<times> reader) result"
  and ReadEbmlElementTree2 :: "nat \<Rightarrow> reader \<Rightarrow> DWORD \<Rightarrow> (base_element \<times> reader) result"
  and tree_loop :: "nat \<Rightarrow> reader \<Rightarrow> DWORD \<Rightarrow> base_element list \<Rightarrow> (base_element list \<times> reader) result"
where
  "ReadSimpleElement2 0 r type size' = None"
| "ReadSimpleElement2 (Suc fuel) r type size' =
     (if size' = 0 then ok (None, r)
      else if type = EET_UNSIGNED then
        bindR (ReadFixedLengthNumber r size' False) (\<lambda>(d, r').
          ok (Some (uint_element None type d), r'))
      else if type = EET_TEXTA then
        bindR (read_bytes (unat size') r) (\<lambda>(buf, r').
          ok (Some (string_element None type buf), r'))
      else if type = EET_TEXTU then
        bindR (read_bytes (unat size') r) (\<lambda>(buf, r').
          ok (Some (string_element None type buf), r'))
      else if type = EET_MASTER then
        bindR (ReadEbmlElementTree2 fuel r size') (\<lambda>(m, r'). ok (Some m, r'))
      else if type = EET_DATE then
        bindR (ReadFixedLengthNumber r size' True) (\<lambda>(d, r').
          ok (Some (plain_element None type), r'))
      else if type = EET_FLOAT then
        (if size' = 4 \<or> size' = 8 then
           bindR (read_bytes (unat size') r) (\<lambda>(buf, r').
             ok (Some (float_element None type (rev buf)), r'))
         else
           bindR (ReadFixedLengthNumber r size' False) (\<lambda>(d, r'). ok (None, r')))
      else
        bindR (read_bytes (unat size') r) (\<lambda>(buf, r').
          ok (Some (binary_element None type size' buf), r')))"
| "ReadEbmlElementTree2 0 r total_size = None"
| "ReadEbmlElementTree2 (Suc fuel) r total_size =
     bindR (tree_loop fuel r total_size []) (\<lambda>(children, r').
       ok (master_element None EET_VOID children, r'))"
| "tree_loop 0 r total_size children = None"
| "tree_loop (Suc fuel) r total_size children =
     (if \<not> total_size > 0 then ok (children, r)
      else
        bindR (ReadEbmlElementHeader r) (\<lambda>(hresult, r1).
          if elemsize hresult = - 1
          then ok (children,
                   r1\<lparr> pData := pData r1 + unat total_size, cbLen := cbLen r1 - total_size,
                       pAte := pAte r1 + total_size \<rparr>)
          else
            let r2 = (if elemsize hresult > total_size
                      then r1\<lparr> pData := pData r1 + unat total_size,
                               cbLen := cbLen r1 - total_size,
                               pAte := pAte r1 + total_size \<rparr>
                      else r1);
                typeNameResult = (case element_types_names (id_h hresult) of
                                    None \<Rightarrow> type_name EET_VOID None
                                  | Some tn \<Rightarrow> tn);
                type = (case element_types_names (id_h hresult) of
                          None \<Rightarrow> EET_BINARY
                        | Some tn \<Rightarrow> tn_type tn)
            in
              if type = EET_MASTER then
                bindR (ReadEbmlElementTree2 fuel r2 (elemsize hresult)) (\<lambda>(masterElement, r3).
                  tree_loop fuel r3 (total_size - (elemsize hresult + headsize hresult))
                    (children @ [set_type (tn_type typeNameResult)
                                   (set_name (tn_name typeNameResult) masterElement)]))
              else
                bindR (ReadSimpleElement2 fuel r2 type (elemsize hresult)) (\<lambda>(simpleElement, r3).
                  case simpleElement of
                    None \<Rightarrow> throw NullDereference
                  | Some e \<Rightarrow>
                      tree_loop fuel r3 (total_size - (elemsize hresult + headsize hresult))
                        (children @ [set_name (tn_name typeNameResult) e]))))"

text \<open>
  \<^verbatim>\<open>delete\<close> on an element runs the destructor of its struct.  \<^verbatim>\<open>~master_element\<close>
  deletes the children in order; \<^verbatim>\<open>~uint_element\<close> and \<^verbatim>\<open>~float_element\<close> execute
  \<^verbatim>\<open>delete &data\<close> on a member of the struct, which was not allocated by \<^verbatim>\<open>new\<close>;
  \<^verbatim>\<open>~binary_element\<close> and \<^verbatim>\<open>~string_element\<close> release the array of the data.
\<close>

fun delete_element :: "base_element \<Rightarrow> unit result"
  and delete_elements :: "base_element list \<Rightarrow> unit result"
where
  "delete_element (master_element n t cs) = delete_elements cs"
| "delete_element (binary_element n t l d) = ok ()"
| "delete_element (string_element n t d) = ok ()"
| "delete_element (uint_element n t d) = throw InvalidDelete"
| "delete_element (float_element n t d) = throw InvalidDelete"
| "delete_element (plain_element n t) = ok ()"
| "delete_elements [] = ok ()"
| "delete_elements (c # cs) = bindR (delete_element c) (\<lambda>_. delete_elements cs)"

section \<open>The segment model\<close>

text \<open>
  The structs of Parse.h that the model builder fills.  A \<^verbatim>\<open>const char*\<close> or
  \<^verbatim>\<open>byte*\<close> that points to the data of an element is the byte list it points to, a
  null pointer is \<open>None\<close>.  Where a field is assigned from a \<^verbatim>\<open>double\<close>
  (\<^verbatim>\<open>Duration\<close>, \<^verbatim>\<open>SamplingFrequency\<close>, \<^verbatim>\<open>OutputSamplingFrequency\<close>) the model keeps the
  bytes the value was read from, since floating point is not interpreted.  Of
  \<^verbatim>\<open>TrackData\<close> and \<^verbatim>\<open>Video\<close> only the fields that the builder writes are kept.
  \<^verbatim>\<open>new T()\<close> on these structs zero-initialises every field.
\<close>

record Seek =
  elemID :: "string option"
  SeekPosition :: QWORD

record SegmentInformation =
  SegmentUID :: "BYTE list"
  TimecodeScale :: QWORD
  Duration :: "BYTE list"
  MuxingApp :: "BYTE list option"
  WritingApp :: "BYTE list option"

record CueTrackPosition =
  CueTrack :: QWORD
  CueClusterPosition :: QWORD

record CuePoint =
  CueTime :: QWORD
  CueTrackPositions :: "CueTrackPosition list"

record Video =
  FlagInterlaced :: bool
  PixelWidth :: DWORD
  PixelHeight :: DWORD

record Audio =
  SamplingFrequency :: "BYTE list"
  OutputSamplingFrequency :: "BYTE list"
  Channels :: BYTE
  BitDepth :: BYTE

record TrackData =
  TrackNumber :: DWORD
  TrackUID :: QWORD
  TrackType :: DWORD
  FlagEnabled :: bool
  FlagDefault :: bool
  FlagForced :: bool
  FlagLacing :: bool
  MinCache :: DWORD
  MaxCache :: DWORD
  DefaultDuration :: DWORD
  MaxBlockAdditionID :: DWORD
  CodecID :: "BYTE list option"
  CodecPrivate :: "BYTE list option"
  CodecPrivateLength :: DWORD
  CodecDecodeAll :: bool
  Video :: "Video option"
  Audio :: "Audio option"

record MKVMasterData =
  SegmentPosition :: QWORD
  SeekHead :: "Seek list"
  SegInfo :: "SegmentInformation option"
  Tracks :: "TrackData list"
  FirstClusterPosition :: QWORD
  Cues :: "CuePoint list"

definition new_Seek :: Seek where
  "new_Seek = \<lparr> elemID = None, SeekPosition = 0 \<rparr>"

definition new_SegmentInformation :: SegmentInformation where
  "new_SegmentInformation =
     \<lparr> SegmentUID = replicate 16 0, TimecodeScale = 0, Duration = replicate 8 0,
       MuxingApp = None, WritingApp = None \<rparr>"

definition new_CueTrackPosition :: CueTrackPosition where
  "new_CueTrackPosition = \<lparr> CueTrack = 0, CueClusterPosition = 0 \<rparr>"

definition new_CuePoint :: CuePoint where
  "new_CuePoint = \<lparr> CueTime = 0, CueTrackPositions = [] \<rparr>"

definition new_Video :: Video where
  "new_Video = \<lparr> FlagInterlaced = False, PixelWidth = 0, PixelHeight = 0 \<rparr>"

definition new_Audio :: Audio where
  "new_Audio = \<lparr> SamplingFrequency = replicate 8 0, OutputSamplingFrequency = replicate 8 0,
                  Channels = 0, BitDepth = 0 \<rparr>"

definition new_TrackData :: TrackData where
  "new_TrackData =
     \<lparr> TrackNumber = 0, TrackUID = 0, TrackType = 0, FlagEnabled = False,
       FlagDefault = False, FlagForced = False, FlagLacing = False, MinCache = 0,
       MaxCache = 0, DefaultDuration = 0, MaxBlockAdditionID = 0, CodecID = None,
       CodecPrivate = None, CodecPrivateLength = 0, CodecDecodeAll = False,
       Video = None, Audio = None \<rparr>"

definition new_MKVMasterData :: MKVMasterData where
  "new_MKVMasterData =
     \<lparr> SegmentPosition = 0, SeekHead = [], SegInfo = None, Tracks = [],
       FirstClusterPosition = 0, Cues = [] \<rparr>"

section \<open>The model builder\<close>

text \<open>
  The loops of \<^verbatim>\<open>ParseBytes\<close> that copy a parsed master element into the segment
  model.  Each \<^verbatim>\<open>for\<close> loop over \<^verbatim>\<open>children\<close> is a fold that stops at the first fault.
  \<^verbatim>\<open>dynamic_cast\<close> to a struct the element is not yields a null pointer, and the source
  dereferences it unchecked.
\<close>

fun foldR :: "('a \<Rightarrow> 's \<Rightarrow> 's result) \<Rightarrow> 'a list \<Rightarrow> 's \<Rightarrow> 's result" where
  "foldR f [] s = ok s"
| "foldR f (x # xs) s = bindR (f x s) (foldR f xs)"

text \<open>\<^verbatim>\<open>dynamic_cast<master_element*>(base)->children\<close>\<close>

fun master_children :: "base_element \<Rightarrow> base_element list result" where
  "master_children (master_element n t cs) = ok cs"
| "master_children _ = throw NullDereference"

text \<open>
  The key \<^verbatim>\<open>MAKELONG(MAKEWORD(size>3 ? arr[3] : 0, size>2 ? arr[2] : 0),
  MAKEWORD(size>1 ? arr[1] : 0, arr[0]))\<close>, where \<open>size\<close> is the \<^verbatim>\<open>int\<close> local of
  \<^verbatim>\<open>ParseBytes\<close> (the size of the SeekHead element), not the length of \<open>arr\<close>.
\<close>

definition arr_at :: "BYTE list \<Rightarrow> nat \<Rightarrow> BYTE result" where
  "arr_at arr i = (if i < length arr then ok (arr ! i) else throw HeapBufferOverrun)"

definition seek_id_key :: "DWORD \<Rightarrow> BYTE list \<Rightarrow> DWORD result" where
  "seek_id_key size' arr =
     bindR (if sint size' > 3 then arr_at arr 3 else ok 0) (\<lambda>b3.
     bindR (if sint size' > 2 then arr_at arr 2 else ok 0) (\<lambda>b2.
     bindR (if sint size' > 1 then arr_at arr 1 else ok 0) (\<lambda>b1.
     bindR (arr_at arr 0) (\<lambda>b0.
       ok (ucast b3 OR push_bit 8 (ucast b2) OR push_bit 16 (ucast b1) OR push_bit 24 (ucast b0))))))"

fun seek_child :: "DWORD \<Rightarrow> base_element \<Rightarrow> Seek \<Rightarrow> Seek result" where
  "seek_child size' (binary_element n t l arr) seek =
     (if t = EET_BINARY then
        bindR (seek_id_key size' arr) (\<lambda>key.
          case element_types_names key of
            None \<Rightarrow> throw MapEndDereference
          | Some tn \<Rightarrow> ok (seek\<lparr> elemID := tn_name tn \<rparr>))
      else if t = EET_UNSIGNED then throw NullDereference
      else ok seek)"
| "seek_child size' (uint_element n t d) seek =
     (if t = EET_BINARY then throw NullDereference
      else if t = EET_UNSIGNED then ok (seek\<lparr> SeekPosition := d \<rparr>)
      else ok seek)"
| "seek_child size' e seek =
     (if elem_type e = EET_BINARY \<or> elem_type e = EET_UNSIGNED then throw NullDereference
      else ok seek)"

definition build_SeekHead :: "DWORD \<Rightarrow> base_element list \<Rightarrow> Seek list \<Rightarrow> Seek list result" where
  "build_SeekHead size' children seekHead =
     foldR (\<lambda>base sh.
              bindR (master_children base) (\<lambda>cs.
              bindR (foldR (seek_child size') cs new_Seek) (\<lambda>seek. ok (sh @ [seek]))))
           children seekHead"

text \<open>The eight bytes of a \<^verbatim>\<open>UINT64\<close> in memory, lowest byte first, and back.\<close>

definition le_of_word :: "QWORD \<Rightarrow> BYTE list" where
  "le_of_word w = map (\<lambda>i. ucast (drop_bit (8 * i) w)) [0..<8]"

definition word_of_le :: "BYTE list \<Rightarrow> QWORD" where
  "word_of_le bytes = foldr (\<lambda>b a. ucast b + a * 0x100) bytes 0"

text \<open>
  The Info loop.  \<^verbatim>\<open>memcpy(&segInfo->SegmentUID[0], selement->data, selement->length)\<close>
  writes into an array of 16 bytes without a test of the length.  In
  \<^verbatim>\<open>struct SegmentInformation\<close> the field \<^verbatim>\<open>TimecodeScale\<close> lies directly behind
  \<^verbatim>\<open>SegmentUID\<close>, so that a copy of 17 to 24 bytes also replaces the low bytes of the
  TimecodeScale; a longer copy runs over \<^verbatim>\<open>Duration\<close> and the two pointers and beyond
  the struct, which is a fault here.  Every child of type \<^verbatim>\<open>_UNSIGNED\<close> is stored as
  the TimecodeScale, whatever its name.
\<close>

fun info_child :: "base_element \<Rightarrow> SegmentInformation \<Rightarrow> SegmentInformation result" where
  "info_child (binary_element n t l d) segInfo =
     (if t = EET_BINARY then
        (if unat l \<le> 16
         then ok (segInfo\<lparr> SegmentUID := take (unat l) d @ drop (unat l) (SegmentUID segInfo) \<rparr>)
         else if unat l \<le> 24
         then ok (segInfo\<lparr> SegmentUID := take 16 d,
                           TimecodeScale :=
                             word_of_le (take (unat l - 16) (drop 16 d)
                                         @ drop (unat l - 16) (le_of_word (TimecodeScale segInfo))) \<rparr>)
         else throw HeapBufferOverrun)
      else if t = EET_UNSIGNED \<or> t = EET_TEXTU \<or> t = EET_FLOAT then throw NullDereference
      else ok segInfo)"
| "info_child (uint_element n t d) segInfo =
     (if t = EET_BINARY then throw NullDereference
      else if t = EET_UNSIGNED then ok (segInfo\<lparr> TimecodeScale := d \<rparr>)
      else if t = EET_TEXTU \<or> t = EET_FLOAT then throw NullDereference
      else ok segInfo)"
| "info_child (string_element n t d) segInfo =
     (if t = EET_BINARY \<or> t = EET_UNSIGNED then throw NullDereference
      else if t = EET_TEXTU then
        (case n of
           None \<Rightarrow> throw NullDereference
         | Some s \<Rightarrow>
             if s = ''MuxingApp'' then ok (segInfo\<lparr> MuxingApp := Some d \<rparr>)
             else if s = ''WritingApp'' then ok (segInfo\<lparr> WritingApp := Some d \<rparr>)
             else ok segInfo)
      else if t = EET_FLOAT then throw NullDereference
      else ok segInfo)"
| "info_child (float_element n t d) segInfo =
     (if t = EET_BINARY \<or> t = EET_UNSIGNED \<or> t = EET_TEXTU then throw NullDereference
      else if t = EET_FLOAT then
        (case n of
           None \<Rightarrow> throw NullDereference
         | Some s \<Rightarrow>
             if s = ''Duration'' then ok (segInfo\<lparr> Duration := d \<rparr>) else ok segInfo)
      else ok segInfo)"
| "info_child e segInfo =
     (if elem_type e = EET_BINARY \<or> elem_type e = EET_UNSIGNED \<or> elem_type e = EET_TEXTU
         \<or> elem_type e = EET_FLOAT
      then throw NullDereference
      else ok segInfo)"

definition build_Info :: "base_element list \<Rightarrow> SegmentInformation result" where
  "build_Info children = foldR info_child children new_SegmentInformation"

text \<open>\<^verbatim>\<open>selement->length\<close> of a \<^verbatim>\<open>binary_element\<close>; no other struct has the field.\<close>

fun binary_length :: "base_element \<Rightarrow> nat" where
  "binary_length (binary_element n t l d) = unat l"
| "binary_length _ = 0"

text \<open>
  What \<^verbatim>\<open>ReadEbmlElementTree2\<close> guarantees of each child it appends: the struct is the
  one that \<^verbatim>\<open>ReadSimpleElement2\<close> builds for the \<^verbatim>\<open>type\<close> of the element, and an element
  of a text or float type, which only the schema table gives, has the name of its
  table entry.
\<close>

fun built_by_reader :: "base_element \<Rightarrow> bool" where
  "built_by_reader (master_element n t cs) = (t = EET_MASTER)"
| "built_by_reader (binary_element n t l d) =
     (t \<noteq> EET_UNSIGNED \<and> t \<noteq> EET_TEXTA \<and> t \<noteq> EET_TEXTU \<and> t \<noteq> EET_MASTER \<and> t \<noteq> EET_DATE
      \<and> t \<noteq> EET_FLOAT)"
| "built_by_reader (string_element n t d) = ((t = EET_TEXTA \<or> t = EET_TEXTU) \<and> n \<noteq> None)"
| "built_by_reader (uint_element n t d) = (t = EET_UNSIGNED)"
| "built_by_reader (float_element n t d) = (t = EET_FLOAT \<and> n \<noteq> None)"
| "built_by_reader (plain_element n t) = (t = EET_DATE)"


text \<open>
  The Tracks loop.  \<^verbatim>\<open>strcmp\<close> on the null name of an unknown element is a fault.  The
  \<^verbatim>\<open>bool\<close> fields take \<open>data \<noteq> 0\<close>, the \<^verbatim>\<open>DWORD\<close> and \<^verbatim>\<open>BYTE\<close> fields the low bits of
  the 64-bit value.
\<close>

definition track_uint :: "string \<Rightarrow> QWORD \<Rightarrow> TrackData \<Rightarrow> TrackData" where
  "track_uint s d trackEntry =
     (if s = ''TrackNumber'' then trackEntry\<lparr> TrackNumber := ucast d \<rparr>
      else if s = ''TrackUID'' then trackEntry\<lparr> TrackUID := d \<rparr>
      else if s = ''TrackType'' then trackEntry\<lparr> TrackType := ucast d \<rparr>
      else if s = ''FlagEnabled'' then trackEntry\<lparr> FlagEnabled := (d \<noteq> 0) \<rparr>
      else if s = ''FlagDefault'' then trackEntry\<lparr> FlagDefault := (d \<noteq> 0) \<rparr>
      else if s = ''FlagForced'' then trackEntry\<lparr> FlagForced := (d \<noteq> 0) \<rparr>
      else if s = ''FlagLacing'' then trackEntry\<lparr> FlagLacing := (d \<noteq> 0) \<rparr>
      else if s = ''MinCache'' then trackEntry\<lparr> MinCache := ucast d \<rparr>
      else if s = ''MaxCache'' then trackEntry\<lparr> MaxCache := ucast d \<rparr>
      else if s = ''MaxBlockAdditionID'' then trackEntry\<lparr> MaxBlockAdditionID := ucast d \<rparr>
      else if s = ''CodecDecodeAll'' then trackEntry\<lparr> CodecDecodeAll := (d \<noteq> 0) \<rparr>
      else if s = ''DefaultDuration'' then trackEntry\<lparr> DefaultDuration := ucast d \<rparr>
      else trackEntry)"

text \<open>
  A child of a Video or Audio master.  Each condition of the source is
  \<^verbatim>\<open>strcmp(sselement->name, X) == 0 && strcmp(selement->name, Y) == 0\<close>; the second
  \<^verbatim>\<open>strcmp\<close> runs only when the first one matched.
\<close>

definition under :: "string option \<Rightarrow> string \<Rightarrow> 'a \<Rightarrow> 'a \<Rightarrow> 'a result" where
  "under mname m yes no =
     (case mname of None \<Rightarrow> throw NullDereference | Some s \<Rightarrow> ok (if s = m then yes else no))"

fun av_child :: "string option \<Rightarrow> base_element \<Rightarrow> Video \<times> Audio \<Rightarrow> (Video \<times> Audio) result" where
  "av_child mname (uint_element n t d) (video, audio) =
     (if t = EET_UNSIGNED then
        (case n of
           None \<Rightarrow> throw NullDereference
         | Some s \<Rightarrow>
             if s = ''PixelWidth''
             then under mname ''Video'' (video\<lparr> PixelWidth := ucast d \<rparr>, audio) (video, audio)
             else if s = ''PixelHeight''
             then under mname ''Video'' (video\<lparr> PixelHeight := ucast d \<rparr>, audio) (video, audio)
             else if s = ''FlagInterlaced''
             then under mname ''Video'' (video\<lparr> FlagInterlaced := (d \<noteq> 0) \<rparr>, audio) (video, audio)
             else if s = ''Channels''
             then under mname ''Audio'' (video, audio\<lparr> Channels := ucast d \<rparr>) (video, audio)
             else if s = ''BitDepth''
             then under mname ''Audio'' (video, audio\<lparr> BitDepth := ucast d \<rparr>) (video, audio)
             else ok (video, audio))
      else if t = EET_FLOAT then throw NullDereference
      else ok (video, audio))"
| "av_child mname (float_element n t d) (video, audio) =
     (if t = EET_UNSIGNED then throw NullDereference
      else if t = EET_FLOAT then
        (case n of
           None \<Rightarrow> throw NullDereference
         | Some s \<Rightarrow>
             if s = ''SamplingFrequency''
             then under mname ''Audio'' (video, audio\<lparr> SamplingFrequency := d \<rparr>) (video, audio)
             else if s = ''OutputSamplingFrequency''
             then under mname ''Audio'' (video, audio\<lparr> OutputSamplingFrequency := d \<rparr>) (video, audio)
             else ok (video, audio))
      else ok (video, audio))"
| "av_child mname e (video, audio) =
     (if elem_type e = EET_UNSIGNED \<or> elem_type e = EET_FLOAT then throw NullDereference
      else ok (video, audio))"

fun track_child :: "base_element \<Rightarrow> TrackData \<Rightarrow> TrackData result" where
  "track_child (string_element n t d) trackEntry =
     (if t = EET_TEXTA then
        (case n of
           None \<Rightarrow> throw NullDereference
         | Some s \<Rightarrow> ok (if s = ''CodecID'' then trackEntry\<lparr> CodecID := Some d \<rparr> else trackEntry))
      else if t = EET_BINARY \<or> t = EET_UNSIGNED \<or> t = EET_MASTER then throw NullDereference
      else ok trackEntry)"
| "track_child (binary_element n t l d) trackEntry =
     (if t = EET_TEXTA then throw NullDereference
      else if t = EET_BINARY then
        (case n of
           None \<Rightarrow> throw NullDereference
         | Some s \<Rightarrow>
             ok (if s = ''CodecPrivate''
                 then trackEntry\<lparr> CodecPrivate := Some d, CodecPrivateLength := l \<rparr>
                 else trackEntry))
      else if t = EET_UNSIGNED \<or> t = EET_MASTER then throw NullDereference
      else ok trackEntry)"
| "track_child (uint_element n t d) trackEntry =
     (if t = EET_TEXTA \<or> t = EET_BINARY then throw NullDereference
      else if t = EET_UNSIGNED then
        (case n of
           None \<Rightarrow> throw NullDereference
         | Some s \<Rightarrow> ok (track_uint s d trackEntry))
      else if t = EET_MASTER then throw NullDereference
      else ok trackEntry)"
| "track_child (master_element n t cs) trackEntry =
     (if t = EET_TEXTA \<or> t = EET_BINARY \<or> t = EET_UNSIGNED then throw NullDereference
      else if t = EET_MASTER then
        bindR (foldR (av_child n) cs (new_Video, new_Audio)) (\<lambda>(video, audio).
          ok (trackEntry\<lparr> Video := Some video, Audio := Some audio \<rparr>))
      else ok trackEntry)"
| "track_child e trackEntry =
     (if elem_type e = EET_TEXTA \<or> elem_type e = EET_BINARY \<or> elem_type e = EET_UNSIGNED
         \<or> elem_type e = EET_MASTER
      then throw NullDereference
      else ok trackEntry)"

definition build_Tracks :: "base_element list \<Rightarrow> TrackData list \<Rightarrow> TrackData list result" where
  "build_Tracks children tracks =
     foldR (\<lambda>base ts.
              bindR (master_children base) (\<lambda>cs.
              bindR (foldR track_child cs new_TrackData) (\<lambda>trackEntry. ok (ts @ [trackEntry]))))
           children tracks"

text \<open>The Cues loop.\<close>

fun cue_pos_child :: "base_element \<Rightarrow> CueTrackPosition \<Rightarrow> CueTrackPosition result" where
  "cue_pos_child (uint_element n t d) cueTrackPos =
     (if t = EET_UNSIGNED then
        (case n of
           None \<Rightarrow> throw NullDereference
         | Some s \<Rightarrow>
             ok (if s = ''CueTrack'' then cueTrackPos\<lparr> CueTrack := d \<rparr>
                 else if s = ''CueClusterPosition'' then cueTrackPos\<lparr> CueClusterPosition := d \<rparr>
                 else cueTrackPos))
      else ok cueTrackPos)"
| "cue_pos_child e cueTrackPos =
     (if elem_type e = EET_UNSIGNED then throw NullDereference else ok cueTrackPos)"

fun cue_child :: "base_element \<Rightarrow> CuePoint \<Rightarrow> CuePoint result" where
  "cue_child (master_element n t cs) cuePoint =
     (if t = EET_MASTER then
        bindR (foldR cue_pos_child cs new_CueTrackPosition) (\<lambda>cueTrackPos.
          ok (cuePoint\<lparr> CueTrackPositions := CueTrackPositions cuePoint @ [cueTrackPos] \<rparr>))
      else if t = EET_UNSIGNED then throw NullDereference
      else ok cuePoint)"
| "cue_child (uint_element n t d) cuePoint =
     (if t = EET_MASTER then throw NullDereference
      else if t = EET_UNSIGNED then ok (cuePoint\<lparr> CueTime := d \<rparr>)
      else ok cuePoint)"
| "cue_child e cuePoint =
     (if elem_type e = EET_MASTER \<or> elem_type e = EET_UNSIGNED then throw NullDereference
      else ok cuePoint)"

definition build_Cues :: "base_element list \<Rightarrow> CuePoint list \<Rightarrow> CuePoint list result" where
  "build_Cues children cues =
     foldR (\<lambda>base cs'.
              bindR (master_children base) (\<lambda>cs.
              bindR (foldR cue_child cs new_CuePoint) (\<lambda>cuePoint. ok (cs' @ [cuePoint]))))
           children cues"


section \<open>The parser state\<close>

text \<open>
  The fields of \<^verbatim>\<open>ref class Parser\<close> that the Matroska code uses.  \<open>pCircRead\<close> and
  \<open>pCircWrite\<close> are the offsets of the two pointers from \<^verbatim>\<open>&m_circularBuffer[0]\<close>;
  \<open>m_startPosition\<close> is \<^verbatim>\<open>m_startPosition.hVal.QuadPart\<close>.
\<close>

record Parser =
  m_jumpTo :: QWORD
  m_jumpFlag :: bool
  m_isFinishedParsingMaster :: bool
  m_isCurrentKeyFrame :: bool
  m_currentBlockTimeCode :: QWORD
  m_currentTimeStamp :: QWORD
  m_currentFrameSize :: DWORD
  m_currentStream :: DWORD
  m_insertedHeaderYet :: bool
  m_circularBuffer :: "DWORD list"
  pCircRead :: nat
  pCircWrite :: nat
  m_frameCount :: BYTE
  m_startPosition :: QWORD
  m_framesReady :: bool
  m_bEOS :: bool
  m_masterData :: MKVMasterData

definition m_cirBufferLength :: nat where
  "m_cirBufferLength = 30"

text \<open>
  The constructor \<^verbatim>\<open>Parser::Parser()\<close>.  The fields it does not name are zero, as in
  a freshly allocated ref class.
\<close>

definition Parser_new :: Parser where
  "Parser_new =
     \<lparr> m_jumpTo = 0, m_jumpFlag = False, m_isFinishedParsingMaster = False,
       m_isCurrentKeyFrame = False, m_currentBlockTimeCode = 0, m_currentTimeStamp = 0,
       m_currentFrameSize = 0, m_currentStream = 0, m_insertedHeaderYet = False,
       m_circularBuffer = replicate 30 0, pCircRead = 0, pCircWrite = 0, m_frameCount = 0,
       m_startPosition = 0, m_framesReady = False, m_bEOS = False,
       m_masterData = new_MKVMasterData \<rparr>"

section \<open>The SimpleBlock framer\<close>

text \<open>
  \<^verbatim>\<open>*pCircWrite = v; m_frameCount++; pCircWrite++;\<close> and the wrap of the write pointer
  at the end of the 30-slot array.  The \<^verbatim>\<open>int\<close> slot holds the low 32 bits of \<open>v\<close>.
\<close>

definition circ_push :: "DWORD \<Rightarrow> Parser \<Rightarrow> Parser" where
  "circ_push v p =
     p\<lparr> m_circularBuffer := (m_circularBuffer p)[pCircWrite p := v],
        m_frameCount := m_frameCount p + 1,
        pCircWrite := (if pCircWrite p + 1 = 30 then 0 else pCircWrite p + 1) \<rparr>"

text \<open>
  The first frame size of an EBML-laced block, an \<^verbatim>\<open>int64\<close>.  With a one-byte size
  the source executes \<^verbatim>\<open>framelength -= pow(2, 8 * 2)\<close> on the initial 0.  The
  three-byte test is \<^verbatim>\<open>temp[0] & 0x32\<close>.
\<close>

definition ebml_first_size :: "reader \<Rightarrow> (QWORD \<times> reader) result" where
  "ebml_first_size r =
     bindR (read_byte r) (\<lambda>(t0, r1).
       if t0 AND 0x80 \<noteq> 0 then ok (0 - 65536, r1)
       else bindR (read_byte r1) (\<lambda>(t1, r2).
         if t0 AND 0x40 \<noteq> 0 then ok (word_of_int ((uint t0 - 0x40) * 0x100 + uint t1), r2)
         else bindR (read_byte r2) (\<lambda>(t2, r3).
           if t0 AND 0x32 \<noteq> 0
           then ok (word_of_int ((uint t0 - 0x32) * 0x10000 + uint t1 * 0x100 + uint t2), r3)
           else throw LacedFrameSizeTooBig)))"

text \<open>
  A following frame size: the previous size plus the signed difference, whose bias is
  \<^verbatim>\<open>pow(2, 7 * n + 6) - 1\<close> for a difference of \<open>n + 1\<close> bytes.
\<close>

definition ebml_next_size :: "QWORD \<Rightarrow> reader \<Rightarrow> (QWORD \<times> reader) result" where
  "ebml_next_size lastFramelength r =
     bindR (read_byte r) (\<lambda>(t0, r1).
       if t0 AND 0x80 \<noteq> 0
       then ok (lastFramelength + word_of_int ((uint t0 - 0x80) - (2 ^ 6 - 1)), r1)
       else bindR (read_byte r1) (\<lambda>(t1, r2).
         if t0 AND 0x40 \<noteq> 0
         then ok (lastFramelength
                    + word_of_int (((uint t0 - 0x40) * 0x100 + uint t1) - (2 ^ 13 - 1)), r2)
         else bindR (read_byte r2) (\<lambda>(t2, r3).
           if t0 AND 0x32 \<noteq> 0
           then ok (lastFramelength
                      + word_of_int (((uint t0 - 0x32) * 0x10000 + uint t1 * 0x100 + uint t2)
                                       - (2 ^ 20 - 1)), r3)
           else throw LacedFrameSizeTooBig)))"

text \<open>
  \<^verbatim>\<open>for (int i = 1; i < numframes-1; ++i)\<close>: \<open>n\<close> is the number of iterations left.
\<close>

fun ebml_middle :: "nat \<Rightarrow> QWORD \<Rightarrow> Parser \<Rightarrow> reader \<Rightarrow> (QWORD \<times> Parser \<times> reader) result" where
  "ebml_middle 0 framelength p r = ok (framelength, p, r)"
| "ebml_middle (Suc n) lastFramelength p r =
     bindR (ebml_next_size lastFramelength r) (\<lambda>(framelength, r').
       ebml_middle n framelength (circ_push (ucast framelength) p) r')"

text \<open>
  The EBML lacing branch.  The source also sums \<^verbatim>\<open>accumLength\<close> and computes
  \<^verbatim>\<open>lastFrameLength = size - 4 - accumLength\<close>, but never reads either: the slot of the
  last frame receives \<^verbatim>\<open>framelength\<close>, the size of the frame before it.
\<close>

definition ebml_lacing :: "BYTE \<Rightarrow> Parser \<Rightarrow> reader \<Rightarrow> (Parser \<times> reader) result" where
  "ebml_lacing numframes p r =
     bindR (ebml_first_size r) (\<lambda>(framelength, r1).
     bindR (ebml_middle (nat (uint numframes - 2)) framelength
              (circ_push (ucast framelength) p) r1) (\<lambda>(framelength', p2, r2).
       ok (circ_push (ucast framelength') p2, r2)))"

text \<open>
  Fixed-size lacing: \<^verbatim>\<open>fl = (size - 5) / numframes\<close> in \<^verbatim>\<open>int\<close>, then the test against
  the ring length, then \<open>numframes\<close> slots.
\<close>

definition fixed_lacing :: "DWORD \<Rightarrow> BYTE \<Rightarrow> Parser \<Rightarrow> Parser result" where
  "fixed_lacing size' numframes p =
     (if numframes = 0 then throw DivisionByZero
      else if unat numframes > m_cirBufferLength then throw CircularBufferTooSmall
      else ok (((circ_push (word_of_int (sint (size' - 5) sdiv uint numframes))) ^^ unat numframes) p))"

text \<open>The branch \<^verbatim>\<open>name == "SimpleBlock"\<close> of \<^verbatim>\<open>ParseBytes\<close>, up to its \<^verbatim>\<open>break\<close>.\<close>

definition SimpleBlock :: "DWORD \<Rightarrow> Parser \<Rightarrow> reader \<Rightarrow> (Parser \<times> reader) result" where
  "SimpleBlock size' p r =
     bindR (read_byte r) (\<lambda>(b, r1).
     bindR (read_byte r1) (\<lambda>(temp0, r2).
     bindR (read_byte r2) (\<lambda>(temp1, r3).
     bindR (read_byte r3) (\<lambda>(flags, r4).
       let timeCode0 = ((0::QWORD) * 0x100 + ucast temp0) * 0x100 + ucast temp1;
           timeCode = (if temp0 AND 0x80 \<noteq> 0 then timeCode0 - 65536 else timeCode0);
           laceflags = flags AND 0x06;
           p1 = p\<lparr> m_currentStream := ucast b - 0x80,
                   m_isCurrentKeyFrame := (flags AND 0x80 = 0x80),
                   m_currentTimeStamp := m_currentBlockTimeCode p + timeCode \<rparr>
       in
         if laceflags = 0x00
         then ok ((circ_push (size' - 4) p1)\<lparr> m_framesReady := True \<rparr>, r4)
         else
           bindR (read_byte r4) (\<lambda>(n, r5).
             let numframes = n + 1 in
               if laceflags = 0x02 then throw XiphLacingNotSupported
               else if laceflags = 0x06 then
                 bindR (ebml_lacing numframes p1 r5) (\<lambda>(p2, r6).
                   ok (p2\<lparr> m_framesReady := True \<rparr>, r6))
               else if laceflags = 0x04 then
                 bindR (fixed_lacing size' numframes p1) (\<lambda>p2.
                   ok (p2\<lparr> m_framesReady := True \<rparr>, r5))
               else ok (p1\<lparr> m_framesReady := True \<rparr>, r5))))))"


section \<open>ParseBytes\<close>

text \<open>
  The locals of \<^verbatim>\<open>ParseBytes\<close> that live across iterations of its \<^verbatim>\<open>while\<close> loop.
  \<^verbatim>\<open>type\<close>, \<^verbatim>\<open>size\<close> and \<^verbatim>\<open>hsize\<close> are uninitialised in the source until the first
  header has been read.
\<close>

record locals =
  lv_type :: EET
  lv_size :: DWORD
  lv_hsize :: DWORD
  lv_name :: string
  lv_masterElement :: "base_element option"

definition locals_init :: locals where
  "locals_init =
     \<lparr> lv_type = EET_VOID, lv_size = 0, lv_hsize = 0, lv_name = [], lv_masterElement = None \<rparr>"

text \<open>
  The loop over the SeekHead entries on reaching a Cluster: the first entry that names
  a part of the model that is still missing.
\<close>

fun cluster_check :: "MKVMasterData \<Rightarrow> Seek list \<Rightarrow> Seek option result" where
  "cluster_check md [] = ok None"
| "cluster_check md (seek # rest) =
     (case elemID seek of
        None \<Rightarrow> throw NullDereference
      | Some s \<Rightarrow>
          if (s = ''Info'' \<and> SegInfo md = None) \<or> (s = ''Tracks'' \<and> Tracks md = [])
             \<or> (s = ''Cues'' \<and> Cues md = [])
          then ok (Some seek)
          else cluster_check md rest)"

text \<open>
  The \<^verbatim>\<open>try\<close> block at the head of the loop body.  \<open>Inl\<close> is a \<^verbatim>\<open>return\<close> of
  \<^verbatim>\<open>ParseBytes\<close> with its result, the final \<^verbatim>\<open>*pAte\<close> and the parser state; \<open>Inr\<close>
  goes on to the dispatch on the element name.  Nothing in the block throws a
  \<^verbatim>\<open>std::exception\<close>, so the \<^verbatim>\<open>catch\<close> clause has no counterpart.
\<close>

definition header_phase ::
  "nat \<Rightarrow> Parser \<Rightarrow> reader \<Rightarrow> locals
     \<Rightarrow> ((bool \<times> DWORD \<times> Parser) + (Parser \<times> reader \<times> locals)) result" where
  "header_phase fuel p r l =
     bindR (ReadEbmlElementHeader r) (\<lambda>(elemHeader, r1).
       case element_types_names (id_h elemHeader) of
         None \<Rightarrow> throw MapEndDereference
       | Some typeNameResult \<Rightarrow>
          (case tn_name typeNameResult of
             None \<Rightarrow> throw NullDereference
           | Some nm \<Rightarrow>
              let l1 = l\<lparr> lv_name := nm, lv_type := tn_type typeNameResult,
                         lv_size := elemsize elemHeader, lv_hsize := headsize elemHeader \<rparr>
              in
                if tn_type typeNameResult = EET_MASTER then
                  (if lv_size l1 > cbLen r1 then ok (Inl (False, pAte r1 - lv_hsize l1, p))
                   else bindR (ReadEbmlElementTree2 fuel r1 (elemsize elemHeader)) (\<lambda>(m, r2).
                          ok (Inr (p, r2, l1\<lparr> lv_masterElement := Some m \<rparr>))))
                else if tn_type typeNameResult = EET_JUST_GO_ON then
                  (if nm = ''Cluster'' \<and> \<not> m_isFinishedParsingMaster p then
                     bindR (cluster_check (m_masterData p) (SeekHead (m_masterData p))) (\<lambda>found.
                       case found of
                         Some seek \<Rightarrow>
                           ok (Inl (False, pAte r1,
                                    p\<lparr> m_jumpTo := SeekPosition seek + SegmentPosition (m_masterData p),
                                       m_jumpFlag := True \<rparr>))
                       | None \<Rightarrow> ok (Inr (p\<lparr> m_isFinishedParsingMaster := True \<rparr>, r1, l1)))
                   else ok (Inr (p, r1, l1)))
                else
                  (if lv_size l1 > cbLen r1 then ok (Inl (False, pAte r1 - lv_hsize l1, p))
                   else ok (Inr (p, r1, l1)))))"

text \<open>
  The chain of \<^verbatim>\<open>if (name == ...)\<close> after the \<^verbatim>\<open>try\<close> block.  The first component of
  the result says whether the branch ended in \<^verbatim>\<open>break\<close>.  The last branch reads the
  element and executes \<^verbatim>\<open>delete dump\<close>, which does nothing on a null pointer.
\<close>

definition dispatch :: "nat \<Rightarrow> Parser \<Rightarrow> reader \<Rightarrow> locals \<Rightarrow> (bool \<times> Parser \<times> reader) result" where
  "dispatch fuel p r l =
     (let md = m_masterData p in
      if lv_name l = ''EBML'' then ok (False, p, r)
      else if lv_name l = ''Segment'' then
        ok (False, p\<lparr> m_masterData := md\<lparr> SegmentPosition := ucast (pAte r) \<rparr> \<rparr>, r)
      else if lv_name l = ''SeekHead'' then
        (case lv_masterElement l of
           None \<Rightarrow> ok (False, p, r)
         | Some masterElement \<Rightarrow>
             bindR (master_children masterElement) (\<lambda>cs.
             bindR (build_SeekHead (lv_size l) cs (SeekHead md)) (\<lambda>sh.
               ok (False, p\<lparr> m_masterData := md\<lparr> SeekHead := sh \<rparr> \<rparr>, r))))
      else if lv_name l = ''Info'' then
        (case lv_masterElement l of
           None \<Rightarrow> ok (False, p, r)
         | Some masterElement \<Rightarrow>
             bindR (master_children masterElement) (\<lambda>cs.
             bindR (build_Info cs) (\<lambda>segInfo.
               ok (False, p\<lparr> m_masterData := md\<lparr> SegInfo := Some segInfo \<rparr> \<rparr>, r))))
      else if lv_name l = ''Tracks'' then
        (case lv_masterElement l of
           None \<Rightarrow> ok (False, p, r)
         | Some masterElement \<Rightarrow>
             bindR (master_children masterElement) (\<lambda>cs.
             bindR (build_Tracks cs (Tracks md)) (\<lambda>ts.
               ok (False, p\<lparr> m_masterData := md\<lparr> Tracks := ts \<rparr> \<rparr>, r))))
      else if lv_name l = ''Cues'' then
        (case lv_masterElement l of
           None \<Rightarrow> ok (False, p, r)
         | Some masterElement \<Rightarrow>
             bindR (master_children masterElement) (\<lambda>cs.
             bindR (build_Cues cs (Cues md)) (\<lambda>cues.
               ok (False, p\<lparr> m_masterData := md\<lparr> Cues := cues \<rparr> \<rparr>, r))))
      else if lv_name l = ''Timecode'' then
        bindR (ReadSimpleElement2 fuel r (lv_type l) (lv_size l)) (\<lambda>(e, r').
          case e of
            Some (uint_element n t d) \<Rightarrow> ok (False, p\<lparr> m_currentBlockTimeCode := d \<rparr>, r')
          | _ \<Rightarrow> throw NullDereference)
      else if lv_name l = ''SimpleBlock'' then
        bindR (SimpleBlock (lv_size l) p r) (\<lambda>(p', r'). ok (True, p', r'))
      else if lv_name l = ''BlockGroup'' then ok (False, p, r)
      else if lv_type l \<noteq> EET_JUST_GO_ON \<and> lv_type l \<noteq> EET_MASTER then
        bindR (ReadSimpleElement2 fuel r (lv_type l) (lv_size l)) (\<lambda>(dump, r').
          case dump of
            None \<Rightarrow> ok (False, p, r')
          | Some e \<Rightarrow> bindR (delete_element e) (\<lambda>_. ok (False, p, r')))
      else ok (False, p, r))"

text \<open>
  The \<^verbatim>\<open>while (cbLen > 0)\<close> loop.  The result is the returned \<^verbatim>\<open>bool\<close>, the final
  \<^verbatim>\<open>*pAte\<close> and the parser state.  The first argument bounds the iterations and the
  depth of the element tree.
\<close>

fun ParseBytes_loop :: "nat \<Rightarrow> Parser \<Rightarrow> reader \<Rightarrow> locals \<Rightarrow> (bool \<times> DWORD \<times> Parser) result" where
  "ParseBytes_loop 0 p r l = None"
| "ParseBytes_loop (Suc fuel) p r l =
     (if \<not> cbLen r > 0 then ok (True, pAte r, p)
      else
        bindR (header_phase fuel p r l) (\<lambda>h.
          case h of
            Inl out \<Rightarrow> ok out
          | Inr (p1, r1, l1) \<Rightarrow>
              bindR (dispatch fuel p1 r1 l1) (\<lambda>(brk, p2, r2).
                if brk then ok (True, pAte r2, p2) else ParseBytes_loop fuel p2 r2 l1)))"

text \<open>
  \<^verbatim>\<open>bool Parser::ParseBytes(const BYTE *pData, DWORD cbLen, DWORD *pAte)\<close>: \<open>memory\<close> is
  what can be read from \<^verbatim>\<open>pData\<close> on.
\<close>

definition ParseBytes :: "nat \<Rightarrow> Parser \<Rightarrow> BYTE list \<Rightarrow> DWORD \<Rightarrow> (bool \<times> DWORD \<times> Parser) result" where
  "ParseBytes fuel p memory cbLen0 =
     (if cbLen0 < 4 then ok (False, 0, p)
      else ParseBytes_loop fuel p \<lparr> mem = memory, pData = 0, cbLen = cbLen0, pAte = 0 \<rparr> locals_init)"

section \<open>Seeking by cue points\<close>

text \<open>
  The \<^verbatim>\<open>std::find_if\<close> of \<^verbatim>\<open>FindSeekPoint\<close>: its predicate stores the item in
  \<^verbatim>\<open>lastOne\<close> and answers false while \<^verbatim>\<open>item->CueTime < startTime\<close>; the search stops at
  the first item for which it answers true.  \<^verbatim>\<open>lastOne\<close> starts uninitialised (\<open>None\<close>).
\<close>

fun find_if_cue :: "QWORD \<Rightarrow> CuePoint list \<Rightarrow> CuePoint option \<Rightarrow> CuePoint option" where
  "find_if_cue startTime [] lastOne = lastOne"
| "find_if_cue startTime (item # rest) lastOne =
     (if CueTime item < startTime then find_if_cue startTime rest (Some item) else lastOne)"

definition FindSeekPoint :: "Parser \<Rightarrow> QWORD result" where
  "FindSeekPoint p =
     (case SegInfo (m_masterData p) of
        None \<Rightarrow> throw NullDereference
      | Some segInfo \<Rightarrow>
          if TimecodeScale segInfo div 100 = 0 then throw DivisionByZero
          else
            (case find_if_cue (m_startPosition p div (TimecodeScale segInfo div 100))
                    (Cues (m_masterData p)) None of
               None \<Rightarrow> throw UninitializedPointer
             | Some lastOne \<Rightarrow>
                 (case CueTrackPositions lastOne of
                    [] \<Rightarrow> throw VectorIndexOutOfRange
                  | c # _ \<Rightarrow> ok (CueClusterPosition c + SegmentPosition (m_masterData p)))))"

text \<open>
  The seek branch of \<^verbatim>\<open>MKVSource::ParseData\<close>, taken when the parser has neither
  reached the end of the stream nor frames ready:
  \<^verbatim>\<open>else if (m_parser->m_startPosition.hVal.QuadPart > 0)\<close>.
\<close>

definition ParseData_seek :: "Parser \<Rightarrow> Parser result" where
  "ParseData_seek p =
     (if sint (m_startPosition p) > 0
      then bindR (FindSeekPoint p) (\<lambda>jumpToBytePosition.
             ok (p\<lparr> m_jumpFlag := True, m_jumpTo := jumpToBytePosition, m_startPosition := 0 \<rparr>))
      else ok p)"


section \<open>Example inputs\<close>

text \<open>
  A parser after opening a file whose TimecodeScale is 1,000,000 ns, whose segment
  payload starts at byte 40 and whose Cues hold three cue points: two at tick 5
  (clusters at 100 and 150) and one at tick 10 (cluster at 200).  \<open>t\<close> is the start
  position the consumer asked for, in 100-ns units.
\<close>

definition seek_example :: "QWORD \<Rightarrow> Parser" where
  "seek_example t =
     Parser_new
       \<lparr> m_startPosition := t,
         m_masterData := new_MKVMasterData
           \<lparr> SegmentPosition := 40,
             SegInfo := Some (new_SegmentInformation\<lparr> TimecodeScale := 1000000 \<rparr>),
             Cues := [\<lparr> CueTime = 5, CueTrackPositions = [\<lparr> CueTrack = 1, CueClusterPosition = 100 \<rparr>] \<rparr>,
                      \<lparr> CueTime = 5, CueTrackPositions = [\<lparr> CueTrack = 1, CueClusterPosition = 150 \<rparr>] \<rparr>,
                      \<lparr> CueTime = 10, CueTrackPositions = [\<lparr> CueTrack = 1, CueClusterPosition = 200 \<rparr>] \<rparr>] \<rparr> \<rparr>"


section \<open>The big-endian integer of a byte string\<close>

text \<open>
  The spec's "big-endian integer of the bytes", as an unbounded natural number; the
  decoder is compared with it.
\<close>

definition be_nat :: "BYTE list \<Rightarrow> nat" where
  "be_nat bytes = foldl (\<lambda>a b. a * 256 + unat b) 0 bytes"

text \<open>The spec's "2-byte big-endian signed" integer.\<close>

definition be_int16 :: "BYTE \<Rightarrow> BYTE \<Rightarrow> int" where
  "be_int16 b0 b1 =
     (if uint b0 * 256 + uint b1 < 32768 then uint b0 * 256 + uint b1
      else uint b0 * 256 + uint b1 - 65536)"


chapter \<open>Properties\<close>

section \<open>The buffer invariant and buffer idempotence\<close>

lemma buffer_inv_new: "buffer_inv (Buffer_new n)"
  by (simp add: buffer_inv_def Buffer_new_def SetSize_def Allocate_def Let_def word_gt_0)

lemma Reserve_noop:
  "\<not> cb > MAXDWORD - DataSize b \<Longrightarrow> \<not> cb > m_count b - m_end b \<Longrightarrow> Reserve cb b = Inr b"
  by (simp add: Reserve_def)

lemma Reserve_grow_fields:
  assumes "\<not> cb > MAXDWORD - DataSize b" "cb > m_count b - m_end b" "Reserve cb b = Inr b'"
  shows "m_begin b' = 0" "m_end b' = DataSize b"
    "m_count b' = (if cb > CurrentFreeSize b then DataSize b + cb else m_count b)"
    "m_allocated b' = (if cb > CurrentFreeSize b \<and> DataSize b + cb > m_allocated b then DataSize b + cb else m_allocated b)"
    "allocations b' = (if cb > CurrentFreeSize b \<and> DataSize b + cb > m_allocated b then Suc (allocations b) else allocations b)"
  using assms
  by (auto simp: Reserve_def SetSize_def Allocate_def Let_def DataSize_def CurrentFreeSize_def split: if_splits)

lemma sub_le_word: fixes b e c :: "32 word"
  assumes "b \<le> e" "e \<le> c"
  shows "e - b \<le> c"
proof -
  have "unat (e - b) = unat e - unat b" using assms(1) by (simp add: unat_sub)
  then show ?thesis using assms by (simp add: word_le_nat_alt)
qed

lemma unat_add_fits: fixes d cb :: "32 word"
  assumes "\<not> cb > 0xFFFFFFFF - d"
  shows "unat (d + cb) = unat d + unat cb"
proof -
  have "unat (0xFFFFFFFF - d) = 4294967295 - unat d"
    by (subst unat_sub) (simp_all add: word_le_nat_alt, insert unsigned_less[of d, where 'a=nat], simp)
  then have "unat d + unat cb < 2 ^ 32"
    using assms unsigned_less[of d, where 'a=nat] by (simp add: word_less_nat_alt not_less)
  then show ?thesis by (simp add: unat_add_lem[THEN iffD1])
qed

lemma Reserve_props:
  assumes inv: "buffer_inv b" and R: "Reserve cb b = Inr b'"
  shows "buffer_inv b'" "DataSize b' = DataSize b" "cb \<le> m_count b' - m_end b'"
        "allocations b' \<le> Suc (allocations b)" "\<not> cb > MAXDWORD - DataSize b'"
proof -
  have ok: "\<not> cb > MAXDWORD - DataSize b" using R by (auto simp: Reserve_def split: if_splits)
  have "buffer_inv b' \<and> DataSize b' = DataSize b \<and> cb \<le> m_count b' - m_end b'
        \<and> allocations b' \<le> Suc (allocations b)"
  proof (cases "cb > m_count b - m_end b")
    case False
    then have "b' = b" using R ok Reserve_noop[where cb=cb and b=b] by simp
    then show ?thesis using inv False by simp
  next
    case True
    note f = Reserve_grow_fields[OF ok True R]
    have dle: "DataSize b \<le> m_count b"
      using inv sub_le_word[of "m_begin b" "m_end b" "m_count b"]
      by (simp add: buffer_inv_def DataSize_def)
    have add: "unat (DataSize b + cb) = unat (DataSize b) + unat cb"
      using ok unat_add_fits[of "DataSize b" cb] by (simp add: MAXDWORD_def)
    have free: "unat (CurrentFreeSize b) = unat (m_count b) - unat (DataSize b)"
      using dle by (simp add: CurrentFreeSize_def unat_sub)
    have ca: "m_count b \<le> m_allocated b" using inv by (simp add: buffer_inv_def)
    have i1: "m_end b' \<le> m_count b'"
      using dle add by (simp add: f word_le_nat_alt)
    have i2: "m_count b' \<le> m_allocated b'"
      using ca add by (auto simp: f word_le_nat_alt word_less_nat_alt)
    have i3: "cb \<le> m_count b' - m_end b'"
      using dle add free i1 by (auto simp: f word_le_nat_alt word_less_nat_alt unat_sub)
    have i4: "DataSize b' = DataSize b" by (simp add: DataSize_def f)
    show ?thesis using i1 i2 i3 i4 by (simp add: buffer_inv_def f)
  qed
  then show "buffer_inv b'" "DataSize b' = DataSize b" "cb \<le> m_count b' - m_end b'"
        "allocations b' \<le> Suc (allocations b)" by simp_all
  then show "\<not> cb > MAXDWORD - DataSize b'" using ok by simp
qed

lemma Reserve_again:
  assumes inv: "buffer_inv b" and R: "Reserve cb b = Inr b'"
  shows "Reserve cb b' = Inr b'"
  using Reserve_props(3,5)[OF inv R] Reserve_noop[where cb=cb and b=b'] by (simp add: not_less)

lemma MoveStart_inv:
  assumes inv: "buffer_inv b" and R: "MoveStart cb b = Inr b'"
  shows "buffer_inv b'" "DataSize b' = DataSize b - cb"
proof -
  have le: "cb \<le> DataSize b" and b': "b' = b\<lparr> m_begin := m_begin b + cb \<rparr>"
    using R by (auto simp: MoveStart_def split: if_splits)
  have be: "m_begin b \<le> m_end b" using inv by (simp add: buffer_inv_def)
  have d: "unat (DataSize b) = unat (m_end b) - unat (m_begin b)"
    using be by (simp add: DataSize_def unat_sub)
  have "unat (m_begin b) + unat cb \<le> unat (m_end b)"
    using le d be by (simp add: word_le_nat_alt)
  moreover from this have "unat (m_begin b + cb) = unat (m_begin b) + unat cb"
    using unsigned_less[of "m_end b", where 'a=nat] by (simp add: unat_add_lem[THEN iffD1])
  ultimately have "m_begin b + cb \<le> m_end b" by (simp add: word_le_nat_alt)
  then show "buffer_inv b'" using inv by (simp add: buffer_inv_def b')
  show "DataSize b' = DataSize b - cb" by (simp add: DataSize_def b')
qed

lemma MoveEnd_inv:
  assumes inv: "buffer_inv b" and R: "MoveEnd cb b = Inr b'"
  shows "buffer_inv b'" "DataSize b' = DataSize b + cb"
proof -
  obtain b1 where R1: "Reserve cb b = Inr b1" and b': "b' = b1\<lparr> m_end := m_end b1 + cb \<rparr>"
    using R by (auto simp: MoveEnd_def split: sum.splits)
  note p = Reserve_props[OF inv R1]
  have ec: "m_end b1 \<le> m_count b1" and be: "m_begin b1 \<le> m_end b1"
    using p(1) by (simp_all add: buffer_inv_def)
  have "unat (m_end b1) + unat cb \<le> unat (m_count b1)"
    using p(3) ec by (simp add: word_le_nat_alt unat_sub)
  moreover from this have "unat (m_end b1 + cb) = unat (m_end b1) + unat cb"
    using unsigned_less[of "m_count b1", where 'a=nat] by (simp add: unat_add_lem[THEN iffD1])
  ultimately have "m_end b1 + cb \<le> m_count b1" "m_end b1 \<le> m_end b1 + cb"
    by (simp_all add: word_le_nat_alt)
  then show "buffer_inv b'" using p(1) be by (auto simp: buffer_inv_def b')
  show "DataSize b' = DataSize b + cb" using p(2) by (simp add: DataSize_def b')
qed

lemma reachable_inv: "reachable b \<Longrightarrow> buffer_inv b"
  by (induction rule: reachable.induct)
     (auto intro: buffer_inv_new Reserve_props(1) MoveStart_inv(1) MoveEnd_inv(1))

lemma MoveEnd_after_MoveStart_ok:
  fixes d k :: "32 word"
  assumes "k \<le> d"
  shows "\<not> k > 0xFFFFFFFF - (d - k)"
proof -
  have s: "unat (d - k) = unat d - unat k" using assms by (simp add: unat_sub)
  have "unat (0xFFFFFFFF - (d - k)) = 4294967295 - unat (d - k)"
    by (subst unat_sub) (simp_all add: word_le_nat_alt, insert unsigned_less[of "d - k", where 'a=nat], simp)
  then show ?thesis
    using s assms unsigned_less[of d, where 'a=nat] by (simp add: word_less_nat_alt word_le_nat_alt)
qed

text \<open>
  Claim C9.  In every reachable buffer state, \<^verbatim>\<open>Reserve(n)\<close> either throws before
  touching the buffer, or returns a state in which a second \<^verbatim>\<open>Reserve(n)\<close> changes
  nothing (so it allocates nothing), and the first call allocated at most once.  For
  every \<open>k\<close> not exceeding the data size, \<^verbatim>\<open>MoveStart(k)\<close> followed by
  \<^verbatim>\<open>MoveEnd(k)\<close> both return and leave \<^verbatim>\<open>DataSize\<close> at its original value.
\<close>

theorem buffer_idempotence:
  assumes "reachable b"
  shows "(case Reserve n b of
            Inl e \<Rightarrow> e = InvalidArgumentException
          | Inr b1 \<Rightarrow> Reserve n b1 = Inr b1 \<and> allocations b1 \<le> allocations b + 1)
       \<and> (k \<le> DataSize b \<longrightarrow>
            (\<exists>b1 b2. MoveStart k b = Inr b1 \<and> MoveEnd k b1 = Inr b2
                     \<and> DataSize b2 = DataSize b))"
proof
  have inv: "buffer_inv b" using assms by (rule reachable_inv)
  show "case Reserve n b of
            Inl e \<Rightarrow> e = InvalidArgumentException
          | Inr b1 \<Rightarrow> Reserve n b1 = Inr b1 \<and> allocations b1 \<le> allocations b + 1"
  proof (cases "Reserve n b")
    case (Inl e)
    then show ?thesis by (auto simp: Reserve_def Let_def split: if_splits)
  next
    case (Inr b1)
    then show ?thesis using Reserve_again[OF inv Inr] Reserve_props(4)[OF inv Inr] by simp
  qed
  show "k \<le> DataSize b \<longrightarrow>
            (\<exists>b1 b2. MoveStart k b = Inr b1 \<and> MoveEnd k b1 = Inr b2
                     \<and> DataSize b2 = DataSize b)"
  proof
    assume k: "k \<le> DataSize b"
    define b1 where "b1 = b\<lparr> m_begin := m_begin b + k \<rparr>"
    have ms: "MoveStart k b = Inr b1" using k by (simp add: MoveStart_def b1_def not_less)
    note p1 = MoveStart_inv[OF inv ms]
    have "\<not> k > MAXDWORD - DataSize b1"
      using MoveEnd_after_MoveStart_ok[OF k] by (simp add: p1(2) MAXDWORD_def)
    then have "\<exists>b1'. Reserve k b1 = Inr b1'"
      by (simp add: Reserve_def Let_def)
    then obtain b1' where r: "Reserve k b1 = Inr b1'" ..
    then have me: "MoveEnd k b1 = Inr (b1'\<lparr> m_end := m_end b1' + k \<rparr>)"
      by (simp add: MoveEnd_def)
    have "DataSize (b1'\<lparr> m_end := m_end b1' + k \<rparr>) = DataSize b"
      using MoveEnd_inv(2)[OF p1(1) me] by (simp add: p1(2))
    then show "\<exists>b1 b2. MoveStart k b = Inr b1 \<and> MoveEnd k b1 = Inr b2 \<and> DataSize b2 = DataSize b"
      using ms me by blast
  qed
qed

lemma ex_buf: "MoveEnd 8 (Buffer_new 16) =
   Inr \<lparr> m_array = replicate 16 0, m_count = 16, m_allocated = 16, m_begin = 0, m_end = 8,
         allocations = 1 \<rparr>"
  by (simp add: MoveEnd_def Reserve_def Buffer_new_def SetSize_def Allocate_def Let_def
        DataSize_def CurrentFreeSize_def MAXDWORD_def)

theorem buffer_idempotence_witness:
  "\<exists>b. MoveEnd 8 (Buffer_new 16) = Inr b \<and> reachable b \<and> 3 \<le> DataSize b
      \<and> (case Reserve 32 b of
            Inl e \<Rightarrow> e = InvalidArgumentException
          | Inr b1 \<Rightarrow> Reserve 32 b1 = Inr b1 \<and> allocations b1 \<le> allocations b + 1)
      \<and> (\<exists>b1 b2. MoveStart 3 b = Inr b1 \<and> MoveEnd 3 b1 = Inr b2
                     \<and> DataSize b2 = DataSize b)"
proof -
  let ?b = "\<lparr> m_array = replicate 16 0, m_count = 16, m_allocated = 16, m_begin = 0,
              m_end = 8, allocations = 1 \<rparr> :: Buffer"
  have r: "reachable ?b" using reach_MoveEnd[OF reach_new ex_buf] .
  have d: "3 \<le> DataSize ?b" by (simp add: DataSize_def)
  show ?thesis using ex_buf r d buffer_idempotence[OF r, of 32 3] by blast
qed

section \<open>Sequencing\<close>

lemma bindR_ok [simp]: "bindR (ok x) f = f x"
  by (simp add: bindR_def ok_def)

lemma bindR_throw [simp]: "bindR (throw e) f = throw e"
  by (simp add: bindR_def throw_def)

lemma bindR_None [simp]: "bindR None f = None"
  by (simp add: bindR_def)

lemma ok_neq [simp]: "ok x \<noteq> throw e" "throw e \<noteq> ok x" "ok x \<noteq> None" "throw e \<noteq> None"
  "None \<noteq> ok x" "None \<noteq> throw e"
  by (simp_all add: ok_def throw_def)

lemma ok_inject [simp]: "ok x = ok y \<longleftrightarrow> x = y"
  by (simp add: ok_def)

lemma throw_inject [simp]: "throw e = throw e' \<longleftrightarrow> e = e'"
  by (simp add: throw_def)

lemma result_cases:
  obtains (diverges) "m = None" | (fault) e where "m = throw e" | (returns) x where "m = ok x"
proof (cases m)
  case None
  then show ?thesis by (rule diverges)
next
  case (Some a)
  then show ?thesis
    by (cases a) (auto simp: ok_def throw_def intro: fault returns)
qed

lemma bindR_eq_ok:
  "bindR m f = ok y \<longleftrightarrow> (\<exists>x. m = ok x \<and> f x = ok y)"
  by (cases m rule: result_cases) auto

section \<open>ParseBytes on fewer than four bytes\<close>

text \<open>
  Claim C10.  For every call of \<^verbatim>\<open>ParseBytes\<close> with \<^verbatim>\<open>cbLen < 4\<close> the call returns
  \<^verbatim>\<open>false\<close> with \<^verbatim>\<open>*pAte = 0\<close> and the parser state it was given, whatever the memory
  holds and without using any of the iteration bound.
\<close>

theorem ParseBytes_short_buffer:
  "cbLen0 < 4 \<Longrightarrow> ParseBytes fuel p memory cbLen0 = ok (False, 0, p)"
  by (simp add: ParseBytes_def)

theorem ParseBytes_short_buffer_witness:
  "(3::DWORD) < 4 \<and> ParseBytes 0 Parser_new [0x15, 0x49, 0xA9] 3 = ok (False, 0, Parser_new)"
  using ParseBytes_short_buffer[of 3 0 Parser_new "[0x15, 0x49, 0xA9]"] by simp

section \<open>The Info builder\<close>

lemma table_names:
  assumes "element_types_names k = Some tn"
  shows "tn_name tn \<noteq> None"
proof -
  have "list_all (\<lambda>(k, tn). tn_name tn \<noteq> None) element_types_names_table"
    by (simp add: element_types_names_table_def)
  moreover have "(k, tn) \<in> set element_types_names_table"
    using assms by (auto simp: element_types_names_def dest: map_of_SomeD)
  ultimately show ?thesis by (auto simp: list_all_iff)
qed

lemma ReadEbmlElementTree2_master:
  assumes "ReadEbmlElementTree2 fuel r total_size = ok (m, r')"
  shows "\<exists>cs. m = master_element None EET_VOID cs"
  using assms by (cases fuel) (auto simp: bindR_eq_ok)

lemma ReadSimpleElement2_built:
  assumes "ReadSimpleElement2 fuel r type size' = ok (Some e, r')"
    and "type \<noteq> EET_MASTER"
    and "n \<noteq> None \<or> (type \<noteq> EET_TEXTA \<and> type \<noteq> EET_TEXTU \<and> type \<noteq> EET_FLOAT)"
  shows "built_by_reader (set_name n e)"
proof (cases fuel)
  case 0
  with assms(1) show ?thesis by simp
next
  case (Suc f)
  show ?thesis
    using assms unfolding Suc
    by (auto simp: bindR_eq_ok split: if_splits)
qed

lemma tree_loop_step:
  assumes "total_size > 0" and h: "ReadEbmlElementHeader r = ok (hresult, r1)"
    and nu: "elemsize hresult \<noteq> - 1"
  shows "tree_loop (Suc fuel) r total_size children =
     (let r2 = (if elemsize hresult > total_size
                      then r1\<lparr> pData := pData r1 + unat total_size,
                               cbLen := cbLen r1 - total_size,
                               pAte := pAte r1 + total_size \<rparr>
                      else r1);
                typeNameResult = (case element_types_names (id_h hresult) of
                                    None \<Rightarrow> type_name EET_VOID None
                                  | Some tn \<Rightarrow> tn);
                type = (case element_types_names (id_h hresult) of
                          None \<Rightarrow> EET_BINARY
                        | Some tn \<Rightarrow> tn_type tn)
            in
              if type = EET_MASTER then
                bindR (ReadEbmlElementTree2 fuel r2 (elemsize hresult)) (\<lambda>(masterElement, r3).
                  tree_loop fuel r3 (total_size - (elemsize hresult + headsize hresult))
                    (children @ [set_type (tn_type typeNameResult)
                                   (set_name (tn_name typeNameResult) masterElement)]))
              else
                bindR (ReadSimpleElement2 fuel r2 type (elemsize hresult)) (\<lambda>(simpleElement, r3).
                  case simpleElement of
                    None \<Rightarrow> throw NullDereference
                  | Some e \<Rightarrow>
                      tree_loop fuel r3 (total_size - (elemsize hresult + headsize hresult))
                        (children @ [set_name (tn_name typeNameResult) e])))"
  apply (subst tree_loop.simps(2))
  apply (simp only: assms(1) h bindR_ok prod.case nu if_False simp_thms)
  done


lemma tree_loop_built:
  assumes "tree_loop fuel r total_size children = ok (cs, r')"
    and "\<forall>c \<in> set children. built_by_reader c"
  shows "\<forall>c \<in> set cs. built_by_reader c"
  using assms
proof (induction fuel arbitrary: r total_size children)
  case 0
  then show ?case by simp
next
  case (Suc fuel)
  show ?case
  proof (cases "total_size > 0")
    case False
    have "tree_loop (Suc fuel) r total_size children = ok (children, r)"
      by (simp only: tree_loop.simps False if_True simp_thms)
    from Suc.prems(1)[unfolded this] Suc.prems(2) show ?thesis by simp
  next
    case True
    have "\<exists>hresult r1. ReadEbmlElementHeader r = ok (hresult, r1)"
    proof (cases "ReadEbmlElementHeader r" rule: result_cases)
      case diverges
      have "tree_loop (Suc fuel) r total_size children = None"
        by (simp only: tree_loop.simps True diverges bindR_None if_False simp_thms)
      from Suc.prems(1)[unfolded this] show ?thesis by simp
    next
      case (fault e)
      have "tree_loop (Suc fuel) r total_size children = throw e"
        by (simp only: tree_loop.simps True fault bindR_throw if_False simp_thms)
      from Suc.prems(1)[unfolded this] show ?thesis by simp
    next
      case (returns x)
      then show ?thesis by (cases x) simp
    qed
    then obtain hresult r1 where h: "ReadEbmlElementHeader r = ok (hresult, r1)" by blast
    show ?thesis
    proof (cases "elemsize hresult = - 1")
      case True
      have "tree_loop (Suc fuel) r total_size children
              = ok (children,
                    r1\<lparr> pData := pData r1 + unat total_size, cbLen := cbLen r1 - total_size,
                        pAte := pAte r1 + total_size \<rparr>)"
        by (simp only: tree_loop.simps h bindR_ok prod.case \<open>total_size > 0\<close> True
              if_False if_True simp_thms)
      from Suc.prems(1)[unfolded this] Suc.prems(2) show ?thesis by simp
    next
      case nu: False
      define r2 where "r2 = (if elemsize hresult > total_size
                      then r1\<lparr> pData := pData r1 + unat total_size,
                               cbLen := cbLen r1 - total_size,
                               pAte := pAte r1 + total_size \<rparr>
                      else r1)"
      define tnr where "tnr = (case element_types_names (id_h hresult) of
                                    None \<Rightarrow> type_name EET_VOID None
                                  | Some tn \<Rightarrow> tn)"
      define type where "type = (case element_types_names (id_h hresult) of
                          None \<Rightarrow> EET_BINARY
                        | Some tn \<Rightarrow> tn_type tn)"
      have nm: "tn_name tnr \<noteq> None \<or> (type \<noteq> EET_TEXTA \<and> type \<noteq> EET_TEXTU \<and> type \<noteq> EET_FLOAT)"
        by (cases "element_types_names (id_h hresult)")
           (auto simp: tnr_def type_def dest: table_names)
      have ty: "type = EET_MASTER \<Longrightarrow> tn_type tnr = EET_MASTER"
        by (cases "element_types_names (id_h hresult)") (auto simp: tnr_def type_def)
      have step: "(if type = EET_MASTER then
                bindR (ReadEbmlElementTree2 fuel r2 (elemsize hresult)) (\<lambda>(masterElement, r3).
                  tree_loop fuel r3 (total_size - (elemsize hresult + headsize hresult))
                    (children @ [set_type (tn_type tnr) (set_name (tn_name tnr) masterElement)]))
              else
                bindR (ReadSimpleElement2 fuel r2 type (elemsize hresult)) (\<lambda>(simpleElement, r3).
                  case simpleElement of
                    None \<Rightarrow> throw NullDereference
                  | Some e \<Rightarrow>
                      tree_loop fuel r3 (total_size - (elemsize hresult + headsize hresult))
                        (children @ [set_name (tn_name tnr) e]))) = ok (cs, r')"
        using Suc.prems(1) unfolding tree_loop_step[OF \<open>total_size > 0\<close> h nu] r2_def tnr_def type_def
        by (simp only: Let_def)
      show ?thesis
      proof (cases "type = EET_MASTER")
        case True
        with step obtain m r3 where
          m: "ReadEbmlElementTree2 fuel r2 (elemsize hresult) = ok (m, r3)"
          and rest: "tree_loop fuel r3 (total_size - (elemsize hresult + headsize hresult))
                    (children @ [set_type (tn_type tnr) (set_name (tn_name tnr) m)]) = ok (cs, r')"
          by (auto simp: bindR_eq_ok)
        from ReadEbmlElementTree2_master[OF m] obtain mc where "m = master_element None EET_VOID mc" ..
        then have "built_by_reader (set_type (tn_type tnr) (set_name (tn_name tnr) m))"
          using ty[OF True] by simp
        with Suc.prems(2) have "\<forall>c \<in> set (children @ [set_type (tn_type tnr) (set_name (tn_name tnr) m)]).
                 built_by_reader c"
          by simp
        then show ?thesis by (rule Suc.IH[OF rest])
      next
        case False
        with step obtain e r3 where
          e: "ReadSimpleElement2 fuel r2 type (elemsize hresult) = ok (Some e, r3)"
          and rest: "tree_loop fuel r3 (total_size - (elemsize hresult + headsize hresult))
                        (children @ [set_name (tn_name tnr) e]) = ok (cs, r')"
          by (auto simp: bindR_eq_ok split: option.splits)
        have "built_by_reader (set_name (tn_name tnr) e)"
          by (rule ReadSimpleElement2_built[OF e False nm])
        with Suc.prems(2) have "\<forall>c \<in> set (children @ [set_name (tn_name tnr) e]). built_by_reader c"
          by simp
        then show ?thesis by (rule Suc.IH[OF rest])
      qed
    qed
  qed
qed

lemma ReadEbmlElementTree2_built:
  assumes "ReadEbmlElementTree2 fuel r total_size = ok (master_element n t children, r')"
  shows "\<forall>c \<in> set children. built_by_reader c"
proof (cases fuel)
  case 0
  with assms show ?thesis by simp
next
  case (Suc f)
  with assms have "tree_loop f r total_size [] = ok (children, r')"
    by (auto simp: bindR_eq_ok)
  from tree_loop_built[OF this] show ?thesis by simp
qed

lemma info_child_TimecodeScale:
  assumes "built_by_reader c" "elem_type c \<noteq> EET_UNSIGNED"
    and "elem_type c = EET_BINARY \<longrightarrow> binary_length c \<le> 16"
  shows "\<exists>segInfo'. info_child c segInfo = ok segInfo'
           \<and> TimecodeScale segInfo' = TimecodeScale segInfo"
  using assms by (cases c) (auto split: option.splits)

lemma foldR_info_TimecodeScale:
  assumes "\<forall>c \<in> set children. built_by_reader c"
    and "\<forall>c \<in> set children. elem_type c \<noteq> EET_UNSIGNED"
    and "\<forall>c \<in> set children. elem_type c = EET_BINARY \<longrightarrow> binary_length c \<le> 16"
  shows "\<exists>segInfo'. foldR info_child children segInfo = ok segInfo'
           \<and> TimecodeScale segInfo' = TimecodeScale segInfo"
  using assms
proof (induction children arbitrary: segInfo)
  case Nil
  then show ?case by simp
next
  case (Cons c cs)
  from info_child_TimecodeScale[of c segInfo] Cons.prems obtain s1 where
    s1: "info_child c segInfo = ok s1" "TimecodeScale s1 = TimecodeScale segInfo"
    by auto
  from Cons.IH[of s1] Cons.prems obtain s2 where
    "foldR info_child cs s1 = ok s2" "TimecodeScale s2 = TimecodeScale s1"
    by auto
  with s1 show ?case by simp
qed

text \<open>
  Claim C8, as amended.  Let the tree reader return an Info master element none of
  whose children has the type \<^verbatim>\<open>_UNSIGNED\<close> (the value that \<^verbatim>\<open>enum EET\<close> also gives
  \<^verbatim>\<open>_SIGNED\<close>; TimecodeScale is the one such child the schema gives Info) and none of
  whose children of type \<^verbatim>\<open>BINARY\<close> is longer than the 16 bytes of \<^verbatim>\<open>SegmentUID\<close>.  Then the builder returns a segment information, and its
  TimecodeScale is 0, the value of the zero-initialised struct, not 1,000,000: only a
  child of type \<^verbatim>\<open>_UNSIGNED\<close> assigns the field.
\<close>

theorem Info_without_TimecodeScale:
  assumes "ReadEbmlElementTree2 fuel r total_size = ok (master_element n t children, r')"
    and "\<forall>c \<in> set children. elem_type c \<noteq> EET_UNSIGNED"
    and "\<forall>c \<in> set children. elem_type c = EET_BINARY \<longrightarrow> binary_length c \<le> 16"
  shows "\<exists>segInfo. build_Info children = ok segInfo \<and> TimecodeScale segInfo = 0"
  using foldR_info_TimecodeScale[OF ReadEbmlElementTree2_built[OF assms(1)] assms(2,3),
          of new_SegmentInformation]
  by (simp add: build_Info_def new_SegmentInformation_def)

text \<open>The Info branch of \<^verbatim>\<open>ParseBytes\<close> stores what the builder returns.\<close>

lemma dispatch_Info:
  assumes "lv_name l = ''Info''" "lv_masterElement l = Some (master_element n t children)"
    and "build_Info children = ok segInfo"
  shows "dispatch fuel p r l
           = ok (False, p\<lparr> m_masterData := (m_masterData p)\<lparr> SegInfo := Some segInfo \<rparr> \<rparr>, r)"
  using assms by (simp add: dispatch_def Let_def)

text \<open>
  The payload 4D 80 83 61 62 63 of an Info element: one child, MuxingApp = "abc".
\<close>

theorem Info_without_TimecodeScale_witness:
  "ReadEbmlElementTree2 3 \<lparr> mem = [0x4D, 0x80, 0x83, 0x61, 0x62, 0x63], pData = 0, cbLen = 6, pAte = 0 \<rparr> 6
     = ok (master_element None EET_VOID
             [string_element (Some ''MuxingApp'') EET_TEXTU [0x61, 0x62, 0x63]],
           \<lparr> mem = [0x4D, 0x80, 0x83, 0x61, 0x62, 0x63], pData = 6, cbLen = 0, pAte = 6 \<rparr>)
   \<and> elem_type (string_element (Some ''MuxingApp'') EET_TEXTU [0x61, 0x62, 0x63]) = EET_TEXTU
   \<and> (\<exists>segInfo. build_Info [string_element (Some ''MuxingApp'') EET_TEXTU [0x61, 0x62, 0x63]]
                   = ok segInfo \<and> TimecodeScale segInfo = 0)"
proof -
  let ?r = "\<lparr> mem = [0x4D, 0x80, 0x83, 0x61, 0x62, 0x63], pData = 0, cbLen = 6, pAte = 0 \<rparr> :: reader"
  let ?r' = "\<lparr> mem = [0x4D, 0x80, 0x83, 0x61, 0x62, 0x63], pData = 6, cbLen = 0, pAte = 6 \<rparr> :: reader"
  let ?cs = "[string_element (Some ''MuxingApp'') EET_TEXTU [0x61, 0x62, 0x63]]"
  have a: "ReadEbmlElementTree2 3 ?r 6 = ok (master_element None EET_VOID ?cs, ?r')"
    by code_simp
  have b: "\<forall>c \<in> set ?cs. elem_type c \<noteq> EET_UNSIGNED" by simp
  have c: "\<forall>c \<in> set ?cs. elem_type c = EET_BINARY \<longrightarrow> binary_length c \<le> 16" by simp
  show ?thesis using a Info_without_TimecodeScale[OF a b c] by simp
qed

text \<open>
  An Info element (id 0x1549A966, size 6) whose only child is MuxingApp = "abc":
  \<^verbatim>\<open>ParseBytes\<close> stores a segment information with TimecodeScale 0.
\<close>

theorem Info_default_TimecodeScale_counterexample:
  "ParseBytes 5 Parser_new
     [0x15, 0x49, 0xA9, 0x66, 0x86, 0x4D, 0x80, 0x83, 0x61, 0x62, 0x63] 11
   = ok (True, 11,
         Parser_new\<lparr> m_masterData := new_MKVMasterData
           \<lparr> SegInfo := Some (new_SegmentInformation\<lparr> MuxingApp := Some [0x61, 0x62, 0x63] \<rparr>) \<rparr> \<rparr>)
   \<and> TimecodeScale (new_SegmentInformation\<lparr> MuxingApp := Some [0x61, 0x62, 0x63] \<rparr>) \<noteq> 1000000"
  by code_simp

text \<open>
  Why the bound on the binary children is needed: a child of type \<^verbatim>\<open>BINARY\<close> and 24
  bytes (here SegmentFamily, id 0x4444) whose last eight bytes are 40 42 0F 00 00 00
  00 00 leaves the TimecodeScale at 1,000,000, although no child assigns it.
\<close>

lemma Info_long_binary_child:
  "build_Info [binary_element (Some ''SegmentFamily'') EET_BINARY 24
                 [1, 2, 3, 4, 5, 6, 7, 8, 9, 10, 11, 12, 13, 14, 15, 16,
                  0x40, 0x42, 0x0F, 0, 0, 0, 0, 0]]
     = ok (new_SegmentInformation
             \<lparr> SegmentUID := [1, 2, 3, 4, 5, 6, 7, 8, 9, 10, 11, 12, 13, 14, 15, 16],
               TimecodeScale := 1000000 \<rparr>)"
  by code_simp

section \<open>Seeking by cue points\<close>

lemma find_if_cue_run:
  assumes "j < length cues" "\<forall>i \<le> j. CueTime (cues ! i) < target"
    "Suc j < length cues \<longrightarrow> \<not> CueTime (cues ! Suc j) < target"
  shows "find_if_cue target cues lastOne = Some (cues ! j)"
  using assms
proof (induction cues arbitrary: j lastOne)
  case Nil
  then show ?case by simp
next
  case (Cons x xs)
  have x: "CueTime x < target" using Cons.prems(2) by auto
  show ?case
  proof (cases j)
    case 0
    then show ?thesis using x Cons.prems(3) by (cases xs) auto
  next
    case (Suc j')
    have "find_if_cue target xs (Some x) = Some (xs ! j')"
    proof (rule Cons.IH)
      show "j' < length xs" using Cons.prems(1) Suc by simp
      show "\<forall>i \<le> j'. CueTime (xs ! i) < target"
      proof (intro allI impI)
        fix i assume "i \<le> j'"
        then have "Suc i \<le> j" using Suc by simp
        then have "CueTime ((x # xs) ! Suc i) < target" using Cons.prems(2) by blast
        then show "CueTime (xs ! i) < target" by simp
      qed
      show "Suc j' < length xs \<longrightarrow> \<not> CueTime (xs ! Suc j') < target"
        using Cons.prems(3) Suc by simp
    qed
    then show ?thesis using x Suc by simp
  qed
qed

lemma find_if_cue_none_precedes:
  "\<not> CueTime item < target \<Longrightarrow> find_if_cue target (item # rest) None = None"
  by simp

text \<open>
  Claim C3, as amended.  With the target \<open>t div (TimecodeScale div 100)\<close> in ticks
  (unsigned 64-bit division), the seek branch jumps to the last CuePoint \<open>j\<close> of the
  initial run of CuePoints whose cue time is strictly less than the target: every
  CuePoint up to \<open>j\<close> is earlier than the target and the next one, if any, is not.  In a
  cue list in ascending time order this is the greatest CuePoint with cue time below
  the target, and the one with the highest index among those sharing that time.  The
  jump offset is the cluster position of its first track position plus the segment
  payload offset, in 64-bit arithmetic.
\<close>

theorem seek_by_cue_point:
  assumes "SegInfo (m_masterData p) = Some segInfo"
    and "TimecodeScale segInfo div 100 \<noteq> 0"
    and "target = m_startPosition p div (TimecodeScale segInfo div 100)"
    and "0 < sint (m_startPosition p)"
    and "j < length (Cues (m_masterData p))"
    and "\<forall>i \<le> j. CueTime (Cues (m_masterData p) ! i) < target"
    and "Suc j < length (Cues (m_masterData p))
           \<longrightarrow> \<not> CueTime (Cues (m_masterData p) ! Suc j) < target"
    and "CueTrackPositions (Cues (m_masterData p) ! j) = c # cs"
  shows "FindSeekPoint p = ok (CueClusterPosition c + SegmentPosition (m_masterData p))
       \<and> ParseData_seek p
           = ok (p\<lparr> m_jumpFlag := True,
                    m_jumpTo := CueClusterPosition c + SegmentPosition (m_masterData p),
                    m_startPosition := 0 \<rparr>)"
proof -
  have f: "find_if_cue target (Cues (m_masterData p)) None = Some (Cues (m_masterData p) ! j)"
    using find_if_cue_run[OF assms(5) assms(6) assms(7)] .
  have "FindSeekPoint p = ok (CueClusterPosition c + SegmentPosition (m_masterData p))"
    using assms(1,2,8) f by (simp add: FindSeekPoint_def assms(3)[symmetric])
  then show ?thesis using assms(4) by (simp add: ParseData_seek_def bindR_def ok_def)
qed

theorem seek_by_cue_point_witness:
  "FindSeekPoint (seek_example 70000) = ok 190
   \<and> ParseData_seek (seek_example 70000)
       = ok ((seek_example 70000)\<lparr> m_jumpFlag := True, m_jumpTo := 190, m_startPosition := 0 \<rparr>)"
proof -
  let ?p = "seek_example 70000"
  let ?si = "new_SegmentInformation\<lparr> TimecodeScale := 1000000 \<rparr>"
  have 1: "SegInfo (m_masterData ?p) = Some ?si" by (simp add: seek_example_def new_MKVMasterData_def Parser_new_def)
  have 2: "TimecodeScale ?si div 100 \<noteq> 0" by (simp add: new_SegmentInformation_def)
  have 3: "(7::QWORD) = m_startPosition ?p div (TimecodeScale ?si div 100)"
    by (simp add: seek_example_def new_SegmentInformation_def Parser_new_def)
  have 4: "0 < sint (m_startPosition ?p)" by (simp add: seek_example_def Parser_new_def)
  have 5: "1 < length (Cues (m_masterData ?p))" by (simp add: seek_example_def new_MKVMasterData_def Parser_new_def)
  have 6: "\<forall>i \<le> 1. CueTime (Cues (m_masterData ?p) ! i) < 7"
    by (auto simp: seek_example_def new_MKVMasterData_def Parser_new_def le_Suc_eq)
  have 7: "Suc 1 < length (Cues (m_masterData ?p))
           \<longrightarrow> \<not> CueTime (Cues (m_masterData ?p) ! Suc 1) < 7"
    by (simp add: seek_example_def new_MKVMasterData_def Parser_new_def)
  have 8: "CueTrackPositions (Cues (m_masterData ?p) ! 1)
             = \<lparr> CueTrack = 1, CueClusterPosition = 150 \<rparr> # []"
    by (simp add: seek_example_def new_MKVMasterData_def Parser_new_def)
  have 9: "CueClusterPosition \<lparr> CueTrack = 1, CueClusterPosition = 150 \<rparr>
             + SegmentPosition (m_masterData ?p) = 190"
    by (simp add: seek_example_def new_MKVMasterData_def Parser_new_def)
  show ?thesis using seek_by_cue_point[OF 1 2 3 4 5 6 7 8] unfolding 9 .
qed

text \<open>
  The consumer asks for 100000 (tick 10).  The cue point at tick 10 (cluster 200,
  offset 240) has a cue time less than or equal to the target, but the jump goes to
  the second cue point at tick 5 (offset 190).
\<close>

theorem seek_at_cue_time_counterexample:
  "FindSeekPoint (seek_example 100000) = ok 190
   \<and> CueTime (Cues (m_masterData (seek_example 100000)) ! 2) \<le> 100000 div (1000000 div 100)
   \<and> FindSeekPoint (seek_example 100000)
       \<noteq> ok (CueClusterPosition (hd (CueTrackPositions (Cues (m_masterData (seek_example 100000)) ! 2)))
              + SegmentPosition (m_masterData (seek_example 100000)))"
  by (simp add: FindSeekPoint_def seek_example_def new_MKVMasterData_def Parser_new_def
        new_SegmentInformation_def)

lemma seek_before_first_cue:
  "FindSeekPoint (seek_example 30000) = throw UninitializedPointer"
  by (simp add: FindSeekPoint_def seek_example_def new_MKVMasterData_def Parser_new_def
        new_SegmentInformation_def)
section \<open>The leading bit of a byte\<close>

lemma GetMajorBitNumber_loop_zero:
  assumes a: "GetMajorBitNumber_loop n i r = Some y" shows "n \<noteq> 0"
  by (rule GetMajorBitNumber_loop.raw_induct[where P = "\<lambda>n i r y. n \<noteq> 0", OF _ a])
     (auto split: if_splits)

lemma GetMajorBitNumber_0: "GetMajorBitNumber 0 = None"
  using GetMajorBitNumber_loop_zero[of 0 "0x80" 0]
  by (cases "GetMajorBitNumber_loop 0 0x80 0") (auto simp: GetMajorBitNumber_def)

lemma div_pow2_one:
  fixes x :: int
  assumes "2 ^ m \<le> x" "x < 2 ^ Suc m"
  shows "x div 2 ^ m = 1"
proof -
  have "x div 2 ^ m = (x - 2 ^ m + 1 * 2 ^ m) div 2 ^ m" by simp
  also have "\<dots> = (x - 2 ^ m) div 2 ^ m + 1" by (subst div_mult_self1) simp_all
  also have "(x - 2 ^ m) div 2 ^ m = 0" using assms by simp
  finally show ?thesis by simp
qed

lemma top_bit_set:
  fixes x :: int
  assumes "2 ^ m \<le> x" "x < 2 ^ Suc m"
  shows "x AND 2 ^ m \<noteq> 0" "x AND NOT (2 ^ m) = x - 2 ^ m"
proof -
  have b: "bit x m" using div_pow2_one[OF assms] by (simp add: bit_int_def)
  then show "x AND 2 ^ m \<noteq> 0" by (simp add: and_exp_eq_0_iff_not_bit)
  have "x AND NOT (2 ^ m) = unset_bit m x" by (simp add: unset_bit_eq_and_not)
  also have "\<dots> = x - 2 ^ m" using b by (simp add: unset_bit_eq)
  finally show "x AND NOT (2 ^ m) = x - 2 ^ m" .
qed

lemma bit_above_clear:
  fixes x :: int
  assumes "0 \<le> x" "x < 2 ^ m"
  shows "x AND 2 ^ m = 0"
  using assms by (simp add: and_exp_eq_0_iff_not_bit bit_int_def)

lemma GetMajorBitNumber_loop_run:
  assumes k: "k \<le> 7" and lo: "2 ^ (7 - k) \<le> uint n" and hi: "uint n < 2 ^ (8 - k)"
    and j: "j \<le> k"
  shows "GetMajorBitNumber_loop n (2 ^ (7 - j)) (int j) = Some (int k, 2 ^ (7 - k))"
  using j
proof (induction "k - j" arbitrary: j)
  case 0
  then have jk: "j = k" by simp
  have "Suc (7 - k) = 8 - k" using k by simp
  then have "uint n AND 2 ^ (7 - k) \<noteq> 0"
    using top_bit_set(1)[of "7 - k" "uint n"] lo hi by simp
  then show ?case by (subst GetMajorBitNumber_loop.simps) (simp add: jk)
next
  case (Suc d)
  then have jk: "j < k" by simp
  have "(2::int) ^ (8 - k) \<le> 2 ^ (7 - j)"
    using jk k by (intro power_increasing) auto
  with hi have "uint n < 2 ^ (7 - j)" by (rule order.strict_trans2)
  then have "uint n AND 2 ^ (7 - j) = 0"
    by (intro bit_above_clear) simp_all
  moreover have "drop_bit 1 ((2::int) ^ (7 - j)) = 2 ^ (7 - Suc j)"
  proof -
    have "7 - j = Suc (7 - Suc j)" using jk k by simp
    then show ?thesis by (simp add: drop_bit_eq_div)
  qed
  moreover have "GetMajorBitNumber_loop n (2 ^ (7 - Suc j)) (int (Suc j)) = Some (int k, 2 ^ (7 - k))"
    using Suc.hyps(1)[of "Suc j"] Suc.hyps(2) jk by simp
  ultimately show ?case
    by (subst GetMajorBitNumber_loop.simps) (simp add: add.commute)
qed

lemma uint_ge_pow2:
  fixes n :: "'a::len word" assumes "2 ^ m \<le> unat n" shows "2 ^ m \<le> uint n"
proof -
  have "int (2 ^ m) \<le> int (unat n)" using assms by (simp only: of_nat_le_iff)
  then show ?thesis by (simp only: uint_nat of_nat_power of_nat_numeral)
qed

lemma uint_less_pow2:
  fixes n :: "'a::len word" assumes "unat n < 2 ^ m" shows "uint n < 2 ^ m"
proof -
  have "int (unat n) < int (2 ^ m)" using assms by (simp only: of_nat_less_iff)
  then show ?thesis by (simp only: uint_nat of_nat_power of_nat_numeral)
qed

lemma GetMajorBitNumber_eq:
  assumes k: "k \<le> 7" and lo: "2 ^ (7 - k) \<le> unat n" and hi: "unat n < 2 ^ (8 - k)"
  shows "GetMajorBitNumber n = Some \<lparr> bitNum = of_nat k, clearedNum = n - 2 ^ (7 - k) \<rparr>"
proof -
  have lo': "2 ^ (7 - k) \<le> uint n" using lo by (rule uint_ge_pow2)
  have hi': "uint n < 2 ^ (8 - k)" using hi by (rule uint_less_pow2)
  have "GetMajorBitNumber_loop n (2 ^ (7 - 0)) (int 0) = Some (int k, 2 ^ (7 - k))"
    by (rule GetMajorBitNumber_loop_run[OF k lo' hi']) simp
  then have l: "GetMajorBitNumber_loop n 0x80 0 = Some (int k, 2 ^ (7 - k))" by simp
  have "Suc (7 - k) = 8 - k" using k by simp
  then have "uint n AND NOT (2 ^ (7 - k)) = uint n - 2 ^ (7 - k)"
    using top_bit_set(2)[of "7 - k" "uint n"] lo' hi' by simp
  then show ?thesis using l by (simp add: GetMajorBitNumber_def)
qed

section \<open>Reading bytes\<close>

lemma advance_fields [simp]:
  "mem (advance n r) = mem r" "pData (advance n r) = pData r + n"
  "cbLen (advance n r) = cbLen r - of_nat n" "pAte (advance n r) = pAte r + of_nat n"
  by (simp_all add: advance_def)

lemma advance_0 [simp]: "advance 0 r = r"
  by (simp add: advance_def)

lemma advance_advance [simp]: "advance m (advance n r) = advance (n + m) r"
  by (simp add: advance_def add.assoc diff_diff_eq)

lemma read_byte_ok:
  "pData r < length (mem r) \<Longrightarrow> read_byte r = ok (mem r ! pData r, advance 1 r)"
  by (simp add: read_byte_def)

lemma be_nat_Nil [simp]: "be_nat [] = 0"
  by (simp add: be_nat_def)

lemma foldl_be:
  fixes bs :: "BYTE list"
  defines "f \<equiv> (\<lambda>(a::nat) (b::BYTE). a * 256 + unat b)"
  shows "foldl f a bs = a * 256 ^ length bs + foldl f 0 bs"
proof (induction bs arbitrary: a)
  case Nil
  then show ?case by simp
next
  case (Cons b bs)
  have 1: "foldl f a (b # bs) = (a * 256 + unat b) * 256 ^ length bs + foldl f 0 bs"
    using Cons.IH[of "a * 256 + unat b"] by (simp add: f_def)
  have 2: "foldl f 0 (b # bs) = unat b * 256 ^ length bs + foldl f 0 bs"
    using Cons.IH[of "unat b"] by (simp add: f_def)
  show ?case unfolding 1 2 by (simp add: algebra_simps)
qed

lemma be_nat_Cons: "be_nat (b # bs) = unat b * 256 ^ length bs + be_nat bs"
  using foldl_be[of "unat b" bs] by (simp add: be_nat_def)

lemma be_nat_bound: "be_nat bs < 256 ^ length bs"
proof (induction bs)
  case Nil
  then show ?case by simp
next
  case (Cons b bs)
  define X :: nat where "X = 256 ^ length bs"
  have "unat b \<le> 255" using unsigned_less[of b, where 'a=nat] by simp
  then have h: "unat b * X \<le> 255 * X" by simp
  have e: "be_nat (b # bs) = unat b * X + be_nat bs" by (simp add: be_nat_Cons X_def)
  have i: "be_nat bs < X" using Cons by (simp add: X_def)
  have "be_nat (b # bs) < 256 * X" unfolding e using h i by linarith
  then show ?case by (simp add: X_def)
qed

lemma read_more_eq:
  assumes "pData r + i \<le> length (mem r)"
  shows "read_more i code r
           = ok (code * 256 ^ i + of_nat (be_nat (take i (drop (pData r) (mem r)))), advance i r)"
  using assms
proof (induction i arbitrary: code r)
  case 0
  then show ?case by simp
next
  case (Suc i)
  have p: "pData r < length (mem r)" using Suc.prems by simp
  have t: "take (Suc i) (drop (pData r) (mem r))
             = mem r ! pData r # take i (drop (Suc (pData r)) (mem r))"
    using p by (simp add: Cons_nth_drop_Suc[symmetric])
  have len: "length (take i (drop (Suc (pData r)) (mem r))) = i"
    using Suc.prems by simp
  have ih: "read_more i (code * 0x100 + ucast (mem r ! pData r)) (advance 1 r)
        = ok ((code * 0x100 + ucast (mem r ! pData r)) * 256 ^ i
               + of_nat (be_nat (take i (drop (Suc (pData r)) (mem r)))), advance (Suc i) r)"
    using Suc.IH[of "advance 1 r" "code * 0x100 + ucast (mem r ! pData r)"] Suc.prems by simp
  have u: "(ucast (mem r ! pData r) :: DWORD) = of_nat (unat (mem r ! pData r))" by simp
  have v: "(code * 0x100 + ucast (mem r ! pData r)) * 256 ^ i
               + of_nat (be_nat (take i (drop (Suc (pData r)) (mem r))))
        = code * 256 ^ Suc i + (of_nat (be_nat (take (Suc i) (drop (pData r) (mem r)))) :: DWORD)"
    unfolding t be_nat_Cons len u by (simp add: algebra_simps del: of_nat_unat)
  have "read_more (Suc i) code r
      = read_more i (code * 0x100 + ucast (mem r ! pData r)) (advance 1 r)"
    by (simp add: read_byte_ok[OF p])
  then show ?case unfolding ih v .
qed

section \<open>Decoding a variable-length integer\<close>

lemma ReadMatroskaNumber_eq:
  assumes k: "k \<le> 7"
    and lo: "2 ^ (7 - k) \<le> unat (mem r ! pData r)"
    and hi: "unat (mem r ! pData r) < 2 ^ (8 - k)"
    and rd: "pData r + k < length (mem r)"
    and first: "first = (if unmodified then mem r ! pData r else mem r ! pData r - 2 ^ (7 - k))"
    and code: "code = (of_nat (be_nat (first # take k (drop (Suc (pData r)) (mem r)))) :: DWORD)"
    and nc: "\<not> (unmodified \<and> is_signed)"
  shows "ReadMatroskaNumber r unmodified is_signed =
     (if is_signed
      then bindR (double_to_DWORD (uint code - (2 ^ (7 * k + 7) - 1)))
             (\<lambda>code'. ok (\<lparr> id_m = code', length_m = of_nat (Suc k) \<rparr>, advance (Suc k) r))
      else if uint code = 2 ^ (7 * k + 7) - 1
      then ok (\<lparr> id_m = - 1, length_m = of_nat (Suc k) \<rparr>, advance (Suc k) r)
      else ok (\<lparr> id_m = code, length_m = of_nat (Suc k) \<rparr>, advance (Suc k) r))"
proof -
  have p: "pData r < length (mem r)" using rd by simp
  have g: "GetMajorBitNumber (mem r ! pData r)
             = Some \<lparr> bitNum = of_nat k, clearedNum = mem r ! pData r - 2 ^ (7 - k) \<rparr>"
    using GetMajorBitNumber_eq[OF k lo hi] .
  have uk: "unat (of_nat k :: BYTE) = k" using k by (simp add: unat_of_nat)
  have ck: "(ucast (of_nat k :: BYTE) :: DWORD) = of_nat k"
    using uk by (metis of_nat_unat)
  have len: "length (take k (drop (Suc (pData r)) (mem r))) = k" using rd by simp
  have rm: "read_more k (ucast first) (advance 1 r) = ok (code, advance (Suc k) r)"
  proof -
    have "read_more k (ucast first) (advance 1 r)
        = ok (ucast first * 256 ^ k + of_nat (be_nat (take k (drop (Suc (pData r)) (mem r)))),
              advance (Suc k) r)"
      using read_more_eq[of "advance 1 r" k "ucast first"] rd by simp
    moreover have "ucast first * 256 ^ k + of_nat (be_nat (take k (drop (Suc (pData r)) (mem r))))
        = code"
      unfolding code be_nat_Cons len by simp
    ultimately show ?thesis by simp
  qed
  have rm': "read_more k (ucast first) (advance (Suc 0) r) = ok (code, advance (Suc k) r)"
    using rm by simp
  show ?thesis
  proof (cases unmodified)
    case True
    then have f: "first = mem r ! pData r" and s: "\<not> is_signed" using first nc by simp_all
    show ?thesis
      using rm'[unfolded f]
      by (simp add: ReadMatroskaNumber_def read_byte_ok[OF p] g uk ck True s add.commute)
  next
    case False
    then have f: "first = mem r ! pData r - 2 ^ (7 - k)" using first by simp
    show ?thesis
      using rm'[unfolded f]
      by (simp add: ReadMatroskaNumber_def read_byte_ok[OF p] g uk ck False add.commute)
  qed
qed

lemma vint_bytes_range:
  assumes k: "k \<le> 7"
    and lo: "2 ^ (7 - k) \<le> unat (mem r ! pData r)"
    and hi: "unat (mem r ! pData r) < 2 ^ (8 - k)"
    and rd: "pData r + k < length (mem r)"
    and bytes: "bytes = take (Suc k) (drop (pData r) (mem r))"
  shows "bytes = mem r ! pData r # take k (drop (Suc (pData r)) (mem r))"
    and "2 ^ (7 * Suc k) \<le> be_nat bytes"
    and "be_nat bytes < 2 ^ (7 * Suc k + 1)"
    and "be_nat ((mem r ! pData r - 2 ^ (7 - k)) # take k (drop (Suc (pData r)) (mem r)))
           = be_nat bytes - 2 ^ (7 * Suc k)"
proof -
  let ?b = "mem r ! pData r"
  let ?rest = "take k (drop (Suc (pData r)) (mem r))"
  have p: "pData r < length (mem r)" using rd by simp
  show b: "bytes = ?b # ?rest"
    unfolding bytes using p by (simp add: Cons_nth_drop_Suc[symmetric])
  have len: "length ?rest = k" using rd by simp
  define X :: nat where "X = 256 ^ k"
  have V: "be_nat bytes = unat ?b * X + be_nat ?rest"
    unfolding b be_nat_Cons len X_def ..
  have rest: "be_nat ?rest < X" using be_nat_bound[of ?rest] len by (simp add: X_def)
  have m: "(2::nat) ^ (7 - k) * X = 2 ^ (7 * Suc k)"
  proof -
    have "(256::nat) ^ k = 2 ^ (8 * k)" by (simp add: power_mult)
    then have "(2::nat) ^ (7 - k) * X = 2 ^ (7 - k + 8 * k)" by (simp add: X_def power_add)
    moreover have "7 - k + 8 * k = 7 * Suc k" using k by simp
    ultimately show ?thesis by simp
  qed
  have m2: "(2::nat) ^ (8 - k) * X = 2 ^ (7 * Suc k + 1)"
  proof -
    have "(256::nat) ^ k = 2 ^ (8 * k)" by (simp add: power_mult)
    then have "(2::nat) ^ (8 - k) * X = 2 ^ (8 - k + 8 * k)" by (simp add: X_def power_add)
    moreover have "8 - k + 8 * k = 7 * Suc k + 1" using k by simp
    ultimately show ?thesis by simp
  qed
  have "2 ^ (7 - k) * X \<le> unat ?b * X" using lo by simp
  then show ge: "2 ^ (7 * Suc k) \<le> be_nat bytes" unfolding V m[symmetric] by linarith
  have "Suc (unat ?b) \<le> 2 ^ (8 - k)" using hi by simp
  then have "Suc (unat ?b) * X \<le> 2 ^ (8 - k) * X" by (rule mult_le_mono1)
  then have "unat ?b * X + X \<le> 2 ^ (8 - k) * X" by simp
  then show "be_nat bytes < 2 ^ (7 * Suc k + 1)" unfolding V m2[symmetric] using rest by linarith
  have u2: "unat (2 ^ (7 - k) :: BYTE) = 2 ^ (7 - k)"
  proof -
    have "(2 ^ (7 - k) :: BYTE) = of_nat (2 ^ (7 - k))" by simp
    then have "unat (2 ^ (7 - k) :: BYTE) = 2 ^ (7 - k) mod 2 ^ 8"
      by (simp only: unat_of_nat) simp
    moreover have "(2::nat) ^ (7 - k) < 2 ^ 8" by (intro power_strict_increasing) simp_all
    ultimately show ?thesis by simp
  qed
  then have "2 ^ (7 - k) \<le> ?b" using lo by (simp add: word_le_nat_alt)
  then have c: "unat (?b - 2 ^ (7 - k)) = unat ?b - 2 ^ (7 - k)"
    using u2 by (simp add: unat_sub)
  have "be_nat ((?b - 2 ^ (7 - k)) # ?rest) = (unat ?b - 2 ^ (7 - k)) * X + be_nat ?rest"
    unfolding be_nat_Cons len c X_def ..
  also have "\<dots> = unat ?b * X - 2 ^ (7 - k) * X + be_nat ?rest"
    by (simp add: diff_mult_distrib)
  also have "\<dots> = be_nat bytes - 2 ^ (7 * Suc k)"
    unfolding V m[symmetric] using \<open>2 ^ (7 - k) * X \<le> unat ?b * X\<close> by linarith
  finally show "be_nat ((?b - 2 ^ (7 - k)) # ?rest) = be_nat bytes - 2 ^ (7 * Suc k)" .
qed

lemma uint_of_nat_DWORD: "uint (of_nat n :: DWORD) = int (n mod 2 ^ 32)"
  by (simp add: uint_nat unat_of_nat)

lemma vint_raw_decode:
  assumes k: "k \<le> 7"
    and lo: "2 ^ (7 - k) \<le> unat (mem r ! pData r)"
    and hi: "unat (mem r ! pData r) < 2 ^ (8 - k)"
    and rd: "pData r + k < length (mem r)"
    and bytes: "bytes = take (Suc k) (drop (pData r) (mem r))"
  shows "ReadMatroskaNumber r True False
           = ok (\<lparr> id_m = of_nat (be_nat bytes), length_m = of_nat (Suc k) \<rparr>, advance (Suc k) r)"
proof -
  note R = vint_bytes_range[OF k lo hi rd bytes]
  have ne: "uint (of_nat (be_nat bytes) :: DWORD) \<noteq> 2 ^ (7 * k + 7) - 1"
  proof (cases "k \<le> 3")
    case True
    then have "7 * Suc k + 1 \<le> 32" by simp
    then have "(2::nat) ^ (7 * Suc k + 1) \<le> 2 ^ 32" by (intro power_increasing) simp_all
    then have "be_nat bytes < 2 ^ 32" using R(3) by linarith
    then have "uint (of_nat (be_nat bytes) :: DWORD) = int (be_nat bytes)"
      by (simp add: uint_of_nat_DWORD)
    moreover have "int (2 ^ (7 * Suc k)) \<le> int (be_nat bytes)" using R(2) by (simp only: of_nat_le_iff)
    then have "(2::int) ^ (7 * k + 7) \<le> int (be_nat bytes)" by (simp add: add.commute)
    ultimately show ?thesis by linarith
  next
    case False
    then have "33 \<le> 7 * k + 7" by simp
    then have "(2::int) ^ 33 \<le> 2 ^ (7 * k + 7)" by (intro power_increasing) simp_all
    then have "(8589934592::int) \<le> 2 ^ (7 * k + 7)" by simp
    moreover have "uint (of_nat (be_nat bytes) :: DWORD) < 4294967296"
      using uint_bounded[of "of_nat (be_nat bytes) :: DWORD"] by simp
    ultimately show ?thesis by linarith
  qed
  show ?thesis
    using ReadMatroskaNumber_eq[OF k lo hi rd, where unmodified = True and is_signed = False,
        OF refl refl] ne
    by (simp add: R(1))
qed

lemma vint_value_decode:
  assumes k: "k \<le> 7"
    and lo: "2 ^ (7 - k) \<le> unat (mem r ! pData r)"
    and hi: "unat (mem r ! pData r) < 2 ^ (8 - k)"
    and rd: "pData r + k < length (mem r)"
    and bytes: "bytes = take (Suc k) (drop (pData r) (mem r))"
  shows "ReadMatroskaNumber r False False
           = ok (\<lparr> id_m = (if k \<le> 3 \<and> be_nat bytes - 2 ^ (7 * Suc k) = 2 ^ (7 * Suc k) - 1
                             then - 1 else of_nat (be_nat bytes - 2 ^ (7 * Suc k))),
                    length_m = of_nat (Suc k) \<rparr>, advance (Suc k) r)"
proof -
  note R = vint_bytes_range[OF k lo hi rd bytes]
  define V where "V = be_nat bytes - 2 ^ (7 * Suc k)"
  have Vlt: "V < 2 ^ (7 * Suc k)"
  proof -
    define X :: nat where "X = 2 ^ (7 * Suc k)"
    have "(2::nat) ^ (7 * Suc k + 1) = 2 * X" unfolding X_def by (simp only: power_add) simp
    then have "be_nat bytes < 2 * X" using R(3) by simp
    then show ?thesis unfolding V_def X_def[symmetric] by linarith
  qed
  have iff: "uint (of_nat V :: DWORD) = 2 ^ (7 * k + 7) - 1 \<longleftrightarrow> k \<le> 3 \<and> V = 2 ^ (7 * Suc k) - 1"
  proof (cases "k \<le> 3")
    case True
    then have "7 * Suc k \<le> 32" by simp
    then have "(2::nat) ^ (7 * Suc k) \<le> 2 ^ 32" by (intro power_increasing) simp_all
    then have "V < 2 ^ 32" using Vlt by linarith
    then have u: "uint (of_nat V :: DWORD) = int V" by (simp add: uint_of_nat_DWORD)
    have "int V = 2 ^ (7 * k + 7) - 1 \<longleftrightarrow> V = 2 ^ (7 * Suc k) - 1"
    proof -
      have "(2::int) ^ (7 * k + 7) - 1 = int (2 ^ (7 * Suc k) - 1)"
        by (simp add: of_nat_diff add.commute)
      then show ?thesis by (simp only: of_nat_eq_iff)
    qed
    then show ?thesis using True u by simp
  next
    case False
    then have "33 \<le> 7 * k + 7" by simp
    then have "(2::int) ^ 33 \<le> 2 ^ (7 * k + 7)" by (intro power_increasing) simp_all
    then have "(8589934592::int) \<le> 2 ^ (7 * k + 7)" by simp
    moreover have "uint (of_nat V :: DWORD) < 4294967296"
      using uint_bounded[of "of_nat V :: DWORD"] by simp
    ultimately have "uint (of_nat V :: DWORD) \<noteq> 2 ^ (7 * k + 7) - 1" by linarith
    then show ?thesis using False by simp
  qed
  show ?thesis
    using ReadMatroskaNumber_eq[OF k lo hi rd, where unmodified = False and is_signed = False,
        OF refl refl] iff
    by (simp add: R(4) V_def)
qed

text \<open>
  Claim C2, as amended.  Let the first byte have its most significant 1-bit at
  position \<open>k\<close> from the top (\<open>2 ^ (7 - k) \<le> b < 2 ^ (8 - k)\<close>) and let the \<open>k + 1\<close>
  bytes of the integer be readable.  Decoding returns width \<open>k + 1\<close> and advances by
  \<open>k + 1\<close> bytes.  In raw mode the value is the big-endian integer of the \<open>k + 1\<close>
  bytes, length marker included; in value mode it is that integer with the marker
  bit \<open>2 ^ (7 (k + 1))\<close> cleared, except that all data bits set in a width of at most 4
  gives the unknown-length mark \<open>0xFFFFFFFF\<close>.  The value is returned in a \<^verbatim>\<open>DWORD\<close>:
  it is complete for widths up to 4 (the integer is below \<open>2 ^ 32\<close>), and reduced
  modulo \<open>2 ^ 32\<close> for widths 5 to 8.
\<close>

theorem vint_unsigned_decode:
  assumes "k \<le> 7"
    and "2 ^ (7 - k) \<le> unat (mem r ! pData r)"
    and "unat (mem r ! pData r) < 2 ^ (8 - k)"
    and "pData r + k < length (mem r)"
    and "bytes = take (Suc k) (drop (pData r) (mem r))"
  shows "ReadMatroskaNumber r True False
           = ok (\<lparr> id_m = of_nat (be_nat bytes), length_m = of_nat (Suc k) \<rparr>, advance (Suc k) r)
       \<and> ReadMatroskaNumber r False False
           = ok (\<lparr> id_m = (if k \<le> 3 \<and> be_nat bytes - 2 ^ (7 * Suc k) = 2 ^ (7 * Suc k) - 1
                             then - 1 else of_nat (be_nat bytes - 2 ^ (7 * Suc k))),
                    length_m = of_nat (Suc k) \<rparr>, advance (Suc k) r)
       \<and> 2 ^ (7 * Suc k) \<le> be_nat bytes \<and> be_nat bytes < 2 ^ (7 * Suc k + 1)
       \<and> (k \<le> 3 \<longrightarrow> be_nat bytes < 2 ^ 32)"
proof -
  note R = vint_bytes_range[OF assms]
  have "k \<le> 3 \<longrightarrow> be_nat bytes < 2 ^ 32"
  proof
    assume "k \<le> 3"
    then have "7 * Suc k + 1 \<le> 32" by simp
    then have "(2::nat) ^ (7 * Suc k + 1) \<le> 2 ^ 32" by (intro power_increasing) simp_all
    then show "be_nat bytes < 2 ^ 32" using R(3) by linarith
  qed
  then show ?thesis
    using vint_raw_decode[OF assms] vint_value_decode[OF assms] R(2,3) by blast
qed

text \<open>
  The three decodings of the spec: the raw bytes 1A 45 DF A3 are 0x1A45DFA3 with
  width 4, the value-mode byte 82 is 2 with width 1, and the value-mode bytes 40 20
  are 32 with width 2.
\<close>

theorem vint_unsigned_decode_witness:
  "ReadMatroskaNumber \<lparr> mem = [0x1A, 0x45, 0xDF, 0xA3], pData = 0, cbLen = 4, pAte = 0 \<rparr> True False
     = ok (\<lparr> id_m = 0x1A45DFA3, length_m = 4 \<rparr>,
           \<lparr> mem = [0x1A, 0x45, 0xDF, 0xA3], pData = 4, cbLen = 0, pAte = 4 \<rparr>)
   \<and> ReadMatroskaNumber \<lparr> mem = [0x82], pData = 0, cbLen = 1, pAte = 0 \<rparr> False False
     = ok (\<lparr> id_m = 2, length_m = 1 \<rparr>, \<lparr> mem = [0x82], pData = 1, cbLen = 0, pAte = 1 \<rparr>)
   \<and> ReadMatroskaNumber \<lparr> mem = [0x40, 0x20], pData = 0, cbLen = 2, pAte = 0 \<rparr> False False
     = ok (\<lparr> id_m = 32, length_m = 2 \<rparr>, \<lparr> mem = [0x40, 0x20], pData = 2, cbLen = 0, pAte = 2 \<rparr>)"
proof -
  let ?A = "\<lparr> mem = [0x1A, 0x45, 0xDF, 0xA3], pData = 0, cbLen = 4, pAte = 0 \<rparr> :: reader"
  let ?B = "\<lparr> mem = [0x82], pData = 0, cbLen = 1, pAte = 0 \<rparr> :: reader"
  let ?C = "\<lparr> mem = [0x40, 0x20], pData = 0, cbLen = 2, pAte = 0 \<rparr> :: reader"
  have A: "ReadMatroskaNumber ?A True False
     = ok (\<lparr> id_m = of_nat (be_nat [0x1A, 0x45, 0xDF, 0xA3]), length_m = of_nat (Suc 3) \<rparr>,
           advance (Suc 3) ?A)"
    using vint_unsigned_decode[of 3 ?A "[0x1A, 0x45, 0xDF, 0xA3]"] by simp
  have B: "ReadMatroskaNumber ?B False False
     = ok (\<lparr> id_m = of_nat (be_nat [0x82] - 2 ^ 7), length_m = of_nat (Suc 0) \<rparr>, advance (Suc 0) ?B)"
    using vint_unsigned_decode[of 0 ?B "[0x82]"] by (simp add: be_nat_Cons)
  have C: "ReadMatroskaNumber ?C False False
     = ok (\<lparr> id_m = of_nat (be_nat [0x40, 0x20] - 2 ^ 14), length_m = of_nat (Suc 1) \<rparr>,
           advance (Suc 1) ?C)"
    using vint_unsigned_decode[of 1 ?C "[0x40, 0x20]"] by (simp add: be_nat_Cons)
  show ?thesis
    unfolding A B C by (simp add: be_nat_Cons advance_def)
qed

text \<open>
  A well-formed value-mode integer of five bytes, 09 00 00 00 00: its big-endian
  integer with the marker bit cleared is \<open>2 ^ 32\<close>, and the decoder returns 0.
\<close>

theorem vint_five_bytes_counterexample:
  "ReadMatroskaNumber \<lparr> mem = [0x09, 0, 0, 0, 0], pData = 0, cbLen = 5, pAte = 0 \<rparr> False False
     = ok (\<lparr> id_m = 0, length_m = 5 \<rparr>, \<lparr> mem = [0x09, 0, 0, 0, 0], pData = 5, cbLen = 0, pAte = 5 \<rparr>)
   \<and> be_nat [0x09, 0, 0, 0, 0] - 2 ^ 35 = 2 ^ 32"
proof -
  have "ReadMatroskaNumber \<lparr> mem = [0x09, 0, 0, 0, 0], pData = 0, cbLen = 5, pAte = 0 \<rparr> False False
     = ok (\<lparr> id_m = 0, length_m = 5 \<rparr>, \<lparr> mem = [0x09, 0, 0, 0, 0], pData = 5, cbLen = 0, pAte = 5 \<rparr>)"
    by code_simp
  moreover have "be_nat [0x09, 0, 0, 0, 0] - 2 ^ 35 = 2 ^ 32"
    by (simp add: be_nat_Cons)
  ultimately show ?thesis by simp
qed

text \<open>
  Claim C6, as amended.  For every first byte with a leading 1-bit, that is for every
  width from 1 up to 8 bytes, unsigned decoding (raw and value mode) returns, reports
  the width \<open>k + 1\<close> and consumes exactly \<open>k + 1\<close> bytes.  The result field is a 32-bit
  \<^verbatim>\<open>DWORD\<close>.  In raw mode it holds the big-endian integer of the bytes modulo
  \<open>2 ^ 32\<close>.  In value mode it holds the integer with the marker bit cleared modulo
  \<open>2 ^ 32\<close>, except that in a width of at most 4 the value with all data bits set,
  \<open>2 ^ (7 (k + 1)) - 1\<close>, is returned as the unknown-length mark \<open>0xFFFFFFFF\<close>.  For
  widths 1 to 4 the reduction modulo \<open>2 ^ 32\<close> changes nothing; for widths 5 to 8 it
  leaves the low 32 bits.
\<close>

theorem vint_width_accept:
  assumes "k \<le> 7"
    and "2 ^ (7 - k) \<le> unat (mem r ! pData r)"
    and "unat (mem r ! pData r) < 2 ^ (8 - k)"
    and "pData r + k < length (mem r)"
    and "bytes = take (Suc k) (drop (pData r) (mem r))"
  shows "\<exists>w v. ReadMatroskaNumber r True False
                 = ok (\<lparr> id_m = w, length_m = of_nat (Suc k) \<rparr>, advance (Suc k) r)
             \<and> unat w = be_nat bytes mod 2 ^ 32
             \<and> ReadMatroskaNumber r False False
                 = ok (\<lparr> id_m = v, length_m = of_nat (Suc k) \<rparr>, advance (Suc k) r)
             \<and> unat v = (if k \<le> 3 \<and> be_nat bytes - 2 ^ (7 * Suc k) = 2 ^ (7 * Suc k) - 1
                          then 2 ^ 32 - 1
                          else (be_nat bytes - 2 ^ (7 * Suc k)) mod 2 ^ 32)
             \<and> pData (advance (Suc k) r) = pData r + Suc k
             \<and> (k \<le> 3 \<longrightarrow> be_nat bytes mod 2 ^ 32 = be_nat bytes
                   \<and> (be_nat bytes - 2 ^ (7 * Suc k)) mod 2 ^ 32 = be_nat bytes - 2 ^ (7 * Suc k))"
proof -
  note R = vint_bytes_range[OF assms]
  define w :: DWORD where "w = of_nat (be_nat bytes)"
  define v :: DWORD where
    "v = (if k \<le> 3 \<and> be_nat bytes - 2 ^ (7 * Suc k) = 2 ^ (7 * Suc k) - 1
          then - 1 else of_nat (be_nat bytes - 2 ^ (7 * Suc k)))"
  have 1: "ReadMatroskaNumber r True False
             = ok (\<lparr> id_m = w, length_m = of_nat (Suc k) \<rparr>, advance (Suc k) r)"
    unfolding w_def by (rule vint_raw_decode[OF assms])
  have 2: "unat w = be_nat bytes mod 2 ^ 32"
    unfolding w_def by (simp add: unat_of_nat)
  have 3: "ReadMatroskaNumber r False False
             = ok (\<lparr> id_m = v, length_m = of_nat (Suc k) \<rparr>, advance (Suc k) r)"
    unfolding v_def by (rule vint_value_decode[OF assms])
  have 4: "unat v = (if k \<le> 3 \<and> be_nat bytes - 2 ^ (7 * Suc k) = 2 ^ (7 * Suc k) - 1
                          then 2 ^ 32 - 1
                          else (be_nat bytes - 2 ^ (7 * Suc k)) mod 2 ^ 32)"
  proof -
    have "unat (- 1 :: DWORD) = (4294967295::nat)"
      by (simp add: unsigned_minus_1_eq_mask mask_eq_exp_minus_1)
    then show ?thesis unfolding v_def by (simp add: unat_of_nat)
  qed
  have 5: "pData (advance (Suc k) r) = pData r + Suc k" by simp
  have 6: "k \<le> 3 \<longrightarrow> be_nat bytes mod 2 ^ 32 = be_nat bytes
                   \<and> (be_nat bytes - 2 ^ (7 * Suc k)) mod 2 ^ 32 = be_nat bytes - 2 ^ (7 * Suc k)"
  proof
    assume "k \<le> 3"
    then have "7 * Suc k + 1 \<le> 32" by simp
    then have "(2::nat) ^ (7 * Suc k + 1) \<le> 2 ^ 32" by (intro power_increasing) simp_all
    then have a: "be_nat bytes < 2 ^ 32" using R(3) by linarith
    then have "be_nat bytes - 2 ^ (7 * Suc k) < 2 ^ 32" by linarith
    with a show "be_nat bytes mod 2 ^ 32 = be_nat bytes
                   \<and> (be_nat bytes - 2 ^ (7 * Suc k)) mod 2 ^ 32 = be_nat bytes - 2 ^ (7 * Suc k)"
      by simp
  qed
  show ?thesis using 1 2 3 4 5 6 by blast
qed

text \<open>
  An integer of eight bytes, 01 00 00 00 00 00 12 34, in raw and in value mode, and
  the value-mode integer 7F of one byte, which has all data bits set.
\<close>

theorem vint_width_accept_witness:
  "(\<exists>w v. ReadMatroskaNumber
             \<lparr> mem = [0x01, 0, 0, 0, 0, 0, 0x12, 0x34], pData = 0, cbLen = 8, pAte = 0 \<rparr> True False
           = ok (\<lparr> id_m = w, length_m = 8 \<rparr>,
                 \<lparr> mem = [0x01, 0, 0, 0, 0, 0, 0x12, 0x34], pData = 8, cbLen = 0, pAte = 8 \<rparr>)
         \<and> unat w = 0x1234
         \<and> ReadMatroskaNumber
             \<lparr> mem = [0x01, 0, 0, 0, 0, 0, 0x12, 0x34], pData = 0, cbLen = 8, pAte = 0 \<rparr> False False
           = ok (\<lparr> id_m = v, length_m = 8 \<rparr>,
                 \<lparr> mem = [0x01, 0, 0, 0, 0, 0, 0x12, 0x34], pData = 8, cbLen = 0, pAte = 8 \<rparr>)
         \<and> unat v = 0x1234)
   \<and> (\<exists>w v. ReadMatroskaNumber \<lparr> mem = [0xFF], pData = 0, cbLen = 1, pAte = 0 \<rparr> True False
           = ok (\<lparr> id_m = w, length_m = 1 \<rparr>, \<lparr> mem = [0xFF], pData = 1, cbLen = 0, pAte = 1 \<rparr>)
         \<and> unat w = 0xFF
         \<and> ReadMatroskaNumber \<lparr> mem = [0xFF], pData = 0, cbLen = 1, pAte = 0 \<rparr> False False
           = ok (\<lparr> id_m = v, length_m = 1 \<rparr>, \<lparr> mem = [0xFF], pData = 1, cbLen = 0, pAte = 1 \<rparr>)
         \<and> unat v = 0xFFFFFFFF)"
proof -
  let ?r = "\<lparr> mem = [0x01, 0, 0, 0, 0, 0, 0x12, 0x34], pData = 0, cbLen = 8, pAte = 0 \<rparr> :: reader"
  let ?s = "\<lparr> mem = [0xFF], pData = 0, cbLen = 1, pAte = 0 \<rparr> :: reader"
  have a: "advance 8 ?r
      = \<lparr> mem = [0x01, 0, 0, 0, 0, 0, 0x12, 0x34], pData = 8, cbLen = 0, pAte = 8 \<rparr>"
    by (simp add: advance_def)
  have b: "be_nat [0x01, 0, 0, 0, 0, 0, 0x12, 0x34] mod 2 ^ 32 = 0x1234"
    "(be_nat [0x01, 0, 0, 0, 0, 0, 0x12, 0x34] - 2 ^ 56) mod 2 ^ 32 = 0x1234"
    by (simp_all add: be_nat_Cons)
  have c: "advance (Suc 0) ?s = \<lparr> mem = [0xFF], pData = 1, cbLen = 0, pAte = 1 \<rparr>"
    by (simp add: advance_def)
  have d: "be_nat [0xFF] = 255" by (simp add: be_nat_Cons)
  have "\<exists>w v. ReadMatroskaNumber ?r True False
                 = ok (\<lparr> id_m = w, length_m = of_nat (Suc 7) \<rparr>, advance (Suc 7) ?r)
             \<and> unat w = be_nat [0x01, 0, 0, 0, 0, 0, 0x12, 0x34] mod 2 ^ 32
             \<and> ReadMatroskaNumber ?r False False
                 = ok (\<lparr> id_m = v, length_m = of_nat (Suc 7) \<rparr>, advance (Suc 7) ?r)
             \<and> unat v = (be_nat [0x01, 0, 0, 0, 0, 0, 0x12, 0x34] - 2 ^ 56) mod 2 ^ 32"
    using vint_width_accept[of 7 ?r "[0x01, 0, 0, 0, 0, 0, 0x12, 0x34]"] by simp
  then have 1: "\<exists>w v. ReadMatroskaNumber ?r True False
                 = ok (\<lparr> id_m = w, length_m = 8 \<rparr>,
                       \<lparr> mem = [0x01, 0, 0, 0, 0, 0, 0x12, 0x34], pData = 8, cbLen = 0, pAte = 8 \<rparr>)
             \<and> unat w = 0x1234
             \<and> ReadMatroskaNumber ?r False False
                 = ok (\<lparr> id_m = v, length_m = 8 \<rparr>,
                       \<lparr> mem = [0x01, 0, 0, 0, 0, 0, 0x12, 0x34], pData = 8, cbLen = 0, pAte = 8 \<rparr>)
             \<and> unat v = 0x1234"
    unfolding b using a by simp
  have "\<exists>w v. ReadMatroskaNumber ?s True False
                 = ok (\<lparr> id_m = w, length_m = of_nat (Suc 0) \<rparr>, advance (Suc 0) ?s)
             \<and> unat w = be_nat [0xFF] mod 2 ^ 32
             \<and> ReadMatroskaNumber ?s False False
                 = ok (\<lparr> id_m = v, length_m = of_nat (Suc 0) \<rparr>, advance (Suc 0) ?s)
             \<and> unat v = 2 ^ 32 - 1"
    using vint_width_accept[of 0 ?s "[0xFF]"] by (simp add: d)
  then have 2: "\<exists>w v. ReadMatroskaNumber ?s True False
           = ok (\<lparr> id_m = w, length_m = 1 \<rparr>, \<lparr> mem = [0xFF], pData = 1, cbLen = 0, pAte = 1 \<rparr>)
         \<and> unat w = 0xFF
         \<and> ReadMatroskaNumber ?s False False
           = ok (\<lparr> id_m = v, length_m = 1 \<rparr>, \<lparr> mem = [0xFF], pData = 1, cbLen = 0, pAte = 1 \<rparr>)
         \<and> unat v = 0xFFFFFFFF"
    unfolding c d by simp
  show ?thesis using 1 2 by blast
qed

text \<open>
  The value-mode integer 01 00 00 01 00 00 00 00 of eight bytes is \<open>2 ^ 32\<close>; the
  decoder returns 0.  On the first byte 00 the decoder does not return at all.
\<close>

theorem vint_eight_bytes_counterexample:
  "ReadMatroskaNumber
     \<lparr> mem = [0x01, 0, 0, 1, 0, 0, 0, 0], pData = 0, cbLen = 8, pAte = 0 \<rparr> False False
     = ok (\<lparr> id_m = 0, length_m = 8 \<rparr>,
           \<lparr> mem = [0x01, 0, 0, 1, 0, 0, 0, 0], pData = 8, cbLen = 0, pAte = 8 \<rparr>)
   \<and> be_nat [0x01, 0, 0, 1, 0, 0, 0, 0] - 2 ^ 56 = 2 ^ 32
   \<and> ReadMatroskaNumber \<lparr> mem = [0x00], pData = 0, cbLen = 1, pAte = 0 \<rparr> False False = None"
proof -
  have "ReadMatroskaNumber
     \<lparr> mem = [0x01, 0, 0, 1, 0, 0, 0, 0], pData = 0, cbLen = 8, pAte = 0 \<rparr> False False
     = ok (\<lparr> id_m = 0, length_m = 8 \<rparr>,
           \<lparr> mem = [0x01, 0, 0, 1, 0, 0, 0, 0], pData = 8, cbLen = 0, pAte = 8 \<rparr>)"
    by code_simp
  moreover have "be_nat [0x01, 0, 0, 1, 0, 0, 0, 0] - 2 ^ 56 = 2 ^ 32"
    by (simp add: be_nat_Cons)
  moreover have "ReadMatroskaNumber \<lparr> mem = [0x00], pData = 0, cbLen = 1, pAte = 0 \<rparr> False False = None"
    by (simp add: ReadMatroskaNumber_def read_byte_def GetMajorBitNumber_0)
  ultimately show ?thesis by simp
qed

lemma ReadMatroskaNumber_zero_byte:
  assumes "pData r < length (mem r)" "mem r ! pData r = 0" "\<not> (unmodified \<and> is_signed)"
  shows "ReadMatroskaNumber r unmodified is_signed = None"
  using assms by (auto simp: ReadMatroskaNumber_def read_byte_def GetMajorBitNumber_0)

section \<open>The signed mode of the decoder\<close>

lemma vint_signed_decode:
  assumes "k \<le> 7"
    and "2 ^ (7 - k) \<le> unat (mem r ! pData r)"
    and "unat (mem r ! pData r) < 2 ^ (8 - k)"
    and "pData r + k < length (mem r)"
    and "bytes = take (Suc k) (drop (pData r) (mem r))"
  shows "ReadMatroskaNumber r False True
           = bindR (double_to_DWORD
                      (int ((be_nat bytes - 2 ^ (7 * Suc k)) mod 2 ^ 32) - (2 ^ (7 * Suc k) - 1)))
               (\<lambda>code'. ok (\<lparr> id_m = code', length_m = of_nat (Suc k) \<rparr>, advance (Suc k) r))"
  using ReadMatroskaNumber_eq[OF assms(1-4), where unmodified = False and is_signed = True,
        OF refl refl]
  by (simp add: vint_bytes_range(4)[OF assms] uint_of_nat_DWORD add.commute)

text \<open>
  \<^verbatim>\<open>ReadMatroskaNumber\<close> has a signed mode, which no caller asks for: both calls, in
  \<^verbatim>\<open>ReadEbmlElementHeader\<close>, leave the parameter \<^verbatim>\<open>_signed\<close> at \<^verbatim>\<open>false\<close>.  That mode
  subtracts \<^verbatim>\<open>pow(2, 7 * bitNum + 7) - 1\<close>, which is \<open>2 ^ 7 - 1\<close> for one byte: on the
  byte FF, whose cleared value is 127, it returns 0.
\<close>

lemma ReadMatroskaNumber_signed_FF:
  "ReadMatroskaNumber \<lparr> mem = [0xFF], pData = 0, cbLen = 1, pAte = 0 \<rparr> False True
     = ok (\<lparr> id_m = 0, length_m = 1 \<rparr>, \<lparr> mem = [0xFF], pData = 1, cbLen = 0, pAte = 1 \<rparr>)"
  by code_simp
section \<open>Evaluating the element reader\<close>

lemmas ReadSimpleElement2_numeral =
  ReadSimpleElement2.simps(2)[where fuel = "pred_numeral n" for n, unfolded numeral_eq_Suc[symmetric]]

lemmas ReadEbmlElementTree2_numeral =
  ReadEbmlElementTree2.simps(2)[where fuel = "pred_numeral n" for n, unfolded numeral_eq_Suc[symmetric]]

lemmas tree_loop_numeral =
  tree_loop.simps(2)[where fuel = "pred_numeral n" for n, unfolded numeral_eq_Suc[symmetric]]

lemmas ParseBytes_loop_numeral =
  ParseBytes_loop.simps(2)[where fuel = "pred_numeral n" for n, unfolded numeral_eq_Suc[symmetric]]

lemmas fuel_numeral =
  ReadSimpleElement2_numeral ReadEbmlElementTree2_numeral tree_loop_numeral ParseBytes_loop_numeral


lemma schema_Void: "element_types_names 0xEC = Some (type_name EET_BINARY (Some ''Void''))"
  by code_simp

lemma schema_TrackNumber:
  "element_types_names 0xD7 = Some (type_name EET_UNSIGNED (Some ''TrackNumber''))"
  by code_simp

lemma oversize_header_1:
  "ReadEbmlElementHeader
     \<lparr> mem = [0xEC, 0x85, 1, 2, 3, 4, 5, 6, 7, 8, 0xD7, 0x81, 0x2A, 0xEC, 0xFF],
       pData = 0, cbLen = 15, pAte = 0 \<rparr>
   = ok (\<lparr> id_h = 0xEC, elemsize = 5, headsize = 2 \<rparr>,
         \<lparr> mem = [0xEC, 0x85, 1, 2, 3, 4, 5, 6, 7, 8, 0xD7, 0x81, 0x2A, 0xEC, 0xFF],
           pData = 2, cbLen = 13, pAte = 2 \<rparr>)"
  by code_simp

lemma oversize_header_2:
  "ReadEbmlElementHeader
     \<lparr> mem = [0xEC, 0x85, 1, 2, 3, 4, 5, 6, 7, 8, 0xD7, 0x81, 0x2A, 0xEC, 0xFF],
       pData = 10, cbLen = 5, pAte = 10 \<rparr>
   = ok (\<lparr> id_h = 0xD7, elemsize = 1, headsize = 2 \<rparr>,
         \<lparr> mem = [0xEC, 0x85, 1, 2, 3, 4, 5, 6, 7, 8, 0xD7, 0x81, 0x2A, 0xEC, 0xFF],
           pData = 12, cbLen = 3, pAte = 12 \<rparr>)"
  by code_simp

lemma oversize_header_3:
  "ReadEbmlElementHeader
     \<lparr> mem = [0xEC, 0x85, 1, 2, 3, 4, 5, 6, 7, 8, 0xD7, 0x81, 0x2A, 0xEC, 0xFF],
       pData = 13, cbLen = 2, pAte = 13 \<rparr>
   = ok (\<lparr> id_h = 0xEC, elemsize = - 1, headsize = 2 \<rparr>,
         \<lparr> mem = [0xEC, 0x85, 1, 2, 3, 4, 5, 6, 7, 8, 0xD7, 0x81, 0x2A, 0xEC, 0xFF],
           pData = 15, cbLen = 0, pAte = 15 \<rparr>)"
  by code_simp



lemma bindR_weak_cong: "m = m' \<Longrightarrow> bindR m f = bindR m' f"
  by simp

text \<open>
  Claim C7 on a master of declared size 3 whose first child (Void) declares size 5.
  The claim has the reader skip the 3 remaining bytes and stop.  The code skips 3
  bytes and, having no \<^verbatim>\<open>break\<close> on this path, still reads 5 bytes as the child's
  data (bytes 5 to 9 of the buffer, outside the master), lets \<open>total_size\<close> wrap to
  \<open>0xFFFFFFFC\<close> and goes on: the TrackNumber element that follows the master becomes
  its second child.  The loop only ends at the next element of unknown size.
\<close>

theorem oversize_child_in_master:
  "ReadEbmlElementTree2 5
     \<lparr> mem = [0xEC, 0x85, 1, 2, 3, 4, 5, 6, 7, 8, 0xD7, 0x81, 0x2A, 0xEC, 0xFF],
       pData = 0, cbLen = 15, pAte = 0 \<rparr> 3
   = ok (master_element None EET_VOID
           [binary_element (Some ''Void'') EET_BINARY 5 [4, 5, 6, 7, 8],
            uint_element (Some ''TrackNumber'') EET_UNSIGNED 0x2A],
         \<lparr> mem = [0xEC, 0x85, 1, 2, 3, 4, 5, 6, 7, 8, 0xD7, 0x81, 0x2A, 0xEC, 0xFF],
           pData = 4294967304, cbLen = 7, pAte = 8 \<rparr>)"
  by (simp add: fuel_numeral oversize_header_1 oversize_header_2 oversize_header_3
        schema_Void schema_TrackNumber read_bytes_def advance_def ReadFixedLengthNumber_def
        ParseFixedLengthNumber_def Let_def word_gt_0 cong: bindR_weak_cong)
section \<open>The SimpleBlock framer\<close>

lemma schema_SimpleBlock:
  "element_types_names 0xA3 = Some (type_name EET_BINARY (Some ''SimpleBlock''))"
  by code_simp

lemma read_byte_at:
  "pData r + n < length (mem r) \<Longrightarrow>
     read_byte (advance n r) = ok (mem r ! (pData r + n), advance (Suc n) r)"
  by (simp add: read_byte_def)

lemma top_bit_byte: "(temp0 :: BYTE) AND 0x80 \<noteq> 0 \<longleftrightarrow> 128 \<le> uint temp0"
proof -
  have "temp0 AND 0x80 \<noteq> 0 \<longleftrightarrow> bit temp0 7"
    using and_exp_eq_0_iff_not_bit[of temp0 7] by simp
  also have "\<dots> \<longleftrightarrow> bit (uint temp0) 7" by (simp add: bit_uint_iff)
  also have "\<dots> \<longleftrightarrow> 128 \<le> uint temp0"
  proof
    assume "bit (uint temp0) 7"
    then have o: "odd (uint temp0 div 128)" by (simp add: bit_int_def)
    show "128 \<le> uint temp0"
    proof (rule ccontr)
      assume "\<not> 128 \<le> uint temp0"
      then have "uint temp0 div 128 = 0" by simp
      then show False using o by simp
    qed
  next
    assume a: "128 \<le> uint temp0"
    have "uint temp0 < 2 ^ Suc 7" using uint_bounded[of temp0] by simp
    then have "uint temp0 div 2 ^ 7 = 1" using a div_pow2_one[of 7 "uint temp0"] by simp
    then show "bit (uint temp0) 7" by (simp add: bit_int_def)
  qed
  finally show ?thesis .
qed

lemma be_int16_timeCode:
  "(if temp0 AND 0x80 \<noteq> 0
    then ((0::QWORD) * 0x100 + ucast temp0) * 0x100 + ucast temp1 - 65536
    else ((0::QWORD) * 0x100 + ucast temp0) * 0x100 + ucast temp1)
   = word_of_int (be_int16 temp0 temp1)"
proof -
  have lt: "uint temp1 < 256" using uint_bounded[of temp1] by simp
  have ge: "0 \<le> uint temp1" by simp
  have iff: "uint temp0 * 256 + uint temp1 < 32768 \<longleftrightarrow> \<not> 128 \<le> uint temp0"
  proof
    assume "uint temp0 * 256 + uint temp1 < 32768"
    then show "\<not> 128 \<le> uint temp0" using ge by linarith
  next
    assume "\<not> 128 \<le> uint temp0"
    then show "uint temp0 * 256 + uint temp1 < 32768" using lt by linarith
  qed
  have w: "((0::QWORD) * 0x100 + ucast temp0) * 0x100 + ucast temp1
         = word_of_int (uint temp0 * 256 + uint temp1)"
    by simp
  show ?thesis
  proof (cases "128 \<le> uint temp0")
    case True
    then show ?thesis unfolding w be_int16_def using iff top_bit_byte[of temp0] by simp
  next
    case False
    then show ?thesis unfolding w be_int16_def using iff top_bit_byte[of temp0] by simp
  qed
qed

lemma SimpleBlock_no_lacing_eq:
  assumes rd: "pData r + 3 < length (mem r)"
    and flags: "mem r ! (pData r + 3) AND 0x06 = 0"
  shows "SimpleBlock size' p r
     = ok ((circ_push (size' - 4)
              (p\<lparr> m_currentStream := ucast (mem r ! pData r) - 0x80,
                   m_isCurrentKeyFrame := (mem r ! (pData r + 3) AND 0x80 = 0x80),
                   m_currentTimeStamp := m_currentBlockTimeCode p
                      + word_of_int (be_int16 (mem r ! (pData r + 1)) (mem r ! (pData r + 2))) \<rparr>))
             \<lparr> m_framesReady := True \<rparr>,
           advance 4 r)"
proof -
  have r0: "read_byte r = ok (mem r ! pData r, advance (Suc 0) r)"
    using read_byte_at[of r 0] rd by simp
  have r1: "read_byte (advance (Suc 0) r) = ok (mem r ! (pData r + 1), advance (Suc (Suc 0)) r)"
    using read_byte_at[of r 1] rd by simp
  have r2: "read_byte (advance (Suc (Suc 0)) r)
              = ok (mem r ! (pData r + 2), advance (Suc (Suc (Suc 0))) r)"
    using read_byte_at[of r 2] rd by (simp add: numeral_2_eq_2)
  have r3: "read_byte (advance (Suc (Suc (Suc 0))) r)
              = ok (mem r ! (pData r + 3), advance 4 r)"
    using read_byte_at[of r 3] rd by (simp add: numeral_3_eq_3 eval_nat_numeral)
  have tc1: "temp0 AND 128 \<noteq> 0 \<Longrightarrow>
      (ucast temp0 :: QWORD) * 256 + ucast temp1 - 65536 = word_of_int (be_int16 temp0 temp1)"
    for temp0 temp1 :: BYTE
    using be_int16_timeCode[of temp0 temp1] by simp
  have tc2: "temp0 AND 128 = 0 \<Longrightarrow>
      (ucast temp0 :: QWORD) * 256 + ucast temp1 = word_of_int (be_int16 temp0 temp1)"
    for temp0 temp1 :: BYTE
    using be_int16_timeCode[of temp0 temp1] by simp
  show ?thesis
    unfolding SimpleBlock_def
    by (simp add: r0 r1 r2 r3 flags Let_def tc1 tc2 cong: bindR_weak_cong)
qed

lemma ParseBytes_SimpleBlock:
  assumes big: "\<not> cbLen0 < 4"
    and hdr: "ReadEbmlElementHeader \<lparr> mem = memory, pData = 0, cbLen = cbLen0, pAte = 0 \<rparr>
                = ok (\<lparr> id_h = 0xA3, elemsize = S, headsize = h \<rparr>, r1)"
    and fits: "\<not> S > cbLen r1"
  shows "ParseBytes (Suc fuel) p memory cbLen0
           = bindR (SimpleBlock S p r1) (\<lambda>(p', r'). ok (True, pAte r', p'))"
proof -
  have pos: "0 < cbLen0"
  proof -
    have "4 \<le> cbLen0" using big by (simp add: not_less)
    then show ?thesis by (simp add: word_le_nat_alt word_less_nat_alt)
  qed
  have hp: "header_phase fuel p \<lparr> mem = memory, pData = 0, cbLen = cbLen0, pAte = 0 \<rparr> locals_init
      = ok (Inr (p, r1, locals_init\<lparr> lv_name := ''SimpleBlock'', lv_type := EET_BINARY,
                                       lv_size := S, lv_hsize := h \<rparr>))"
    by (simp add: header_phase_def hdr schema_SimpleBlock fits Let_def)
  have dp: "dispatch fuel p r1 (locals_init\<lparr> lv_name := ''SimpleBlock'', lv_type := EET_BINARY,
                                       lv_size := S, lv_hsize := h \<rparr>)
      = bindR (SimpleBlock S p r1) (\<lambda>(p', r'). ok (True, p', r'))"
    by (simp add: dispatch_def Let_def)
  show ?thesis
  proof (cases "SimpleBlock S p r1" rule: result_cases)
    case diverges
    then show ?thesis using big pos by (simp add: ParseBytes_def hp dp)
  next
    case (fault e)
    then show ?thesis using big pos by (simp add: ParseBytes_def hp dp)
  next
    case (returns x)
    then show ?thesis using big pos by (cases x) (simp add: ParseBytes_def hp dp)
  qed
qed

text \<open>
  Claim C1.  The buffer starts with a SimpleBlock element (id 0xA3) of size \<open>S\<close> that
  lies within \<open>cbLen\<close>, in a parser whose cluster timecode is \<open>T\<close>.  Its payload is the
  track byte 0x81, the relative timecode bytes \<open>t0 t1\<close>, and a flags byte \<open>f\<close> with
  lacing code 0.  Then \<^verbatim>\<open>ParseBytes\<close> returns true having consumed the element header
  and the four payload bytes, and has recorded: track 1; the keyframe flag
  \<open>(f & 0x80) == 0x80\<close>; one frame, of length \<open>S - 4\<close>, in the slot at the write pointer
  of the ring, with \<open>m_frameCount\<close> one higher and \<open>m_framesReady\<close> set; and the timestamp
  \<open>T + r\<close> in 64-bit arithmetic, where \<open>r\<close> is the big-endian signed value of \<open>t0 t1\<close>,
  which is \<open>T + r\<close> itself whenever that lies in \<open>[0, 2 ^ 64)\<close> and, read as a signed
  64-bit value, whenever it lies in \<open>[- 2 ^ 63, 2 ^ 63)\<close>.
\<close>

theorem SimpleBlock_no_lacing:
  assumes "\<not> cbLen0 < 4"
    and "ReadEbmlElementHeader \<lparr> mem = memory, pData = 0, cbLen = cbLen0, pAte = 0 \<rparr>
           = ok (\<lparr> id_h = 0xA3, elemsize = S, headsize = h \<rparr>, r1)"
    and "\<not> S > cbLen r1"
    and "pData r1 + 3 < length (mem r1)"
    and "mem r1 ! pData r1 = 0x81"
    and "mem r1 ! (pData r1 + 1) = t0"
    and "mem r1 ! (pData r1 + 2) = t1"
    and "mem r1 ! (pData r1 + 3) = f"
    and "f AND 0x06 = 0"
    and "pCircWrite p < length (m_circularBuffer p)"
    and "T = m_currentBlockTimeCode p"
    and "r = be_int16 t0 t1"
  shows "\<exists>p'. ParseBytes (Suc fuel) p memory cbLen0 = ok (True, pAte r1 + 4, p')
            \<and> m_currentStream p' = 1
            \<and> m_isCurrentKeyFrame p' = (f AND 0x80 = 0x80)
            \<and> m_circularBuffer p' = (m_circularBuffer p)[pCircWrite p := S - 4]
            \<and> m_circularBuffer p' ! pCircWrite p = S - 4
            \<and> m_frameCount p' = m_frameCount p + 1
            \<and> pCircWrite p' = (if pCircWrite p + 1 = 30 then 0 else pCircWrite p + 1)
            \<and> m_framesReady p'
            \<and> m_currentTimeStamp p' = T + word_of_int r
            \<and> uint (m_currentTimeStamp p') = (uint T + r) mod 2 ^ 64
            \<and> (0 \<le> uint T + r \<and> uint T + r < 2 ^ 64 \<longrightarrow> uint (m_currentTimeStamp p') = uint T + r)
            \<and> (- (2 ^ 63) \<le> uint T + r \<and> uint T + r < 2 ^ 63 \<longrightarrow> sint (m_currentTimeStamp p') = uint T + r)"
proof -
  let ?p' = "(circ_push (S - 4)
              (p\<lparr> m_currentStream := ucast (mem r1 ! pData r1) - 0x80,
                   m_isCurrentKeyFrame := (mem r1 ! (pData r1 + 3) AND 0x80 = 0x80),
                   m_currentTimeStamp := m_currentBlockTimeCode p
                      + word_of_int (be_int16 (mem r1 ! (pData r1 + 1)) (mem r1 ! (pData r1 + 2))) \<rparr>))
             \<lparr> m_framesReady := True \<rparr>"
  have sb: "SimpleBlock S p r1 = ok (?p', advance 4 r1)"
    using SimpleBlock_no_lacing_eq[OF assms(4), of S p] assms(8,9) by simp
  have pb: "ParseBytes (Suc fuel) p memory cbLen0 = ok (True, pAte r1 + 4, ?p')"
    using ParseBytes_SimpleBlock[OF assms(1,2,3), of fuel p] by (simp add: sb)
  have ts: "m_currentTimeStamp ?p' = T + word_of_int r"
    using assms(6,7) by (simp add: circ_push_def assms(11,12))
  have u: "uint (T + word_of_int r :: QWORD) = (uint T + r) mod 2 ^ 64"
    by (simp add: uint_word_ariths uint_word_of_int mod_add_right_eq)
  have "m_currentStream ?p' = 1" by (simp add: circ_push_def assms(5))
  moreover have "m_isCurrentKeyFrame ?p' = (f AND 0x80 = 0x80)"
    by (simp add: circ_push_def assms(8))
  moreover have "m_circularBuffer ?p' = (m_circularBuffer p)[pCircWrite p := S - 4]"
    by (simp add: circ_push_def)
  moreover have "m_circularBuffer ?p' ! pCircWrite p = S - 4"
    using assms(10) by (simp add: circ_push_def)
  moreover have "m_frameCount ?p' = m_frameCount p + 1" by (simp add: circ_push_def)
  moreover have "pCircWrite ?p' = (if pCircWrite p + 1 = 30 then 0 else pCircWrite p + 1)"
    by (simp add: circ_push_def)
  moreover have "m_framesReady ?p'" by simp
  moreover have "uint (m_currentTimeStamp ?p') = (uint T + r) mod 2 ^ 64"
    unfolding ts u ..
  moreover have "0 \<le> uint T + r \<and> uint T + r < 2 ^ 64 \<longrightarrow> uint (m_currentTimeStamp ?p') = uint T + r"
    unfolding ts u by simp
  moreover have "- (2 ^ 63) \<le> uint T + r \<and> uint T + r < 2 ^ 63 \<longrightarrow> sint (m_currentTimeStamp ?p') = uint T + r"
  proof
    assume a: "- (2 ^ 63) \<le> uint T + r \<and> uint T + r < 2 ^ 63"
    have "T + word_of_int r = (word_of_int (uint T + r) :: QWORD)" by simp
    moreover have "sint (word_of_int (uint T + r) :: QWORD) = signed_take_bit 63 (uint T + r)"
      unfolding sint_sbintrunc' by simp
    moreover have "signed_take_bit 63 (uint T + r) = uint T + r"
      using a by (intro signed_take_bit_int_eq_self) simp_all
    ultimately show "sint (m_currentTimeStamp ?p') = uint T + r" unfolding ts by metis
  qed
  ultimately show ?thesis using pb ts by blast
qed

text \<open>
  Scenario E of the spec in a cluster with timecode 1000: the element A3 87 with the
  payload 81 00 10 80 and three frame bytes.
\<close>

lemma scenario_E_header:
  "ReadEbmlElementHeader
     \<lparr> mem = [0xA3, 0x87, 0x81, 0x00, 0x10, 0x80, 1, 2, 3], pData = 0, cbLen = 9, pAte = 0 \<rparr>
   = ok (\<lparr> id_h = 0xA3, elemsize = 7, headsize = 2 \<rparr>,
         \<lparr> mem = [0xA3, 0x87, 0x81, 0x00, 0x10, 0x80, 1, 2, 3], pData = 2, cbLen = 7, pAte = 2 \<rparr>)"
  by code_simp

theorem SimpleBlock_no_lacing_witness:
  "\<exists>p'. ParseBytes (Suc 0) (Parser_new\<lparr> m_currentBlockTimeCode := 1000 \<rparr>)
            [0xA3, 0x87, 0x81, 0x00, 0x10, 0x80, 1, 2, 3] 9 = ok (True, 6, p')
       \<and> m_currentStream p' = 1
       \<and> m_isCurrentKeyFrame p'
       \<and> m_circularBuffer p' ! 0 = 3
       \<and> m_frameCount p' = 1
       \<and> m_framesReady p'
       \<and> m_currentTimeStamp p' = 1016"
proof -
  let ?p = "Parser_new\<lparr> m_currentBlockTimeCode := 1000 \<rparr>"
  let ?m = "[0xA3, 0x87, 0x81, 0x00, 0x10, 0x80, 1, 2, 3] :: BYTE list"
  let ?r1 = "\<lparr> mem = ?m, pData = 2, cbLen = 7, pAte = 2 \<rparr> :: reader"
  have 1: "\<not> (9::DWORD) < 4" by simp
  have 3: "\<not> (7::DWORD) > cbLen ?r1" by simp
  have 4: "pData ?r1 + 3 < length (mem ?r1)" by simp
  have 5: "mem ?r1 ! pData ?r1 = 0x81" by simp
  have 6: "mem ?r1 ! (pData ?r1 + 1) = 0x00" by simp
  have 7: "mem ?r1 ! (pData ?r1 + 2) = 0x10" by simp
  have 8: "mem ?r1 ! (pData ?r1 + 3) = 0x80" by simp
  have 9: "(0x80::BYTE) AND 0x06 = 0" by simp
  have 10: "pCircWrite ?p < length (m_circularBuffer ?p)" by (simp add: Parser_new_def)
  have 11: "(1000::QWORD) = m_currentBlockTimeCode ?p" by simp
  have 12: "(16::int) = be_int16 0x00 0x10" by (simp add: be_int16_def)
  from SimpleBlock_no_lacing[OF 1 scenario_E_header 3 4 5 6 7 8 9 10 11 12, of 0]
  obtain p' where "ParseBytes (Suc 0) ?p ?m 9 = ok (True, pAte ?r1 + 4, p')"
    "m_currentStream p' = 1" "m_isCurrentKeyFrame p' = ((0x80::BYTE) AND 0x80 = 0x80)"
    "m_circularBuffer p' ! pCircWrite ?p = 7 - 4" "m_frameCount p' = m_frameCount ?p + 1"
    "m_framesReady p'" "m_currentTimeStamp p' = 1000 + word_of_int 16"
    by blast
  then show ?thesis by (simp add: Parser_new_def) 
qed

text \<open>
  A Timecode element (E7 82 03 E8, timecode 1000) followed by a SimpleBlock with the
  relative timecode FF FE (\<open>- 2\<close>): one call sets the cluster timecode and records the
  timestamp 998.
\<close>

lemma Timecode_then_SimpleBlock:
  "ParseBytes 2 Parser_new
     [0xE7, 0x82, 0x03, 0xE8, 0xA3, 0x87, 0x81, 0xFF, 0xFE, 0x80, 1, 2, 3] 13
   = ok (True, 10,
         (circ_push 3 (Parser_new\<lparr> m_currentBlockTimeCode := 1000, m_currentStream := 1,
                                   m_isCurrentKeyFrame := True, m_currentTimeStamp := 998 \<rparr>))
           \<lparr> m_framesReady := True \<rparr>)"
  by code_simp

section \<open>EBML lacing\<close>

lemma read_bytes_7:
  assumes rd: "pData r + 6 < length (mem r)"
  shows "read_byte r = ok (mem r ! pData r, advance (Suc 0) r)"
    "read_byte (advance (Suc 0) r) = ok (mem r ! (pData r + 1), advance 2 r)"
    "read_byte (advance 2 r) = ok (mem r ! (pData r + 2), advance 3 r)"
    "read_byte (advance 3 r) = ok (mem r ! (pData r + 3), advance 4 r)"
    "read_byte (advance 4 r) = ok (mem r ! (pData r + 4), advance 5 r)"
    "read_byte (advance 5 r) = ok (mem r ! (pData r + 5), advance 6 r)"
    "read_byte (advance 6 r) = ok (mem r ! (pData r + 6), advance 7 r)"
  using rd read_byte_at[of r 0] read_byte_at[of r 1] read_byte_at[of r 2] read_byte_at[of r 3]
    read_byte_at[of r 4] read_byte_at[of r 5] read_byte_at[of r 6]
  by (simp_all add: eval_nat_numeral)

lemma SimpleBlock_ebml_laced_eq:
  assumes rd: "pData r + 6 < length (mem r)"
    and bytes: "mem r ! pData r = 0x81" "mem r ! (pData r + 1) = 0x00" "mem r ! (pData r + 2) = 0x00"
      "mem r ! (pData r + 3) = 0x06" "mem r ! (pData r + 4) = 0x02" "mem r ! (pData r + 5) = 0x83"
      "mem r ! (pData r + 6) = 0x83"
  shows "SimpleBlock size' p r
     = ok ((circ_push (word_of_int (- 65536 + (3 - 63)))
             (circ_push (word_of_int (- 65536 + (3 - 63)))
               (circ_push (word_of_int (- 65536))
                 (p\<lparr> m_currentStream := 1, m_isCurrentKeyFrame := False,
                      m_currentTimeStamp := m_currentBlockTimeCode p \<rparr>))))
             \<lparr> m_framesReady := True \<rparr>,
           advance 7 r)"
proof -
  have b: "mem r ! Suc (pData r) = 0" "mem r ! Suc (Suc (pData r)) = 0"
    using bytes(2,3) by simp_all
  have n: "(18446744073709486020::DWORD) = - 65596" "(18446744073709486080::DWORD) = - 65536"
    by simp_all
  show ?thesis
    unfolding SimpleBlock_def
    by (simp add: read_bytes_7[OF rd] bytes b n Let_def ebml_lacing_def ebml_first_size_def
        ebml_next_size_def cong: bindR_weak_cong)
qed

text \<open>
  Claim C4, as amended.  For a SimpleBlock whose payload begins
  81 00 00 06 02 83 83, the framer records exactly three frame sizes (the lace-count
  byte 2 plus 1), and the second recorded size is the first one plus the
  signed-biased difference decoded from 0x83, which is \<open>3 - 63 = - 60\<close>.
\<close>

theorem ebml_laced_block:
  assumes "\<not> cbLen0 < 4"
    and "ReadEbmlElementHeader \<lparr> mem = memory, pData = 0, cbLen = cbLen0, pAte = 0 \<rparr>
           = ok (\<lparr> id_h = 0xA3, elemsize = S, headsize = h \<rparr>, r1)"
    and "\<not> S > cbLen r1"
    and "pData r1 + 6 < length (mem r1)"
    and "mem r1 ! pData r1 = 0x81" "mem r1 ! (pData r1 + 1) = 0x00"
      "mem r1 ! (pData r1 + 2) = 0x00" "mem r1 ! (pData r1 + 3) = 0x06"
      "mem r1 ! (pData r1 + 4) = 0x02" "mem r1 ! (pData r1 + 5) = 0x83"
      "mem r1 ! (pData r1 + 6) = 0x83"
  shows "\<exists>s1 s2 s3.
           ParseBytes (Suc fuel) p memory cbLen0
             = ok (True, pAte r1 + 7,
                   (circ_push s3 (circ_push s2 (circ_push s1
                      (p\<lparr> m_currentStream := 1, m_isCurrentKeyFrame := False,
                           m_currentTimeStamp := m_currentBlockTimeCode p \<rparr>))))
                     \<lparr> m_framesReady := True \<rparr>)
         \<and> sint s2 = sint s1 + (3 - 63)"
proof -
  have sb: "SimpleBlock S p r1
     = ok ((circ_push (word_of_int (- 65536 + (3 - 63)))
             (circ_push (word_of_int (- 65536 + (3 - 63)))
               (circ_push (word_of_int (- 65536))
                 (p\<lparr> m_currentStream := 1, m_isCurrentKeyFrame := False,
                      m_currentTimeStamp := m_currentBlockTimeCode p \<rparr>))))
             \<lparr> m_framesReady := True \<rparr>,
           advance 7 r1)"
    using SimpleBlock_ebml_laced_eq[OF assms(4-11)] .
  have pb: "ParseBytes (Suc fuel) p memory cbLen0
     = ok (True, pAte r1 + 7,
           (circ_push (word_of_int (- 65536 + (3 - 63)))
             (circ_push (word_of_int (- 65536 + (3 - 63)))
               (circ_push (word_of_int (- 65536))
                 (p\<lparr> m_currentStream := 1, m_isCurrentKeyFrame := False,
                      m_currentTimeStamp := m_currentBlockTimeCode p \<rparr>))))
             \<lparr> m_framesReady := True \<rparr>)"
    using ParseBytes_SimpleBlock[OF assms(1,2,3), of fuel p] unfolding sb by simp
  have "sint (word_of_int (- 65536 + (3 - 63)) :: DWORD)
          = sint (word_of_int (- 65536) :: DWORD) + (3 - 63)"
    by simp
  then show ?thesis using pb by blast
qed

text \<open>
  Scenario F of the spec: the element A3 90 with the payload 81 00 00 06 02 83 83 and
  nine frame bytes.
\<close>

lemma scenario_F_header:
  "ReadEbmlElementHeader
     \<lparr> mem = [0xA3, 0x90, 0x81, 0x00, 0x00, 0x06, 0x02, 0x83, 0x83, 1, 2, 3, 4, 5, 6, 7, 8, 9],
       pData = 0, cbLen = 18, pAte = 0 \<rparr>
   = ok (\<lparr> id_h = 0xA3, elemsize = 16, headsize = 2 \<rparr>,
         \<lparr> mem = [0xA3, 0x90, 0x81, 0x00, 0x00, 0x06, 0x02, 0x83, 0x83, 1, 2, 3, 4, 5, 6, 7, 8, 9],
           pData = 2, cbLen = 16, pAte = 2 \<rparr>)"
  by code_simp

theorem ebml_laced_block_witness:
  "\<exists>s1 s2 s3.
     ParseBytes (Suc 0) Parser_new
       [0xA3, 0x90, 0x81, 0x00, 0x00, 0x06, 0x02, 0x83, 0x83, 1, 2, 3, 4, 5, 6, 7, 8, 9] 18
       = ok (True, 9,
             (circ_push s3 (circ_push s2 (circ_push s1
                (Parser_new\<lparr> m_currentStream := 1, m_isCurrentKeyFrame := False,
                             m_currentTimeStamp := m_currentBlockTimeCode Parser_new \<rparr>))))
               \<lparr> m_framesReady := True \<rparr>)
   \<and> sint s2 = sint s1 + (3 - 63)"
proof -
  let ?m = "[0xA3, 0x90, 0x81, 0x00, 0x00, 0x06, 0x02, 0x83, 0x83, 1, 2, 3, 4, 5, 6, 7, 8, 9] :: BYTE list"
  let ?r1 = "\<lparr> mem = ?m, pData = 2, cbLen = 16, pAte = 2 \<rparr> :: reader"
  have 1: "\<not> (18::DWORD) < 4" by simp
  have 3: "\<not> (16::DWORD) > cbLen ?r1" by simp
  have 4: "pData ?r1 + 6 < length (mem ?r1)" by simp
  have 5: "mem ?r1 ! pData ?r1 = 0x81" "mem ?r1 ! (pData ?r1 + 1) = 0x00"
      "mem ?r1 ! (pData ?r1 + 2) = 0x00" "mem ?r1 ! (pData ?r1 + 3) = 0x06"
      "mem ?r1 ! (pData ?r1 + 4) = 0x02" "mem ?r1 ! (pData ?r1 + 5) = 0x83"
      "mem ?r1 ! (pData ?r1 + 6) = 0x83"
    by simp_all
  show ?thesis
    using ebml_laced_block[OF 1 scenario_F_header 3 4 5, of 0 Parser_new] by simp
qed

text \<open>
  On scenario F the three recorded sizes are \<open>- 65536\<close>, \<open>- 65596\<close> and \<open>- 65596\<close>, not
  3, 3 and 3.
\<close>

theorem ebml_laced_sizes_counterexample:
  "ParseBytes (Suc 0) Parser_new
     [0xA3, 0x90, 0x81, 0x00, 0x00, 0x06, 0x02, 0x83, 0x83, 1, 2, 3, 4, 5, 6, 7, 8, 9] 18
     = ok (True, 9,
           (circ_push (- 65596) (circ_push (- 65596) (circ_push (- 65536)
              (Parser_new\<lparr> m_currentStream := 1 \<rparr>))))\<lparr> m_framesReady := True \<rparr>)
   \<and> map sint (take 3 (m_circularBuffer
         ((circ_push (- 65596) (circ_push (- 65596) (circ_push (- 65536)
              (Parser_new\<lparr> m_currentStream := 1 \<rparr>))))\<lparr> m_framesReady := True \<rparr>)))
       = [- 65536, - 65596, - 65596]
   \<and> map sint (take 3 (m_circularBuffer
         ((circ_push (- 65596) (circ_push (- 65596) (circ_push (- 65536)
              (Parser_new\<lparr> m_currentStream := 1 \<rparr>))))\<lparr> m_framesReady := True \<rparr>)))
       \<noteq> [3, 3, 3]"
  by code_simp
section \<open>Signed integers: the size differences of an EBML-laced block\<close>

text \<open>
  The only signed variable-length integers that the parser decodes are the size
  differences of an EBML-laced block, in the loop over the frames of
  \<^verbatim>\<open>ParseBytes\<close>; the signed mode of \<^verbatim>\<open>ReadMatroskaNumber\<close> is never asked for.
\<close>

lemma bit6_byte:
  fixes t0 :: BYTE
  assumes "64 \<le> uint t0" "uint t0 < 128"
  shows "t0 AND 0x80 = 0" "t0 AND 0x40 \<noteq> 0"
proof -
  have "\<not> 128 \<le> uint t0" using assms(2) by simp
  then show "t0 AND 0x80 = 0" using top_bit_byte[of t0] by simp
  have "uint t0 AND 2 ^ 6 \<noteq> 0" using top_bit_set(1)[of 6 "uint t0"] assms by simp
  moreover have "uint (t0 AND 0x40) = uint t0 AND 2 ^ 6" by (simp add: uint_and)
  ultimately have "uint (t0 AND 0x40) \<noteq> 0" by simp
  then show "t0 AND 0x40 \<noteq> 0" by auto
qed

lemma ebml_next_size_one_byte:
  assumes p: "pData r < length (mem r)" and t: "128 \<le> uint (mem r ! pData r)"
  shows "ebml_next_size lastFramelength r
           = ok (lastFramelength + word_of_int (uint (mem r ! pData r) - 128 - 63), advance 1 r)"
  using t by (simp add: ebml_next_size_def read_byte_ok[OF p] top_bit_byte)

lemma ebml_next_size_two_bytes:
  assumes p: "pData r + 1 < length (mem r)"
    and lo: "64 \<le> uint (mem r ! pData r)" and hi: "uint (mem r ! pData r) < 128"
  shows "ebml_next_size lastFramelength r
           = ok (lastFramelength
                   + word_of_int ((uint (mem r ! pData r) - 64) * 256 + uint (mem r ! (pData r + 1)) - 8191),
                 advance 2 r)"
proof -
  have p0: "pData r < length (mem r)" using p by simp
  have r1: "read_byte (advance (Suc 0) r) = ok (mem r ! Suc (pData r), advance 2 r)"
    using read_byte_at[of r 1] p by (simp add: numeral_2_eq_2)
  show ?thesis
    by (simp add: ebml_next_size_def read_byte_ok[OF p0] r1 bit6_byte[OF lo hi])
qed

text \<open>
  Claim C5, as amended.  Let a size difference of an EBML-laced block be a signed
  integer of width \<open>w = k + 1\<close> of 1 or 2 bytes (its first byte has the most
  significant 1-bit at position \<open>k \<le> 1\<close> from the top) whose bytes are readable.  The
  framer decodes it to the big-endian integer of the \<open>w\<close> bytes with the marker bit
  cleared, minus \<open>2 ^ (7 w - 1) - 1\<close>, and the size of the frame is the size of the
  frame before plus that value, in 64-bit arithmetic; the loop over the frames records
  it in the ring and goes on behind the \<open>w\<close> bytes.
\<close>

theorem signed_lace_delta:
  assumes "k \<le> 1"
    and "2 ^ (7 - k) \<le> unat (mem r ! pData r)"
    and "unat (mem r ! pData r) < 2 ^ (8 - k)"
    and "pData r + k < length (mem r)"
    and "bytes = take (Suc k) (drop (pData r) (mem r))"
    and "delta = int (be_nat bytes - 2 ^ (7 * Suc k)) - (2 ^ (7 * Suc k - 1) - 1)"
  shows "ebml_next_size lastFramelength r
           = ok (lastFramelength + word_of_int delta, advance (Suc k) r)
       \<and> ebml_middle (Suc n) lastFramelength p r
           = ebml_middle n (lastFramelength + word_of_int delta)
               (circ_push (ucast (lastFramelength + word_of_int delta)) p) (advance (Suc k) r)
       \<and> 2 ^ (7 * Suc k) \<le> be_nat bytes \<and> be_nat bytes < 2 ^ (7 * Suc k + 1)"
proof -
  have k7: "k \<le> 7" using assms(1) by simp
  note R = vint_bytes_range[OF k7 assms(2-5)]
  let ?b = "mem r ! pData r"
  have u: "int (unat x) = uint x" for x :: BYTE by (simp only: uint_nat)
  have 1: "ebml_next_size lastFramelength r
             = ok (lastFramelength + word_of_int delta, advance (Suc k) r)"
  proof (cases "k = 0")
    case True
    have p: "pData r < length (mem r)" using assms(4) by simp
    have lo: "128 \<le> unat ?b" using assms(2) True by simp
    have t: "128 \<le> uint ?b" using uint_ge_pow2[of 7 ?b] lo by simp
    have "bytes = [?b]" using R(1) True by simp
    then have "be_nat bytes = unat ?b" by (simp add: be_nat_Cons)
    then have "delta = int (unat ?b - 128) - 63" using assms(6) True by simp
    also have "int (unat ?b - 128) = int (unat ?b) - 128" using lo by (simp add: of_nat_diff)
    finally have "delta = uint ?b - 128 - 63" unfolding u .
    then show ?thesis using ebml_next_size_one_byte[OF p t, of lastFramelength] True by simp
  next
    case False
    then have k1: "k = 1" using assms(1) by simp
    have p: "pData r + 1 < length (mem r)" using assms(4) k1 by simp
    have lo: "64 \<le> unat ?b" using assms(2) k1 by simp
    have lo': "64 \<le> uint ?b" using uint_ge_pow2[of 6 ?b] lo by simp
    have "unat ?b < 2 ^ 7" using assms(3) k1 by simp
    then have hi': "uint ?b < 128" using uint_less_pow2[of ?b 7] by simp
    have "take 1 (drop (Suc (pData r)) (mem r)) = [mem r ! (pData r + 1)]"
      using p by (simp add: take_Suc_conv_app_nth)
    then have "bytes = [?b, mem r ! (pData r + 1)]" using R(1) k1 by simp
    then have "be_nat bytes = unat ?b * 256 + unat (mem r ! (pData r + 1))"
      by (simp add: be_nat_Cons)
    then have d: "delta = int (unat ?b * 256 + unat (mem r ! (pData r + 1)) - 16384) - 8191"
      using assms(6) k1 by simp
    have "16384 \<le> unat ?b * 256 + unat (mem r ! (pData r + 1))" using lo by simp
    then have "int (unat ?b * 256 + unat (mem r ! (pData r + 1)) - 16384)
        = int (unat ?b) * 256 + int (unat (mem r ! (pData r + 1))) - 16384"
      by (simp add: of_nat_diff)
    also have "\<dots> = (uint ?b - 64) * 256 + uint (mem r ! (pData r + 1))"
      unfolding u by simp
    finally have "delta = (uint ?b - 64) * 256 + uint (mem r ! (pData r + 1)) - 8191"
      using d by simp
    then show ?thesis
      using ebml_next_size_two_bytes[OF p lo' hi', of lastFramelength] k1
      by (simp add: numeral_2_eq_2)
  qed
  have 2: "ebml_middle (Suc n) lastFramelength p r
           = ebml_middle n (lastFramelength + word_of_int delta)
               (circ_push (ucast (lastFramelength + word_of_int delta)) p) (advance (Suc k) r)"
    by (simp add: 1)
  show ?thesis using 1 2 R(2,3) by blast
qed

text \<open>
  After a frame of 100 bytes, the one-byte difference 83 (cleared value 3) gives
  \<open>100 + (3 - 63) = 40\<close>, and the two-byte difference 60 09 (cleared value
  \<open>0x2009 = 8201\<close>) gives \<open>100 + (8201 - 8191) = 110\<close>.
\<close>

theorem signed_lace_delta_witness:
  "ebml_next_size 100 \<lparr> mem = [0x83], pData = 0, cbLen = 1, pAte = 0 \<rparr>
     = ok (40, \<lparr> mem = [0x83], pData = 1, cbLen = 0, pAte = 1 \<rparr>)
   \<and> ebml_next_size 100 \<lparr> mem = [0x60, 0x09], pData = 0, cbLen = 2, pAte = 0 \<rparr>
     = ok (110, \<lparr> mem = [0x60, 0x09], pData = 2, cbLen = 0, pAte = 2 \<rparr>)"
proof -
  let ?r = "\<lparr> mem = [0x83], pData = 0, cbLen = 1, pAte = 0 \<rparr> :: reader"
  let ?s = "\<lparr> mem = [0x60, 0x09], pData = 0, cbLen = 2, pAte = 0 \<rparr> :: reader"
  have a: "int (be_nat [0x83] - 2 ^ (7 * Suc 0)) - (2 ^ (7 * Suc 0 - 1) - 1) = - 60"
    by (simp add: be_nat_Cons)
  have b: "int (be_nat [0x60, 0x09] - 2 ^ (7 * Suc 1)) - (2 ^ (7 * Suc 1 - 1) - 1) = 10"
    by (simp add: be_nat_Cons)
  have 1: "ebml_next_size 100 ?r = ok (100 + word_of_int (- 60), advance (Suc 0) ?r)"
    using signed_lace_delta[of 0 ?r "[0x83]" "- 60" 100 0 Parser_new] a by simp
  have 2: "ebml_next_size 100 ?s = ok (100 + word_of_int 10, advance (Suc 1) ?s)"
    using signed_lace_delta[of 1 ?s "[0x60, 0x09]" 10 100 0 Parser_new] b by simp
  show ?thesis unfolding 1 2 by (simp add: advance_def)
qed

text \<open>
  A difference of five bytes.  The SimpleBlock A3 95 with the payload 81 00 00 06 02,
  the first size 40 03 and the difference 0C 00 00 00 00, whose cleared value is
  \<open>2 ^ 34\<close>, so that the claim decodes it to \<open>2 ^ 34 - (2 ^ 34 - 1) = 1\<close>: the framer
  throws \<^verbatim>\<open>Exception(-4, L"laced frame size bigger than 3 bytes")\<close>.
\<close>

theorem signed_five_bytes_counterexample:
  "ParseBytes (Suc 0) Parser_new
     [0xA3, 0x95, 0x81, 0x00, 0x00, 0x06, 0x02, 0x40, 0x03, 0x0C, 0, 0, 0, 0,
      1, 2, 3, 4, 5, 6, 7, 8, 9] 23
     = throw LacedFrameSizeTooBig
   \<and> int (be_nat [0x0C, 0, 0, 0, 0] - 2 ^ (7 * 5)) - (2 ^ (7 * 5 - 1) - 1) = 1"
proof -
  have "ParseBytes (Suc 0) Parser_new
     [0xA3, 0x95, 0x81, 0x00, 0x00, 0x06, 0x02, 0x40, 0x03, 0x0C, 0, 0, 0, 0,
      1, 2, 3, 4, 5, 6, 7, 8, 9] 23
     = throw LacedFrameSizeTooBig"
    by code_simp
  moreover have "int (be_nat [0x0C, 0, 0, 0, 0] - 2 ^ (7 * 5)) - (2 ^ (7 * 5 - 1) - 1) = 1"
    by (simp add: be_nat_Cons)
  ultimately show ?thesis by simp
qed

text \<open>
  A difference of three bytes is decoded with \<^verbatim>\<open>temp[0] - 0x32\<close> where the marker bit
  is \<^verbatim>\<open>0x20\<close>: the difference 30 27 0F, whose cleared value is \<open>0x10270F\<close> and which
  stands for \<open>0x10270F - (2 ^ 20 - 1) = 10000\<close>, is decoded to \<open>- 1169648\<close>.
\<close>

lemma ebml_next_size_three_bytes:
  "ebml_next_size 100 \<lparr> mem = [0x30, 0x27, 0x0F], pData = 0, cbLen = 3, pAte = 0 \<rparr>
     = ok (100 + word_of_int (- 1169648), \<lparr> mem = [0x30, 0x27, 0x0F], pData = 3, cbLen = 0, pAte = 3 \<rparr>)
   \<and> int (be_nat [0x30, 0x27, 0x0F] - 2 ^ (7 * 3)) - (2 ^ (7 * 3 - 1) - 1) = 10000"
proof -
  have "ebml_next_size 100 \<lparr> mem = [0x30, 0x27, 0x0F], pData = 0, cbLen = 3, pAte = 0 \<rparr>
     = ok (100 + word_of_int (- 1169648), \<lparr> mem = [0x30, 0x27, 0x0F], pData = 3, cbLen = 0, pAte = 3 \<rparr>)"
    by code_simp
  moreover have "int (be_nat [0x30, 0x27, 0x0F] - 2 ^ (7 * 3)) - (2 ^ (7 * 3 - 1) - 1) = 10000"
    by (simp add: be_nat_Cons)
  ultimately show ?thesis by simp
qed


end
